theory Spec2Isabelle
  imports Complex_Main "HOL-Library.Word" "HOL-Library.Log_Nat" "HOL-Library.Sublist"
begin

section \<open>Go values\<close>

text \<open>
  The exporter is written in Go. A \<^verbatim>\<open>uint64\<close> is a 64-bit word, a \<^verbatim>\<open>uint32\<close> or
  \<^verbatim>\<open>int32\<close> a 32-bit word (read with \<open>uint\<close> or \<open>sint\<close>), a Go \<^verbatim>\<open>int\<close> an
  integer (every \<^verbatim>\<open>int\<close> of the program is a process id, a thread id or a slice
  index, and \<open>strconv_Atoi\<close> below clamps what it parses to the 64-bit range). A Go string is
  a byte sequence, here a \<open>string\<close>.
\<close>

type_synonym uint64 = "64 word"
type_synonym uint32 = "32 word"
type_synonym int32 = "32 word"

subsection \<open>float64\<close>

text \<open>
  Every metric value is a \<^verbatim>\<open>float64\<close>. A finite binary64 number is a rational, and each
  arithmetic operation of Go returns the exact result rounded to the nearest binary64
  number, ties to the even significand. \<open>fl64\<close> is that rounding for the normal range:
  for \<open>2 ^ e \<le> \<bar>x\<bar> < 2 ^ (e + 1)\<close> the representable numbers are the multiples of
  \<open>2 ^ (e - 52)\<close>. Overflow, subnormal numbers and division by zero are not modelled:
  the program only converts 64-bit and 32-bit integers, multiplies by 1024 and divides by
  1000, 1e9, 100 or by a hundredth of a non-zero converted integer, so no value leaves
  the normal range and no divisor is zero.
\<close>

type_synonym float64 = rat

definition ilog2 :: "rat \<Rightarrow> int" where
  \<comment> \<open>for \<open>0 < x\<close>, the \<open>e\<close> with \<open>2 ^ e \<le> x < 2 ^ (e + 1)\<close>\<close>
  "ilog2 x = (let (p, q) = quotient_of x; k = bitlen p - bitlen q in
              if 2 powi k \<le> x then k else k - 1)"

definition round_even :: "rat \<Rightarrow> int" where
  "round_even x = (let f = \<lfloor>x\<rfloor>; r = x - of_int f in
     if r < 1 / 2 then f else if 1 / 2 < r then f + 1 else if even f then f else f + 1)"

definition fl64 :: "rat \<Rightarrow> float64" where
  "fl64 x = (if x = 0 then 0 else
      let u = 2 powi (ilog2 \<bar>x\<bar> - 52) in of_int (round_even (x / u)) * u)"

definition float64_of_uint64 :: "uint64 \<Rightarrow> float64" where
  "float64_of_uint64 w = fl64 (of_int (uint w))"

definition float64_of_uint32 :: "uint32 \<Rightarrow> float64" where
  "float64_of_uint32 w = fl64 (of_int (uint w))"

definition float64_of_int32 :: "int32 \<Rightarrow> float64" where
  "float64_of_int32 w = fl64 (of_int (sint w))"

definition float64_of_int :: "int \<Rightarrow> float64" where
  "float64_of_int i = fl64 (of_int i)"

definition f64_sub :: "float64 \<Rightarrow> float64 \<Rightarrow> float64" where
  "f64_sub a b = fl64 (a - b)"

definition f64_mul :: "float64 \<Rightarrow> float64 \<Rightarrow> float64" where
  "f64_mul a b = fl64 (a * b)"

definition f64_div :: "float64 \<Rightarrow> float64 \<Rightarrow> float64" where
  "f64_div a b = fl64 (a / b)"

subsection \<open>strconv, strings, path/filepath\<close>

definition is_digit :: "char \<Rightarrow> bool" where
  "is_digit c = (48 \<le> (of_char c :: nat) \<and> (of_char c :: nat) \<le> 57)"

definition digit_char :: "int \<Rightarrow> char" where
  "digit_char d = char_of (48 + d)"

definition digit_val :: "char \<Rightarrow> int" where
  "digit_val c = of_char c - 48"

function format_dec :: "int \<Rightarrow> string" where
  \<comment> \<open>the decimal digits of a non-negative integer\<close>
  "format_dec n = (if n < 10 then [digit_char n]
                   else format_dec (n div 10) @ [digit_char (n mod 10)])"
  by pat_completeness auto
termination
  by (relation "measure nat") auto

declare format_dec.simps [simp del]

definition parse_dec :: "string \<Rightarrow> int" where
  "parse_dec ds = foldl (\<lambda>acc c. 10 * acc + digit_val c) 0 ds"

definition strconv_Itoa :: "int \<Rightarrow> string" where
  "strconv_Itoa i = (if i < 0 then CHR ''-'' # format_dec (- i) else format_dec i)"

definition strconv_FormatInt10 :: "int \<Rightarrow> string" where
  \<comment> \<open>\<^verbatim>\<open>strconv.FormatInt(i, 10)\<close>\<close>
  "strconv_FormatInt10 i = strconv_Itoa i"

definition strconv_Atoi :: "string \<Rightarrow> int \<times> bool" where
  \<comment> \<open>the value and whether \<^verbatim>\<open>err == nil\<close>: an optional sign, then decimal digits only;
      a syntax error gives 0, a range error the nearest 64-bit bound\<close>
  "strconv_Atoi s =
     (let (neg, ds) = (case s of
                         [] \<Rightarrow> (False, [])
                       | c # r \<Rightarrow> if c = CHR ''-'' then (True, r)
                                  else if c = CHR ''+'' then (False, r) else (False, s))
      in if ds = [] \<or> \<not> list_all is_digit ds then (0, False)
         else let n = parse_dec ds
              in if \<not> neg \<and> 2 ^ 63 \<le> n then (2 ^ 63 - 1, False)
                 else if neg \<and> 2 ^ 63 < n then (- (2 ^ 63), False)
                 else (if neg then - n else n, True))"

definition strings_Contains :: "string \<Rightarrow> string \<Rightarrow> bool" where
  "strings_Contains s substr = sublist substr s"

fun split_slash :: "string \<Rightarrow> string \<Rightarrow> string list" where
  \<comment> \<open>the elements of a path between its separators; the first argument is the element
      being read, reversed\<close>
  "split_slash cur [] = [rev cur]"
| "split_slash cur (c # cs) =
     (if c = CHR ''/'' then rev cur # split_slash [] cs else split_slash (c # cur) cs)"

fun clean_elems :: "bool \<Rightarrow> string list \<Rightarrow> string list \<Rightarrow> string list" where
  \<comment> \<open>\<^verbatim>\<open>filepath.Clean\<close> on elements: the second argument is the cleaned prefix, reversed\<close>
  "clean_elems rooted acc [] = rev acc"
| "clean_elems rooted acc (e # es) =
     (if e = [] \<or> e = ''.'' then clean_elems rooted acc es
      else if e = ''..'' then
        (case acc of
           [] \<Rightarrow> if rooted then clean_elems rooted [] es else clean_elems rooted [''..''] es
         | a # as \<Rightarrow> if a = ''..'' then clean_elems rooted (''..'' # acc) es
                     else clean_elems rooted as es)
      else clean_elems rooted (e # acc) es)"

fun join_slash :: "string list \<Rightarrow> string" where
  "join_slash [] = []"
| "join_slash [e] = e"
| "join_slash (e # es) = e @ ''/'' @ join_slash es"

definition filepath_Clean :: "string \<Rightarrow> string" where
  "filepath_Clean p =
     (let rooted = (p \<noteq> [] \<and> hd p = CHR ''/'');
          out = (if rooted then ''/'' else []) @ join_slash (clean_elems rooted [] (split_slash [] p))
      in if out = [] then ''.'' else out)"

definition filepath_Join :: "string list \<Rightarrow> string" where
  \<comment> \<open>empty elements are ignored, the rest is joined with the separator and cleaned\<close>
  "filepath_Join elem =
     (let es = filter (\<lambda>e. e \<noteq> []) elem
      in if es = [] then [] else filepath_Clean (join_slash es))"

subsection \<open>Errors\<close>

text \<open>
  A Go \<^verbatim>\<open>error\<close> is either a \<^verbatim>\<open>libvirt.Error\<close>, with its code and message, or an error
  of another type (an XML or a scanning error). The type assertion
  \<^verbatim>\<open>lverr, ok := err.(libvirt.Error)\<close> gives the zero \<^verbatim>\<open>libvirt.Error\<close>, whose code is
  \<^verbatim>\<open>ERR_OK\<close>, when it fails. The codes are those of libvirt's \<^verbatim>\<open>virErrorNumber\<close>.
\<close>

record libvirt_Error =
  Code :: int
  Error_Domain :: int
  Message :: string

datatype error = LibvirtError libvirt_Error | OtherError string

definition ERR_OK :: int where "ERR_OK = 0"
definition ERR_OPERATION_INVALID :: int where "ERR_OPERATION_INVALID = 55"
definition ERR_OPERATION_UNSUPPORTED :: int where "ERR_OPERATION_UNSUPPORTED = 84"

fun as_libvirt_Error :: "error \<Rightarrow> libvirt_Error \<times> bool" where
  "as_libvirt_Error (LibvirtError e) = (e, True)"
| "as_libvirt_Error (OtherError s) = (\<lparr>Code = ERR_OK, Error_Domain = 0, Message = []\<rparr>, False)"

fun Error :: "error \<Rightarrow> string" where
  \<comment> \<open>\<^verbatim>\<open>err.Error()\<close>\<close>
  "Error (LibvirtError e) =
     ''virError(Code='' @ strconv_Itoa (Code e) @ '', Domain='' @ strconv_Itoa (Error_Domain e) @
     '', Message='' @ [CHR 0x27] @ Message e @ [CHR 0x27] @ '')''"
| "Error (OtherError s) = s"

section \<open>Metrics and the effects of a scrape\<close>

text \<open>
  A descriptor is built once, at start-up, from its fully qualified name and its label
  names (the help text plays no role in collection and is left out). A metric is a
  descriptor with a kind, a value and one label value per label name; every call of
  \<^verbatim>\<open>MustNewConstMetric\<close> in the program passes as many label values as its descriptor
  has label names, so its panic on a mismatch cannot occur and is not modelled.
\<close>

record Desc =
  fqName :: string
  variableLabels :: "string list"

definition BuildFQName :: "string \<Rightarrow> string \<Rightarrow> string \<Rightarrow> string" where
  "BuildFQName namespace subsystem name =
     (if name = [] then []
      else if namespace \<noteq> [] \<and> subsystem \<noteq> [] then namespace @ ''_'' @ subsystem @ ''_'' @ name
      else if namespace \<noteq> [] then namespace @ ''_'' @ name
      else if subsystem \<noteq> [] then subsystem @ ''_'' @ name
      else name)"

definition NewDesc :: "string \<Rightarrow> string list \<Rightarrow> Desc" where
  "NewDesc fq labels = \<lparr>fqName = fq, variableLabels = labels\<rparr>"

datatype ValueType = CounterValue | GaugeValue

record Metric =
  Metric_desc :: Desc
  Metric_valueType :: ValueType
  Metric_value :: float64
  Metric_labelValues :: "string list"

definition MustNewConstMetric :: "Desc \<Rightarrow> ValueType \<Rightarrow> float64 \<Rightarrow> string list \<Rightarrow> Metric" where
  "MustNewConstMetric d vt v lvs = \<lparr>Metric_desc = d, Metric_valueType = vt, Metric_value = v, Metric_labelValues = lvs\<rparr>"

definition libvirtUpDesc :: Desc where
  "libvirtUpDesc = NewDesc (BuildFQName ''libvirt'' '''' ''up'') []"

definition libvirtPoolInfoCapacity :: Desc where
  "libvirtPoolInfoCapacity = NewDesc (BuildFQName ''libvirt'' ''pool_info'' ''capacity_bytes'') [''pool'']"

definition libvirtPoolInfoAllocation :: Desc where
  "libvirtPoolInfoAllocation = NewDesc (BuildFQName ''libvirt'' ''pool_info'' ''allocation_bytes'') [''pool'']"

definition libvirtPoolInfoAvailable :: Desc where
  "libvirtPoolInfoAvailable = NewDesc (BuildFQName ''libvirt'' ''pool_info'' ''available_bytes'') [''pool'']"

definition libvirtVersionsInfoDesc :: Desc where
  "libvirtVersionsInfoDesc = NewDesc (BuildFQName ''libvirt'' '''' ''versions_info'') [''hypervisor_running'', ''libvirtd_running'', ''libvirt_library'']"

definition libvirtDomainInfoMetaDesc :: Desc where
  "libvirtDomainInfoMetaDesc = NewDesc (BuildFQName ''libvirt'' ''domain_info'' ''meta'') [''domain'', ''uuid'', ''instance_name'', ''flavor'', ''user_name'', ''user_uuid'', ''project_name'', ''project_uuid'', ''root_type'', ''root_uuid'']"

definition libvirtDomainInfoMaxMemBytesDesc :: Desc where
  "libvirtDomainInfoMaxMemBytesDesc = NewDesc (BuildFQName ''libvirt'' ''domain_info'' ''maximum_memory_bytes'') [''domain'']"

definition libvirtDomainInfoMemoryUsageBytesDesc :: Desc where
  "libvirtDomainInfoMemoryUsageBytesDesc = NewDesc (BuildFQName ''libvirt'' ''domain_info'' ''memory_usage_bytes'') [''domain'']"

definition libvirtDomainInfoNrVirtCPUDesc :: Desc where
  "libvirtDomainInfoNrVirtCPUDesc = NewDesc (BuildFQName ''libvirt'' ''domain_info'' ''virtual_cpus'') [''domain'']"

definition libvirtDomainInfoCPUTimeDesc :: Desc where
  "libvirtDomainInfoCPUTimeDesc = NewDesc (BuildFQName ''libvirt'' ''domain_info'' ''cpu_time_seconds_total'') [''domain'']"

definition libvirtDomainInfoVirDomainState :: Desc where
  "libvirtDomainInfoVirDomainState = NewDesc (BuildFQName ''libvirt'' ''domain_info'' ''vstate'') [''domain'']"

definition libvirtDomainVcpuTimeDesc :: Desc where
  "libvirtDomainVcpuTimeDesc = NewDesc (BuildFQName ''libvirt'' ''domain_vcpu'' ''time_seconds_total'') [''domain'', ''vcpu'']"

definition libvirtDomainVcpuDelayDesc :: Desc where
  "libvirtDomainVcpuDelayDesc = NewDesc (BuildFQName ''libvirt'' ''domain_vcpu'' ''delay_seconds_total'') [''domain'', ''vcpu'']"

definition libvirtDomainVcpuStateDesc :: Desc where
  "libvirtDomainVcpuStateDesc = NewDesc (BuildFQName ''libvirt'' ''domain_vcpu'' ''state'') [''domain'', ''vcpu'']"

definition libvirtDomainVcpuCPUDesc :: Desc where
  "libvirtDomainVcpuCPUDesc = NewDesc (BuildFQName ''libvirt'' ''domain_vcpu'' ''cpu'') [''domain'', ''vcpu'']"

definition libvirtDomainVcpuWaitDesc :: Desc where
  "libvirtDomainVcpuWaitDesc = NewDesc (BuildFQName ''libvirt'' ''domain_vcpu'' ''wait_seconds_total'') [''domain'', ''vcpu'']"

definition libvirtDomainMetaBlockDesc :: Desc where
  "libvirtDomainMetaBlockDesc = NewDesc (BuildFQName ''libvirt'' ''domain_block'' ''meta'') [''domain'', ''target_device'', ''source_file'', ''serial'', ''bus'', ''disk_type'', ''driver_type'', ''cache'', ''discard'']"

definition libvirtDomainBlockRdBytesDesc :: Desc where
  "libvirtDomainBlockRdBytesDesc = NewDesc (BuildFQName ''libvirt'' ''domain_block_stats'' ''read_bytes_total'') [''domain'', ''target_device'']"

definition libvirtDomainBlockRdReqDesc :: Desc where
  "libvirtDomainBlockRdReqDesc = NewDesc (BuildFQName ''libvirt'' ''domain_block_stats'' ''read_requests_total'') [''domain'', ''target_device'']"

definition libvirtDomainBlockRdTotalTimeSecondsDesc :: Desc where
  "libvirtDomainBlockRdTotalTimeSecondsDesc = NewDesc (BuildFQName ''libvirt'' ''domain_block_stats'' ''read_time_seconds_total'') [''domain'', ''target_device'']"

definition libvirtDomainBlockWrBytesDesc :: Desc where
  "libvirtDomainBlockWrBytesDesc = NewDesc (BuildFQName ''libvirt'' ''domain_block_stats'' ''write_bytes_total'') [''domain'', ''target_device'']"

definition libvirtDomainBlockWrReqDesc :: Desc where
  "libvirtDomainBlockWrReqDesc = NewDesc (BuildFQName ''libvirt'' ''domain_block_stats'' ''write_requests_total'') [''domain'', ''target_device'']"

definition libvirtDomainBlockWrTotalTimesDesc :: Desc where
  "libvirtDomainBlockWrTotalTimesDesc = NewDesc (BuildFQName ''libvirt'' ''domain_block_stats'' ''write_time_seconds_total'') [''domain'', ''target_device'']"

definition libvirtDomainBlockFlushReqDesc :: Desc where
  "libvirtDomainBlockFlushReqDesc = NewDesc (BuildFQName ''libvirt'' ''domain_block_stats'' ''flush_requests_total'') [''domain'', ''target_device'']"

definition libvirtDomainBlockFlushTotalTimeSecondsDesc :: Desc where
  "libvirtDomainBlockFlushTotalTimeSecondsDesc = NewDesc (BuildFQName ''libvirt'' ''domain_block_stats'' ''flush_time_seconds_total'') [''domain'', ''target_device'']"

definition libvirtDomainBlockAllocationDesc :: Desc where
  "libvirtDomainBlockAllocationDesc = NewDesc (BuildFQName ''libvirt'' ''domain_block_stats'' ''allocation'') [''domain'', ''target_device'']"

definition libvirtDomainBlockCapacityBytesDesc :: Desc where
  "libvirtDomainBlockCapacityBytesDesc = NewDesc (BuildFQName ''libvirt'' ''domain_block_stats'' ''capacity_bytes'') [''domain'', ''target_device'']"

definition libvirtDomainBlockPhysicalSizeBytesDesc :: Desc where
  "libvirtDomainBlockPhysicalSizeBytesDesc = NewDesc (BuildFQName ''libvirt'' ''domain_block_stats'' ''physicalsize_bytes'') [''domain'', ''target_device'']"

definition libvirtDomainBlockTotalBytesSecDesc :: Desc where
  "libvirtDomainBlockTotalBytesSecDesc = NewDesc (BuildFQName ''libvirt'' ''domain_block_stats'' ''limit_total_bytes'') [''domain'', ''target_device'']"

definition libvirtDomainBlockWriteBytesSecDesc :: Desc where
  "libvirtDomainBlockWriteBytesSecDesc = NewDesc (BuildFQName ''libvirt'' ''domain_block_stats'' ''limit_write_bytes'') [''domain'', ''target_device'']"

definition libvirtDomainBlockReadBytesSecDesc :: Desc where
  "libvirtDomainBlockReadBytesSecDesc = NewDesc (BuildFQName ''libvirt'' ''domain_block_stats'' ''limit_read_bytes'') [''domain'', ''target_device'']"

definition libvirtDomainBlockTotalIopsSecDesc :: Desc where
  "libvirtDomainBlockTotalIopsSecDesc = NewDesc (BuildFQName ''libvirt'' ''domain_block_stats'' ''limit_total_requests'') [''domain'', ''target_device'']"

definition libvirtDomainBlockWriteIopsSecDesc :: Desc where
  "libvirtDomainBlockWriteIopsSecDesc = NewDesc (BuildFQName ''libvirt'' ''domain_block_stats'' ''limit_write_requests'') [''domain'', ''target_device'']"

definition libvirtDomainBlockReadIopsSecDesc :: Desc where
  "libvirtDomainBlockReadIopsSecDesc = NewDesc (BuildFQName ''libvirt'' ''domain_block_stats'' ''limit_read_requests'') [''domain'', ''target_device'']"

definition libvirtDomainBlockTotalBytesSecMaxDesc :: Desc where
  "libvirtDomainBlockTotalBytesSecMaxDesc = NewDesc (BuildFQName ''libvirt'' ''domain_block_stats'' ''limit_burst_total_bytes'') [''domain'', ''target_device'']"

definition libvirtDomainBlockWriteBytesSecMaxDesc :: Desc where
  "libvirtDomainBlockWriteBytesSecMaxDesc = NewDesc (BuildFQName ''libvirt'' ''domain_block_stats'' ''limit_burst_write_bytes'') [''domain'', ''target_device'']"

definition libvirtDomainBlockReadBytesSecMaxDesc :: Desc where
  "libvirtDomainBlockReadBytesSecMaxDesc = NewDesc (BuildFQName ''libvirt'' ''domain_block_stats'' ''limit_burst_read_bytes'') [''domain'', ''target_device'']"

definition libvirtDomainBlockTotalIopsSecMaxDesc :: Desc where
  "libvirtDomainBlockTotalIopsSecMaxDesc = NewDesc (BuildFQName ''libvirt'' ''domain_block_stats'' ''limit_burst_total_requests'') [''domain'', ''target_device'']"

definition libvirtDomainBlockWriteIopsSecMaxDesc :: Desc where
  "libvirtDomainBlockWriteIopsSecMaxDesc = NewDesc (BuildFQName ''libvirt'' ''domain_block_stats'' ''limit_burst_write_requests'') [''domain'', ''target_device'']"

definition libvirtDomainBlockReadIopsSecMaxDesc :: Desc where
  "libvirtDomainBlockReadIopsSecMaxDesc = NewDesc (BuildFQName ''libvirt'' ''domain_block_stats'' ''limit_burst_read_requests'') [''domain'', ''target_device'']"

definition libvirtDomainBlockTotalBytesSecMaxLengthDesc :: Desc where
  "libvirtDomainBlockTotalBytesSecMaxLengthDesc = NewDesc (BuildFQName ''libvirt'' ''domain_block_stats'' ''limit_burst_total_bytes_length_seconds'') [''domain'', ''target_device'']"

definition libvirtDomainBlockWriteBytesSecMaxLengthDesc :: Desc where
  "libvirtDomainBlockWriteBytesSecMaxLengthDesc = NewDesc (BuildFQName ''libvirt'' ''domain_block_stats'' ''limit_burst_write_bytes_length_seconds'') [''domain'', ''target_device'']"

definition libvirtDomainBlockReadBytesSecMaxLengthDesc :: Desc where
  "libvirtDomainBlockReadBytesSecMaxLengthDesc = NewDesc (BuildFQName ''libvirt'' ''domain_block_stats'' ''limit_burst_read_bytes_length_seconds'') [''domain'', ''target_device'']"

definition libvirtDomainBlockTotalIopsSecMaxLengthDesc :: Desc where
  "libvirtDomainBlockTotalIopsSecMaxLengthDesc = NewDesc (BuildFQName ''libvirt'' ''domain_block_stats'' ''limit_burst_length_total_requests_seconds'') [''domain'', ''target_device'']"

definition libvirtDomainBlockWriteIopsSecMaxLengthDesc :: Desc where
  "libvirtDomainBlockWriteIopsSecMaxLengthDesc = NewDesc (BuildFQName ''libvirt'' ''domain_block_stats'' ''limit_burst_length_write_requests_seconds'') [''domain'', ''target_device'']"

definition libvirtDomainBlockReadIopsSecMaxLengthDesc :: Desc where
  "libvirtDomainBlockReadIopsSecMaxLengthDesc = NewDesc (BuildFQName ''libvirt'' ''domain_block_stats'' ''limit_burst_length_read_requests_seconds'') [''domain'', ''target_device'']"

definition libvirtDomainBlockSizeIopsSecDesc :: Desc where
  "libvirtDomainBlockSizeIopsSecDesc = NewDesc (BuildFQName ''libvirt'' ''domain_block_stats'' ''size_iops_bytes'') [''domain'', ''target_device'']"

definition libvirtDomainMetaInterfacesDesc :: Desc where
  "libvirtDomainMetaInterfacesDesc = NewDesc (BuildFQName ''libvirt'' ''domain_interface'' ''meta'') [''domain'', ''source_bridge'', ''target_device'', ''virtual_interface'']"

definition libvirtDomainInterfaceRxBytesDesc :: Desc where
  "libvirtDomainInterfaceRxBytesDesc = NewDesc (BuildFQName ''libvirt'' ''domain_interface_stats'' ''receive_bytes_total'') [''domain'', ''target_device'']"

definition libvirtDomainInterfaceRxPacketsDesc :: Desc where
  "libvirtDomainInterfaceRxPacketsDesc = NewDesc (BuildFQName ''libvirt'' ''domain_interface_stats'' ''receive_packets_total'') [''domain'', ''target_device'']"

definition libvirtDomainInterfaceRxErrsDesc :: Desc where
  "libvirtDomainInterfaceRxErrsDesc = NewDesc (BuildFQName ''libvirt'' ''domain_interface_stats'' ''receive_errors_total'') [''domain'', ''target_device'']"

definition libvirtDomainInterfaceRxDropDesc :: Desc where
  "libvirtDomainInterfaceRxDropDesc = NewDesc (BuildFQName ''libvirt'' ''domain_interface_stats'' ''receive_drops_total'') [''domain'', ''target_device'']"

definition libvirtDomainInterfaceTxBytesDesc :: Desc where
  "libvirtDomainInterfaceTxBytesDesc = NewDesc (BuildFQName ''libvirt'' ''domain_interface_stats'' ''transmit_bytes_total'') [''domain'', ''target_device'']"

definition libvirtDomainInterfaceTxPacketsDesc :: Desc where
  "libvirtDomainInterfaceTxPacketsDesc = NewDesc (BuildFQName ''libvirt'' ''domain_interface_stats'' ''transmit_packets_total'') [''domain'', ''target_device'']"

definition libvirtDomainInterfaceTxErrsDesc :: Desc where
  "libvirtDomainInterfaceTxErrsDesc = NewDesc (BuildFQName ''libvirt'' ''domain_interface_stats'' ''transmit_errors_total'') [''domain'', ''target_device'']"

definition libvirtDomainInterfaceTxDropDesc :: Desc where
  "libvirtDomainInterfaceTxDropDesc = NewDesc (BuildFQName ''libvirt'' ''domain_interface_stats'' ''transmit_drops_total'') [''domain'', ''target_device'']"

definition libvirtDomainMemoryStatMajorFaultTotalDesc :: Desc where
  "libvirtDomainMemoryStatMajorFaultTotalDesc = NewDesc (BuildFQName ''libvirt'' ''domain_memory_stats'' ''major_fault_total'') [''domain'']"

definition libvirtDomainMemoryStatMinorFaultTotalDesc :: Desc where
  "libvirtDomainMemoryStatMinorFaultTotalDesc = NewDesc (BuildFQName ''libvirt'' ''domain_memory_stats'' ''minor_fault_total'') [''domain'']"

definition libvirtDomainMemoryStatUnusedBytesDesc :: Desc where
  "libvirtDomainMemoryStatUnusedBytesDesc = NewDesc (BuildFQName ''libvirt'' ''domain_memory_stats'' ''unused_bytes'') [''domain'']"

definition libvirtDomainMemoryStatAvailableBytesDesc :: Desc where
  "libvirtDomainMemoryStatAvailableBytesDesc = NewDesc (BuildFQName ''libvirt'' ''domain_memory_stats'' ''available_bytes'') [''domain'']"

definition libvirtDomainMemoryStatActualBaloonBytesDesc :: Desc where
  "libvirtDomainMemoryStatActualBaloonBytesDesc = NewDesc (BuildFQName ''libvirt'' ''domain_memory_stats'' ''actual_balloon_bytes'') [''domain'']"

definition libvirtDomainMemoryStatRssBytesDesc :: Desc where
  "libvirtDomainMemoryStatRssBytesDesc = NewDesc (BuildFQName ''libvirt'' ''domain_memory_stats'' ''rss_bytes'') [''domain'']"

definition libvirtDomainMemoryStatUsableBytesDesc :: Desc where
  "libvirtDomainMemoryStatUsableBytesDesc = NewDesc (BuildFQName ''libvirt'' ''domain_memory_stats'' ''usable_bytes'') [''domain'']"

definition libvirtDomainMemoryStatDiskCachesBytesDesc :: Desc where
  "libvirtDomainMemoryStatDiskCachesBytesDesc = NewDesc (BuildFQName ''libvirt'' ''domain_memory_stats'' ''disk_cache_bytes'') [''domain'']"

definition libvirtDomainMemoryStatUsedPercentDesc :: Desc where
  "libvirtDomainMemoryStatUsedPercentDesc = NewDesc (BuildFQName ''libvirt'' ''domain_memory_stats'' ''used_percent'') [''domain'']"

text \<open>
  What a scrape does beyond returning is kept as a trace of events, in the order of the
  program: a metric sent on the channel, an event logged at error level with its
  key/value pairs, a call of \<^verbatim>\<open>utils.GetProcPIDSchedStat\<close> (with the index of the
  VCPU it is made for, its task root and its thread id), the release of a handle and the
  closing of the connection. The two package-level variables the collection reads and
  writes, \<^verbatim>\<open>errorsMap\<close> and \<^verbatim>\<open>processes\<close>, are the state.
\<close>

datatype logval = Str string | Err error

datatype handle = DomainHandle nat | PoolHandle nat

datatype event =
    Send Metric
  | LogError "(string \<times> logval) list"
  | Call_GetProcPIDSchedStat nat string int
  | Free handle
  | Close

record state =
  errorsMap :: "string set"
  processes :: "int list"

text \<open>
  How a function ends: it returns \<^verbatim>\<open>nil\<close>, it returns an error, it panics (a nil
  pointer dereference), or the process exits (\<^verbatim>\<open>log.Fatal\<close>).
\<close>

datatype outcome = Ok | Failed error | Panicked string | Exited

definition sent :: "event list \<Rightarrow> Metric list" where
  \<comment> \<open>the metrics of a trace, in the order they were sent\<close>
  "sent evs = concat (map (\<lambda>e. case e of Send m \<Rightarrow> [m] | _ \<Rightarrow> []) evs)"

section \<open>The hypervisor and the host\<close>

subsection \<open>Types of the libvirt binding\<close>

text \<open>
  The records keep the fields the exporter reads. A statistics field comes with its
  \<^verbatim>\<open>Set\<close> flag, as in the binding.
\<close>

record DomainInfo =
  Info_State :: int
  Info_MaxMem :: uint64
  Info_Memory :: uint64
  Info_NrVirtCpu :: uint64
  Info_CpuTime :: uint64

record DomainVcpuInfo =
  VcpuInfo_Number :: uint32
  VcpuInfo_State :: int32
  VcpuInfo_CpuTime :: uint64
  VcpuInfo_Cpu :: int32

record DomainStatsVcpu =
  Vcpu_WaitSet :: bool
  Vcpu_Wait :: uint64
  Vcpu_DelaySet :: bool
  Vcpu_Delay :: uint64

record DomainStatsBlock =
  Block_Name :: string
  Block_PathSet :: bool
  Block_Path :: string
  Block_RdBytesSet :: bool
  Block_RdBytes :: uint64
  Block_RdReqsSet :: bool
  Block_RdReqs :: uint64
  Block_RdTimesSet :: bool
  Block_RdTimes :: uint64
  Block_WrBytesSet :: bool
  Block_WrBytes :: uint64
  Block_WrReqsSet :: bool
  Block_WrReqs :: uint64
  Block_WrTimesSet :: bool
  Block_WrTimes :: uint64
  Block_FlReqsSet :: bool
  Block_FlReqs :: uint64
  Block_FlTimesSet :: bool
  Block_FlTimes :: uint64
  Block_AllocationSet :: bool
  Block_Allocation :: uint64
  Block_CapacitySet :: bool
  Block_Capacity :: uint64
  Block_PhysicalSet :: bool
  Block_Physical :: uint64

record DomainBlockIoTuneParameters =
  Tune_TotalBytesSecSet :: bool
  Tune_TotalBytesSec :: uint64
  Tune_ReadBytesSecSet :: bool
  Tune_ReadBytesSec :: uint64
  Tune_WriteBytesSecSet :: bool
  Tune_WriteBytesSec :: uint64
  Tune_TotalIopsSecSet :: bool
  Tune_TotalIopsSec :: uint64
  Tune_ReadIopsSecSet :: bool
  Tune_ReadIopsSec :: uint64
  Tune_WriteIopsSecSet :: bool
  Tune_WriteIopsSec :: uint64
  Tune_TotalBytesSecMaxSet :: bool
  Tune_TotalBytesSecMax :: uint64
  Tune_ReadBytesSecMaxSet :: bool
  Tune_ReadBytesSecMax :: uint64
  Tune_WriteBytesSecMaxSet :: bool
  Tune_WriteBytesSecMax :: uint64
  Tune_TotalIopsSecMaxSet :: bool
  Tune_TotalIopsSecMax :: uint64
  Tune_ReadIopsSecMaxSet :: bool
  Tune_ReadIopsSecMax :: uint64
  Tune_WriteIopsSecMaxSet :: bool
  Tune_WriteIopsSecMax :: uint64
  Tune_TotalBytesSecMaxLengthSet :: bool
  Tune_TotalBytesSecMaxLength :: uint64
  Tune_ReadBytesSecMaxLengthSet :: bool
  Tune_ReadBytesSecMaxLength :: uint64
  Tune_WriteBytesSecMaxLengthSet :: bool
  Tune_WriteBytesSecMaxLength :: uint64
  Tune_TotalIopsSecMaxLengthSet :: bool
  Tune_TotalIopsSecMaxLength :: uint64
  Tune_ReadIopsSecMaxLengthSet :: bool
  Tune_ReadIopsSecMaxLength :: uint64
  Tune_WriteIopsSecMaxLengthSet :: bool
  Tune_WriteIopsSecMaxLength :: uint64
  Tune_SizeIopsSecSet :: bool
  Tune_SizeIopsSec :: uint64

record DomainStatsNet =
  Net_Name :: string
  Net_RxBytesSet :: bool
  Net_RxBytes :: uint64
  Net_RxPktsSet :: bool
  Net_RxPkts :: uint64
  Net_RxErrsSet :: bool
  Net_RxErrs :: uint64
  Net_RxDropSet :: bool
  Net_RxDrop :: uint64
  Net_TxBytesSet :: bool
  Net_TxBytes :: uint64
  Net_TxPktsSet :: bool
  Net_TxPkts :: uint64
  Net_TxErrsSet :: bool
  Net_TxErrs :: uint64
  Net_TxDropSet :: bool
  Net_TxDrop :: uint64

record DomainMemoryStat =
  Tag :: int32
  Val :: uint64

record StoragePoolInfo =
  PoolInfo_Capacity :: uint64
  PoolInfo_Allocation :: uint64
  PoolInfo_Available :: uint64

text \<open>
  A handle is modelled by its identity and by the answer the hypervisor gives to each call
  the exporter makes on it during the scrape.
\<close>

record Domain =
  Domain_handle :: nat
  Domain_GetName :: "error + string"
  Domain_QemuMonitorCommand :: "error + string"
  Domain_GetUUIDString :: "error + string"
  Domain_GetXMLDesc :: "error + string"
  Domain_GetInfo :: "error + DomainInfo"
  Domain_GetVcpus :: "error + DomainVcpuInfo list"
  Domain_GetBlockIoTune :: "string \<Rightarrow> error + DomainBlockIoTuneParameters"
  Domain_MemoryStats :: "error + DomainMemoryStat list"

record DomainStats =
  Stats_Domain :: Domain
  Stats_Vcpu :: "DomainStatsVcpu list"
  Stats_Block :: "DomainStatsBlock list"
  Stats_Net :: "DomainStatsNet list"

record StoragePool =
  Pool_handle :: nat
  Pool_Refresh :: "error option"
  Pool_GetName :: "error + string"
  Pool_GetInfo :: "error + StoragePoolInfo"

record Connect =
  Connect_GetVersion :: "error + uint32"
  Connect_GetLibVersion :: "error + uint32"
  Connect_GetAllDomainStats :: "error + DomainStats list"
  Connect_ListAllStoragePools :: "error + StoragePool list"

subsection \<open>The decoded domain description\<close>

text \<open>
  Modelled from the spec: the package \<^verbatim>\<open>libvirtSchema\<close> (the structures the XML
  description of a domain is decoded into) is not among the sources. The records hold the
  fields \<^verbatim>\<open>CollectDomain\<close> reads, named by their path in the structure: disk
  source/bus/driver/cache attributes, network bridge/interface identifiers and ownership
  metadata, all strings, and the eight memory statistics, all \<^verbatim>\<open>uint64\<close>.
\<close>

record Disk =
  Disk_Source_Name :: string
  Disk_Target_Device :: string
  Disk_Target_Bus :: string
  Disk_Driver_Type :: string
  Disk_Driver_Cache :: string
  Disk_Driver_Discard :: string
  Disk_Serial :: string
  Disk_DiskType :: string

record Interface =
  Interface_Target_Device :: string
  Interface_Source_Bridge :: string
  Interface_Virtualport_Parameters_InterfaceID :: string

record NovaInstance =
  NovaName :: string
  NovaFlavor_FlavorName :: string
  NovaOwner_NovaUser_UserName :: string
  NovaOwner_NovaUser_UserUUID :: string
  NovaOwner_NovaProject_ProjectName :: string
  NovaOwner_NovaProject_ProjectUUID :: string
  NovaRoot_RootType :: string
  NovaRoot_RootUUID :: string

record libvirtSchema_Domain =
  Devices_Disks :: "Disk list"
  Devices_Interfaces :: "Interface list"
  Metadata_NovaInstance :: NovaInstance

record VirDomainMemoryStats =
  MajorFault :: uint64
  MinorFault :: uint64
  Unused :: uint64
  Available :: uint64
  ActualBalloon :: uint64
  Rss :: uint64
  Usable :: uint64
  DiskCaches :: uint64

subsection \<open>The host\<close>

text \<open>
  The host is what the scrape reads outside the program: the directories and files of the
  proc filesystem, the scanner of \<^verbatim>\<open>fmt.Fscan\<close> for three unsigned integers, the XML
  decoder, and the libvirt library (opening a connection, its own version).
\<close>

record host =
  procFSPath :: string
  os_ReadDir :: "string \<Rightarrow> error + (string \<times> bool) list"
  os_ReadFile :: "string \<Rightarrow> error + string"
  fmt_Fscan :: "string \<Rightarrow> error + uint64 \<times> uint64 \<times> uint64"
  xml_Unmarshal :: "string \<Rightarrow> error + libvirtSchema_Domain"
  libvirt_NewConnect :: "string \<Rightarrow> error + Connect"
  libvirt_GetVersion :: "error + uint32"

section \<open>pkg/utils\<close>

record ProcPIDSchedStat =
  PID :: int
  Cputime :: uint64
  Runqueue :: uint64
  Timeslices :: uint64

definition GetProcPIDSchedStat :: "host \<Rightarrow> string \<Rightarrow> int \<Rightarrow> error + ProcPIDSchedStat" where
  "GetProcPIDSchedStat h procPath pid =
     (let schedStatPath = filepath_Join [procPath, strconv_Itoa pid, ''schedstat''];
          filecontent = (case os_ReadFile h schedStatPath of Inl _ \<Rightarrow> [] | Inr c \<Rightarrow> c)
      in case fmt_Fscan h filecontent of
           Inl err \<Rightarrow> Inl err
         | Inr (c, r, t) \<Rightarrow> Inr \<lparr>PID = pid, Cputime = c, Runqueue = r, Timeslices = t\<rparr>)"

definition GetCmdLine :: "host \<Rightarrow> string \<Rightarrow> int \<Rightarrow> string" where
  "GetCmdLine h procPath pid =
     (let cmdLinePath = filepath_Join [procPath, strconv_Itoa pid, ''cmdline'']
      in case os_ReadFile h cmdLinePath of Inl _ \<Rightarrow> [] | Inr c \<Rightarrow> c)"

fun numbered_dirs :: "(string \<times> bool) list \<Rightarrow> int list" where
  "numbered_dirs [] = []"
| "numbered_dirs ((name, isDir) # files) =
     (if \<not> isDir then numbered_dirs files
      else case strconv_Atoi name of
             (pid, True) \<Rightarrow> pid # numbered_dirs files
           | (_, False) \<Rightarrow> numbered_dirs files)"

definition GetProcessList :: "host \<Rightarrow> string \<Rightarrow> int list option" where
  \<comment> \<open>\<open>None\<close>: the directory cannot be read and \<^verbatim>\<open>log.Fatal\<close> ends the process\<close>
  "GetProcessList h procFS =
     (case os_ReadDir h procFS of Inl err \<Rightarrow> None | Inr files \<Rightarrow> Some (numbered_dirs files))"


section \<open>libvirt\_exporter.go\<close>

definition WriteErrorOnce :: "string \<Rightarrow> string \<Rightarrow> state \<Rightarrow> event list \<times> state" where
  "WriteErrorOnce err name s =
     (if name \<notin> errorsMap s
      then ([LogError [(''err'', Str err)]], s\<lparr>errorsMap := insert name (errorsMap s)\<rparr>)
      else ([], s))"

fun lookup_pid :: "host \<Rightarrow> string \<Rightarrow> int list \<Rightarrow> int" where
  \<comment> \<open>the loop of \<^verbatim>\<open>GetDomainPid\<close>; the named result \<^verbatim>\<open>pid\<close> starts at 0\<close>
  "lookup_pid h domainName [] = 0"
| "lookup_pid h domainName (process # rest) =
     (let cmdline = GetCmdLine h (procFSPath h) process
      in if cmdline \<noteq> [] \<and> strings_Contains cmdline domainName then process
         else lookup_pid h domainName rest)"

definition GetDomainPid :: "host \<Rightarrow> state \<Rightarrow> string \<Rightarrow> int" where
  "GetDomainPid h s domainName = lookup_pid h domainName (processes s)"

definition is_space :: "char \<Rightarrow> bool" where
  \<comment> \<open>the class \<^verbatim>\<open>\s\<close> of Go's regular expressions: tab, newline, form feed, carriage return, space\<close>
  "is_space c = ((of_char c :: nat) \<in> {9, 10, 12, 13, 32})"

function find_thread_ids :: "string \<Rightarrow> string list" where
  \<comment> \<open>the first submatch of every match of \<^verbatim>\<open>thread_id=([0-9]*)\s\<close>, left to right, without overlap\<close>
  "find_thread_ids s =
     (if s = [] then []
      else if prefix ''thread_id='' s then
        (let rest = drop 10 s; ds = takeWhile is_digit rest; after = dropWhile is_digit rest
         in if after \<noteq> [] \<and> is_space (hd after) then ds # find_thread_ids (tl after)
            else find_thread_ids (tl s))
      else find_thread_ids (tl s))"
  by pat_completeness auto
termination
proof (relation "measure length", goal_cases)
  case 1
  show ?case by simp
next
  case (2 s rest ds after)
  have "length (dropWhile is_digit (drop 10 s)) \<le> length s"
    by (rule order_trans [OF length_dropWhile_le]) simp
  with 2 show ?case by (cases "dropWhile is_digit (drop 10 s)") auto
next
  case (3 s rest ds after)
  then show ?case by (cases s) auto
next
  case (4 s)
  then show ?case by (cases s) auto
qed

declare find_thread_ids.simps [simp del]

definition GetDomainVcpuPids :: "Domain \<Rightarrow> int list \<times> error option" where
  "GetDomainVcpuPids domain =
     (case Domain_QemuMonitorCommand domain of
        Inl err \<Rightarrow> ([], Some err)
      | Inr vCPUThreads \<Rightarrow> (map (\<lambda>thread. fst (strconv_Atoi thread)) (find_thread_ids vCPUThreads), None))"

definition not_invalid_operation :: "error \<Rightarrow> bool" where
  \<comment> \<open>\<^verbatim>\<open>lverr, ok := err.(libvirt.Error); !ok || lverr.Code != libvirt.ERR_OPERATION_INVALID\<close>\<close>
  "not_invalid_operation err =
     (let (lverr, ok) = as_libvirt_Error err in \<not> ok \<or> Code lverr \<noteq> ERR_OPERATION_INVALID)"

subsection \<open>CollectDomain: domain information\<close>

definition nsec_to_sec :: "float64 \<Rightarrow> float64" where
  \<comment> \<open>\<^verbatim>\<open>x/1000/1000/1000\<close>\<close>
  "nsec_to_sec x = f64_div (f64_div (f64_div x 1000) 1000) 1000"

definition domain_info_metrics ::
  "string \<Rightarrow> string \<Rightarrow> libvirtSchema_Domain \<Rightarrow> DomainInfo \<Rightarrow> Metric list" where
  "domain_info_metrics domainName domainUUID desc info =
     (let nova = Metadata_NovaInstance desc in
      [MustNewConstMetric libvirtDomainInfoMetaDesc GaugeValue 1
         [domainName, domainUUID, NovaName nova, NovaFlavor_FlavorName nova,
          NovaOwner_NovaUser_UserName nova, NovaOwner_NovaUser_UserUUID nova,
          NovaOwner_NovaProject_ProjectName nova, NovaOwner_NovaProject_ProjectUUID nova,
          NovaRoot_RootType nova, NovaRoot_RootUUID nova],
       MustNewConstMetric libvirtDomainInfoMaxMemBytesDesc GaugeValue
         (f64_mul (float64_of_uint64 (Info_MaxMem info)) 1024) [domainName],
       MustNewConstMetric libvirtDomainInfoMemoryUsageBytesDesc GaugeValue
         (f64_mul (float64_of_uint64 (Info_Memory info)) 1024) [domainName],
       MustNewConstMetric libvirtDomainInfoNrVirtCPUDesc GaugeValue
         (float64_of_uint64 (Info_NrVirtCpu info)) [domainName],
       MustNewConstMetric libvirtDomainInfoCPUTimeDesc CounterValue
         (nsec_to_sec (float64_of_uint64 (Info_CpuTime info))) [domainName],
       MustNewConstMetric libvirtDomainInfoVirDomainState GaugeValue
         (float64_of_int (Info_State info)) [domainName]])"

subsection \<open>CollectDomain: virtual CPUs\<close>

definition vcpu_info_metrics :: "string \<Rightarrow> DomainVcpuInfo \<Rightarrow> Metric list" where
  "vcpu_info_metrics domainName vcpu =
     (let number = strconv_FormatInt10 (uint (VcpuInfo_Number vcpu)) in
      [MustNewConstMetric libvirtDomainVcpuStateDesc GaugeValue
         (float64_of_int32 (VcpuInfo_State vcpu)) [domainName, number],
       MustNewConstMetric libvirtDomainVcpuTimeDesc CounterValue
         (nsec_to_sec (float64_of_uint64 (VcpuInfo_CpuTime vcpu))) [domainName, number],
       MustNewConstMetric libvirtDomainVcpuCPUDesc GaugeValue
         (float64_of_int32 (VcpuInfo_Cpu vcpu)) [domainName, number]])"

definition vcpu_stats_step ::
  "host \<Rightarrow> string \<Rightarrow> int \<Rightarrow> int list \<Rightarrow> nat \<Rightarrow> DomainStatsVcpu \<Rightarrow> event list" where
  \<comment> \<open>one iteration of \<^verbatim>\<open>for cpuNum, vcpu := range stat.Vcpu\<close>\<close>
  "vcpu_stats_step h domainName domainPid domainVcpuPids cpuNum vcpu =
     (if Vcpu_WaitSet vcpu
      then [Send (MustNewConstMetric libvirtDomainVcpuWaitDesc CounterValue
                    (nsec_to_sec (float64_of_uint64 (Vcpu_Wait vcpu)))
                    [domainName, strconv_FormatInt10 (int cpuNum)])]
      else []) @
     (if Vcpu_DelaySet vcpu
      then [Send (MustNewConstMetric libvirtDomainVcpuDelayDesc CounterValue
                    (f64_div (float64_of_uint64 (Vcpu_Delay vcpu)) 1000000000)
                    [domainName, strconv_FormatInt10 (int cpuNum)])]
      else if length domainVcpuPids \<le> cpuNum then []
      else
        (let vcpuPid = domainVcpuPids ! cpuNum;
             procPath = filepath_Join [procFSPath h, strconv_Itoa domainPid, ''task'']
         in Call_GetProcPIDSchedStat cpuNum procPath vcpuPid #
            (case GetProcPIDSchedStat h procPath vcpuPid of
               Inl err \<Rightarrow>
                 [LogError [(''err'', Str ''unable to collect vcpu delay metric''), (''msg'', Err err)]]
             | Inr procFSSchedStat \<Rightarrow>
                 [Send (MustNewConstMetric libvirtDomainVcpuDelayDesc CounterValue
                          (f64_div (float64_of_uint64 (Runqueue procFSSchedStat)) 1000000000)
                          [domainName, strconv_FormatInt10 (int cpuNum)])])))"

fun vcpu_stats_loop ::
  "host \<Rightarrow> string \<Rightarrow> int \<Rightarrow> int list \<Rightarrow> nat \<Rightarrow> DomainStatsVcpu list \<Rightarrow> event list" where
  "vcpu_stats_loop h domainName domainPid domainVcpuPids cpuNum [] = []"
| "vcpu_stats_loop h domainName domainPid domainVcpuPids cpuNum (vcpu # vcpus) =
     vcpu_stats_step h domainName domainPid domainVcpuPids cpuNum vcpu @
     vcpu_stats_loop h domainName domainPid domainVcpuPids (Suc cpuNum) vcpus"

definition collect_vcpus ::
  "host \<Rightarrow> DomainStats \<Rightarrow> string \<Rightarrow> int \<Rightarrow> int list \<Rightarrow> event list \<times> outcome" where
  \<comment> \<open>from \<^verbatim>\<open>stat.Domain.GetVcpus()\<close> to the end of its \<^verbatim>\<open>else\<close> branch\<close>
  "collect_vcpus h stat domainName domainPid domainVcpuPids =
     (case Domain_GetVcpus (Stats_Domain stat) of
        Inl err \<Rightarrow> if not_invalid_operation err then ([], Failed err) else ([], Ok)
      | Inr domainStatsVcpu \<Rightarrow>
          (map Send (concat (map (vcpu_info_metrics domainName) domainStatsVcpu)) @
           vcpu_stats_loop h domainName domainPid domainVcpuPids 0 (Stats_Vcpu stat), Ok))"


subsection \<open>CollectDomain: block devices\<close>

definition block_counters :: "string \<Rightarrow> DomainStatsBlock \<Rightarrow> Metric list" where
  "block_counters domainName disk =
     (if Block_RdBytesSet disk
      then [MustNewConstMetric libvirtDomainBlockRdBytesDesc CounterValue (float64_of_uint64 (Block_RdBytes disk))
              [domainName, Block_Name disk]]
      else []) @
     (if Block_RdReqsSet disk
      then [MustNewConstMetric libvirtDomainBlockRdReqDesc CounterValue (float64_of_uint64 (Block_RdReqs disk))
              [domainName, Block_Name disk]]
      else []) @
     (if Block_RdTimesSet disk
      then [MustNewConstMetric libvirtDomainBlockRdTotalTimeSecondsDesc CounterValue (f64_div (float64_of_uint64 (Block_RdTimes disk)) 1000000000)
              [domainName, Block_Name disk]]
      else []) @
     (if Block_WrBytesSet disk
      then [MustNewConstMetric libvirtDomainBlockWrBytesDesc CounterValue (float64_of_uint64 (Block_WrBytes disk))
              [domainName, Block_Name disk]]
      else []) @
     (if Block_WrReqsSet disk
      then [MustNewConstMetric libvirtDomainBlockWrReqDesc CounterValue (float64_of_uint64 (Block_WrReqs disk))
              [domainName, Block_Name disk]]
      else []) @
     (if Block_WrTimesSet disk
      then [MustNewConstMetric libvirtDomainBlockWrTotalTimesDesc CounterValue (f64_div (float64_of_uint64 (Block_WrTimes disk)) 1000000000)
              [domainName, Block_Name disk]]
      else []) @
     (if Block_FlReqsSet disk
      then [MustNewConstMetric libvirtDomainBlockFlushReqDesc CounterValue (float64_of_uint64 (Block_FlReqs disk))
              [domainName, Block_Name disk]]
      else []) @
     (if Block_FlTimesSet disk
      then [MustNewConstMetric libvirtDomainBlockFlushTotalTimeSecondsDesc CounterValue (f64_div (float64_of_uint64 (Block_FlTimes disk)) 1000000000)
              [domainName, Block_Name disk]]
      else []) @
     (if Block_AllocationSet disk
      then [MustNewConstMetric libvirtDomainBlockAllocationDesc GaugeValue (float64_of_uint64 (Block_Allocation disk))
              [domainName, Block_Name disk]]
      else []) @
     (if Block_CapacitySet disk
      then [MustNewConstMetric libvirtDomainBlockCapacityBytesDesc GaugeValue (float64_of_uint64 (Block_Capacity disk))
              [domainName, Block_Name disk]]
      else []) @
     (if Block_PhysicalSet disk
      then [MustNewConstMetric libvirtDomainBlockPhysicalSizeBytesDesc GaugeValue (float64_of_uint64 (Block_Physical disk))
              [domainName, Block_Name disk]]
      else [])"

definition block_io_tune_limits :: "string \<Rightarrow> string \<Rightarrow> DomainBlockIoTuneParameters \<Rightarrow> Metric list" where
  "block_io_tune_limits domainName diskName blockIOTuneParams =
     (if Tune_TotalBytesSecSet blockIOTuneParams
      then [MustNewConstMetric libvirtDomainBlockTotalBytesSecDesc GaugeValue (float64_of_uint64 (Tune_TotalBytesSec blockIOTuneParams))
              [domainName, diskName]]
      else []) @
     (if Tune_ReadBytesSecSet blockIOTuneParams
      then [MustNewConstMetric libvirtDomainBlockReadBytesSecDesc GaugeValue (float64_of_uint64 (Tune_ReadBytesSec blockIOTuneParams))
              [domainName, diskName]]
      else []) @
     (if Tune_WriteBytesSecSet blockIOTuneParams
      then [MustNewConstMetric libvirtDomainBlockWriteBytesSecDesc GaugeValue (float64_of_uint64 (Tune_WriteBytesSec blockIOTuneParams))
              [domainName, diskName]]
      else []) @
     (if Tune_TotalIopsSecSet blockIOTuneParams
      then [MustNewConstMetric libvirtDomainBlockTotalIopsSecDesc GaugeValue (float64_of_uint64 (Tune_TotalIopsSec blockIOTuneParams))
              [domainName, diskName]]
      else []) @
     (if Tune_ReadIopsSecSet blockIOTuneParams
      then [MustNewConstMetric libvirtDomainBlockReadIopsSecDesc GaugeValue (float64_of_uint64 (Tune_ReadIopsSec blockIOTuneParams))
              [domainName, diskName]]
      else []) @
     (if Tune_WriteIopsSecSet blockIOTuneParams
      then [MustNewConstMetric libvirtDomainBlockWriteIopsSecDesc GaugeValue (float64_of_uint64 (Tune_WriteIopsSec blockIOTuneParams))
              [domainName, diskName]]
      else []) @
     (if Tune_TotalBytesSecMaxSet blockIOTuneParams
      then [MustNewConstMetric libvirtDomainBlockTotalBytesSecMaxDesc GaugeValue (float64_of_uint64 (Tune_TotalBytesSecMax blockIOTuneParams))
              [domainName, diskName]]
      else []) @
     (if Tune_ReadBytesSecMaxSet blockIOTuneParams
      then [MustNewConstMetric libvirtDomainBlockReadBytesSecMaxDesc GaugeValue (float64_of_uint64 (Tune_ReadBytesSecMax blockIOTuneParams))
              [domainName, diskName]]
      else []) @
     (if Tune_WriteBytesSecMaxSet blockIOTuneParams
      then [MustNewConstMetric libvirtDomainBlockWriteBytesSecMaxDesc GaugeValue (float64_of_uint64 (Tune_WriteBytesSecMax blockIOTuneParams))
              [domainName, diskName]]
      else []) @
     (if Tune_TotalIopsSecMaxSet blockIOTuneParams
      then [MustNewConstMetric libvirtDomainBlockTotalIopsSecMaxDesc GaugeValue (float64_of_uint64 (Tune_TotalIopsSecMax blockIOTuneParams))
              [domainName, diskName]]
      else []) @
     (if Tune_ReadIopsSecMaxSet blockIOTuneParams
      then [MustNewConstMetric libvirtDomainBlockReadIopsSecMaxDesc GaugeValue (float64_of_uint64 (Tune_ReadIopsSecMax blockIOTuneParams))
              [domainName, diskName]]
      else []) @
     (if Tune_WriteIopsSecMaxSet blockIOTuneParams
      then [MustNewConstMetric libvirtDomainBlockWriteIopsSecMaxDesc GaugeValue (float64_of_uint64 (Tune_WriteIopsSecMax blockIOTuneParams))
              [domainName, diskName]]
      else []) @
     (if Tune_TotalBytesSecMaxLengthSet blockIOTuneParams
      then [MustNewConstMetric libvirtDomainBlockTotalBytesSecMaxLengthDesc GaugeValue (float64_of_uint64 (Tune_TotalBytesSecMaxLength blockIOTuneParams))
              [domainName, diskName]]
      else []) @
     (if Tune_ReadBytesSecMaxLengthSet blockIOTuneParams
      then [MustNewConstMetric libvirtDomainBlockReadBytesSecMaxLengthDesc GaugeValue (float64_of_uint64 (Tune_ReadBytesSecMaxLength blockIOTuneParams))
              [domainName, diskName]]
      else []) @
     (if Tune_WriteBytesSecMaxLengthSet blockIOTuneParams
      then [MustNewConstMetric libvirtDomainBlockWriteBytesSecMaxLengthDesc GaugeValue (float64_of_uint64 (Tune_WriteBytesSecMaxLength blockIOTuneParams))
              [domainName, diskName]]
      else []) @
     (if Tune_TotalIopsSecMaxLengthSet blockIOTuneParams
      then [MustNewConstMetric libvirtDomainBlockTotalIopsSecMaxLengthDesc GaugeValue (float64_of_uint64 (Tune_TotalIopsSecMaxLength blockIOTuneParams))
              [domainName, diskName]]
      else []) @
     (if Tune_ReadIopsSecMaxLengthSet blockIOTuneParams
      then [MustNewConstMetric libvirtDomainBlockReadIopsSecMaxLengthDesc GaugeValue (float64_of_uint64 (Tune_ReadIopsSecMaxLength blockIOTuneParams))
              [domainName, diskName]]
      else []) @
     (if Tune_WriteIopsSecMaxLengthSet blockIOTuneParams
      then [MustNewConstMetric libvirtDomainBlockWriteIopsSecMaxLengthDesc GaugeValue (float64_of_uint64 (Tune_WriteIopsSecMaxLength blockIOTuneParams))
              [domainName, diskName]]
      else []) @
     (if Tune_SizeIopsSecSet blockIOTuneParams
      then [MustNewConstMetric libvirtDomainBlockSizeIopsSecDesc GaugeValue (float64_of_uint64 (Tune_SizeIopsSec blockIOTuneParams))
              [domainName, diskName]]
      else [])"

fun lookup_disk :: "string \<Rightarrow> Disk list \<Rightarrow> Disk option" where
  \<comment> \<open>the first disk of the description whose target device is the name; \<open>None\<close> is the
      nil pointer \<^verbatim>\<open>Device\<close> keeps when the loop finds none\<close>
  "lookup_disk name [] = None"
| "lookup_disk name (dev # devs) =
     (if Disk_Target_Device dev = name then Some dev else lookup_disk name devs)"

definition block_meta :: "string \<Rightarrow> DomainStatsBlock \<Rightarrow> string \<Rightarrow> Disk \<Rightarrow> Metric" where
  "block_meta domainName disk DiskSource Device =
     MustNewConstMetric libvirtDomainMetaBlockDesc GaugeValue 1
       [domainName, Block_Name disk, DiskSource, Disk_Serial Device, Disk_Target_Bus Device,
        Disk_DiskType Device, Disk_Driver_Type Device, Disk_Driver_Cache Device,
        Disk_Driver_Discard Device]"

definition block_io_tune ::
  "Domain \<Rightarrow> string \<Rightarrow> DomainStatsBlock \<Rightarrow> state \<Rightarrow> event list \<times> outcome \<times> state" where
  \<comment> \<open>from \<^verbatim>\<open>stat.Domain.GetBlockIoTune(disk.Name, 0)\<close> to the end of the loop body\<close>
  "block_io_tune domain domainName disk s =
     (case Domain_GetBlockIoTune domain (Block_Name disk) of
        Inl err \<Rightarrow>
          (let (lverr, ok) = as_libvirt_Error err in
           if \<not> ok then
             (if Code lverr = ERR_OPERATION_INVALID then
                ([LogError [(''err'', Str ''invalid operation GetBlockIoTune''), (''msg'', Err err)]],
                 Ok, s)
              else if Code lverr = ERR_OPERATION_UNSUPPORTED then
                (let (evs, s') = WriteErrorOnce (''Unsupported operation GetBlockIoTune: '' @ Error err)
                                   ''blkiotune_unsupported'' s
                 in (evs, Ok, s'))
              else ([], Failed err, s))
           else ([], Ok, s))
      | Inr blockIOTuneParams \<Rightarrow>
          (map Send (block_io_tune_limits domainName (Block_Name disk) blockIOTuneParams), Ok, s))"

definition block_device ::
  "Domain \<Rightarrow> libvirtSchema_Domain \<Rightarrow> string \<Rightarrow> DomainStatsBlock \<Rightarrow> state \<Rightarrow>
   event list \<times> outcome \<times> state" where
  \<comment> \<open>one iteration of \<^verbatim>\<open>for _, disk := range stat.Block\<close>; \<open>Ok\<close> goes on to the next device\<close>
  "block_device domain desc domainName disk s =
     (if Block_Name disk = ''hdc'' \<or> Block_Name disk = ''hda'' then ([], Ok, s)
      else
        (let Device = lookup_disk (Block_Name disk) (Devices_Disks desc);
             DiskSource = (case Device of
                             None \<Rightarrow> []
                           | Some dev \<Rightarrow> if Block_PathSet disk then Block_Path disk
                                         else Disk_Source_Name dev)
         in case Device of
              None \<Rightarrow> ([], Panicked ''invalid memory address or nil pointer dereference'', s)
            | Some dev \<Rightarrow>
                (let (evs, r, s') = block_io_tune domain domainName disk s
                 in (Send (block_meta domainName disk DiskSource dev) #
                     map Send (block_counters domainName disk) @ evs, r, s'))))"

fun collect_blocks ::
  "Domain \<Rightarrow> libvirtSchema_Domain \<Rightarrow> string \<Rightarrow> DomainStatsBlock list \<Rightarrow> state \<Rightarrow>
   event list \<times> outcome \<times> state" where
  "collect_blocks domain desc domainName [] s = ([], Ok, s)"
| "collect_blocks domain desc domainName (disk # disks) s =
     (case block_device domain desc domainName disk s of
        (evs, Ok, s') \<Rightarrow>
          (let (evs', r, s'') = collect_blocks domain desc domainName disks s'
           in (evs @ evs', r, s''))
      | (evs, r, s') \<Rightarrow> (evs, r, s'))"

subsection \<open>CollectDomain: network interfaces\<close>

definition interface_counters :: "string \<Rightarrow> DomainStatsNet \<Rightarrow> Metric list" where
  "interface_counters domainName iface =
     (if Net_RxBytesSet iface
      then [MustNewConstMetric libvirtDomainInterfaceRxBytesDesc CounterValue (float64_of_uint64 (Net_RxBytes iface))
              [domainName, Net_Name iface]]
      else []) @
     (if Net_RxPktsSet iface
      then [MustNewConstMetric libvirtDomainInterfaceRxPacketsDesc CounterValue (float64_of_uint64 (Net_RxPkts iface))
              [domainName, Net_Name iface]]
      else []) @
     (if Net_RxErrsSet iface
      then [MustNewConstMetric libvirtDomainInterfaceRxErrsDesc CounterValue (float64_of_uint64 (Net_RxErrs iface))
              [domainName, Net_Name iface]]
      else []) @
     (if Net_RxDropSet iface
      then [MustNewConstMetric libvirtDomainInterfaceRxDropDesc CounterValue (float64_of_uint64 (Net_RxDrop iface))
              [domainName, Net_Name iface]]
      else []) @
     (if Net_TxBytesSet iface
      then [MustNewConstMetric libvirtDomainInterfaceTxBytesDesc CounterValue (float64_of_uint64 (Net_TxBytes iface))
              [domainName, Net_Name iface]]
      else []) @
     (if Net_TxPktsSet iface
      then [MustNewConstMetric libvirtDomainInterfaceTxPacketsDesc CounterValue (float64_of_uint64 (Net_TxPkts iface))
              [domainName, Net_Name iface]]
      else []) @
     (if Net_TxErrsSet iface
      then [MustNewConstMetric libvirtDomainInterfaceTxErrsDesc CounterValue (float64_of_uint64 (Net_TxErrs iface))
              [domainName, Net_Name iface]]
      else []) @
     (if Net_TxDropSet iface
      then [MustNewConstMetric libvirtDomainInterfaceTxDropDesc CounterValue (float64_of_uint64 (Net_TxDrop iface))
              [domainName, Net_Name iface]]
      else [])"

fun lookup_interface :: "string \<Rightarrow> Interface list \<Rightarrow> Interface option" where
  "lookup_interface name [] = None"
| "lookup_interface name (net # nets) =
     (if Interface_Target_Device net = name then Some net else lookup_interface name nets)"

definition interface_metrics :: "libvirtSchema_Domain \<Rightarrow> string \<Rightarrow> DomainStatsNet \<Rightarrow> Metric list" where
  \<comment> \<open>one iteration of \<^verbatim>\<open>for _, iface := range stat.Net\<close>\<close>
  "interface_metrics desc domainName iface =
     (let (SourceBridge, VirtualInterface) =
            (case lookup_interface (Net_Name iface) (Devices_Interfaces desc) of
               None \<Rightarrow> ([], [])
             | Some net \<Rightarrow> (Interface_Source_Bridge net,
                            Interface_Virtualport_Parameters_InterfaceID net))
      in (if SourceBridge \<noteq> [] \<or> VirtualInterface \<noteq> []
          then [MustNewConstMetric libvirtDomainMetaInterfacesDesc GaugeValue 1
                  [domainName, SourceBridge, Net_Name iface, VirtualInterface]]
          else []) @
         interface_counters domainName iface)"

subsection \<open>CollectDomain: memory statistics\<close>

definition memoryStat_case :: "VirDomainMemoryStats \<Rightarrow> DomainMemoryStat \<Rightarrow> VirDomainMemoryStats" where
  \<comment> \<open>the \<^verbatim>\<open>switch\<close> on the tag\<close>
  "memoryStat_case MemoryStats domainmemorystat =
     (let tag = sint (Tag domainmemorystat); v = Val domainmemorystat in
      if tag = 2 then MemoryStats\<lparr>MajorFault := v\<rparr>
      else if tag = 3 then MemoryStats\<lparr>MinorFault := v\<rparr>
      else if tag = 4 then MemoryStats\<lparr>Unused := v\<rparr>
      else if tag = 5 then MemoryStats\<lparr>Available := v\<rparr>
      else if tag = 6 then MemoryStats\<lparr>ActualBalloon := v\<rparr>
      else if tag = 7 then MemoryStats\<lparr>Rss := v\<rparr>
      else if tag = 8 then MemoryStats\<lparr>Usable := v\<rparr>
      else if tag = 10 then MemoryStats\<lparr>DiskCaches := v\<rparr>
      else MemoryStats)"

definition zero_VirDomainMemoryStats :: VirDomainMemoryStats where
  "zero_VirDomainMemoryStats =
     \<lparr>MajorFault = 0, MinorFault = 0, Unused = 0, Available = 0, ActualBalloon = 0, Rss = 0,
      Usable = 0, DiskCaches = 0\<rparr>"

definition memoryStatCollect :: "DomainMemoryStat list \<Rightarrow> VirDomainMemoryStats" where
  "memoryStatCollect memorystat = foldl memoryStat_case zero_VirDomainMemoryStats memorystat"

definition usedPercent_of :: "VirDomainMemoryStats \<Rightarrow> float64" where
  \<comment> \<open>the value \<^verbatim>\<open>usedPercent\<close> has after a successful \<^verbatim>\<open>MemoryStats\<close> call\<close>
  "usedPercent_of MemoryStats =
     (if Usable MemoryStats \<noteq> 0 \<and> Available MemoryStats \<noteq> 0
      then f64_div (f64_sub (float64_of_uint64 (Available MemoryStats))
                            (float64_of_uint64 (Usable MemoryStats)))
                   (f64_div (float64_of_uint64 (Available MemoryStats)) 100)
      else 0)"

definition memory_stats_metrics :: "Domain \<Rightarrow> string \<Rightarrow> Metric list" where
  "memory_stats_metrics domain domainName =
     (let (MemoryStats, usedPercent) =
            (case Domain_MemoryStats domain of
               Inl err \<Rightarrow> (zero_VirDomainMemoryStats, 0)
             | Inr memorystat \<Rightarrow>
                 (let MemoryStats = memoryStatCollect memorystat
                  in (MemoryStats, usedPercent_of MemoryStats)))
      in [MustNewConstMetric libvirtDomainMemoryStatMajorFaultTotalDesc CounterValue
            (float64_of_uint64 (MajorFault MemoryStats)) [domainName],
          MustNewConstMetric libvirtDomainMemoryStatMinorFaultTotalDesc CounterValue
            (float64_of_uint64 (MinorFault MemoryStats)) [domainName],
          MustNewConstMetric libvirtDomainMemoryStatUnusedBytesDesc GaugeValue
            (f64_mul (float64_of_uint64 (Unused MemoryStats)) 1024) [domainName],
          MustNewConstMetric libvirtDomainMemoryStatAvailableBytesDesc GaugeValue
            (f64_mul (float64_of_uint64 (Available MemoryStats)) 1024) [domainName],
          MustNewConstMetric libvirtDomainMemoryStatActualBaloonBytesDesc GaugeValue
            (f64_mul (float64_of_uint64 (ActualBalloon MemoryStats)) 1024) [domainName],
          MustNewConstMetric libvirtDomainMemoryStatRssBytesDesc GaugeValue
            (f64_mul (float64_of_uint64 (Rss MemoryStats)) 1024) [domainName],
          MustNewConstMetric libvirtDomainMemoryStatUsableBytesDesc GaugeValue
            (f64_mul (float64_of_uint64 (Usable MemoryStats)) 1024) [domainName],
          MustNewConstMetric libvirtDomainMemoryStatDiskCachesBytesDesc GaugeValue
            (f64_mul (float64_of_uint64 (DiskCaches MemoryStats)) 1024) [domainName],
          MustNewConstMetric libvirtDomainMemoryStatUsedPercentDesc GaugeValue
            usedPercent [domainName]])"

subsection \<open>CollectDomain\<close>

definition collect_devices ::
  "host \<Rightarrow> DomainStats \<Rightarrow> string \<Rightarrow> libvirtSchema_Domain \<Rightarrow> state \<Rightarrow>
   event list \<times> outcome \<times> state" where
  \<comment> \<open>from \<^verbatim>\<open>// Report block device statistics.\<close> to the final \<^verbatim>\<open>return nil\<close>\<close>
  "collect_devices h stat domainName desc s =
     (case collect_blocks (Stats_Domain stat) desc domainName (Stats_Block stat) s of
        (evs, Ok, s') \<Rightarrow>
          (evs @
           map Send (concat (map (interface_metrics desc domainName) (Stats_Net stat))) @
           map Send (memory_stats_metrics (Stats_Domain stat) domainName), Ok, s')
      | (evs, r, s') \<Rightarrow> (evs, r, s'))"

definition domain_setup ::
  "host \<Rightarrow> DomainStats \<Rightarrow> state \<Rightarrow>
   error + string \<times> int \<times> int list \<times> string \<times> libvirtSchema_Domain \<times> DomainInfo" where
  \<comment> \<open>the calls \<^verbatim>\<open>CollectDomain\<close> makes before it sends its first metric; each error is
      returned, but for an invalid-operation error of the thread-id query, which leaves the
      list of thread ids empty\<close>
  "domain_setup h stat s =
     (case Domain_GetName (Stats_Domain stat) of
        Inl err \<Rightarrow> Inl err
      | Inr domainName \<Rightarrow>
     (let domainPid = GetDomainPid h s domainName;
          (domainVcpuPids, verr) = GetDomainVcpuPids (Stats_Domain stat)
      in if (case verr of None \<Rightarrow> False | Some err \<Rightarrow> not_invalid_operation err)
         then Inl (the verr)
         else
     (case Domain_GetUUIDString (Stats_Domain stat) of
        Inl err \<Rightarrow> Inl err
      | Inr domainUUID \<Rightarrow>
     (case Domain_GetXMLDesc (Stats_Domain stat) of
        Inl err \<Rightarrow> Inl err
      | Inr xmlDesc \<Rightarrow>
     (case xml_Unmarshal h xmlDesc of
        Inl err \<Rightarrow> Inl err
      | Inr desc \<Rightarrow>
     (case Domain_GetInfo (Stats_Domain stat) of
        Inl err \<Rightarrow> Inl err
      | Inr info \<Rightarrow>
          Inr (domainName, domainPid, domainVcpuPids, domainUUID, desc, info)))))))"

definition CollectDomain :: "host \<Rightarrow> DomainStats \<Rightarrow> state \<Rightarrow> event list \<times> outcome \<times> state" where
  "CollectDomain h stat s =
     (case domain_setup h stat s of
        Inl err \<Rightarrow> ([], Failed err, s)
      | Inr (domainName, domainPid, domainVcpuPids, domainUUID, desc, info) \<Rightarrow>
     (let evs0 = map Send (domain_info_metrics domainName domainUUID desc info) in
      (case collect_vcpus h stat domainName domainPid domainVcpuPids of
         (evs1, Ok) \<Rightarrow>
           (let (evs2, r, s') = collect_devices h stat domainName desc s
            in (evs0 @ evs1 @ evs2, r, s'))
       | (evs1, r) \<Rightarrow> (evs0 @ evs1, r, s))))"

subsection \<open>CollectStoragePool\<close>

definition CollectStoragePool :: "StoragePool \<Rightarrow> event list \<times> outcome" where
  "CollectStoragePool pool =
     (case Pool_Refresh pool of
        Some err \<Rightarrow> ([], Failed err)
      | None \<Rightarrow>
     (case Pool_GetName pool of
        Inl err \<Rightarrow> ([], Failed err)
      | Inr pool_name \<Rightarrow>
     (case Pool_GetInfo pool of
        Inl err \<Rightarrow> ([], Failed err)
      | Inr pool_info \<Rightarrow>
     ([Send (MustNewConstMetric libvirtPoolInfoCapacity GaugeValue
               (float64_of_uint64 (PoolInfo_Capacity pool_info)) [pool_name]),
       Send (MustNewConstMetric libvirtPoolInfoAllocation GaugeValue
               (float64_of_uint64 (PoolInfo_Allocation pool_info)) [pool_name]),
       Send (MustNewConstMetric libvirtPoolInfoAvailable GaugeValue
               (float64_of_uint64 (PoolInfo_Available pool_info)) [pool_name])], Ok))))"

subsection \<open>CollectFromLibvirt\<close>

definition version_string :: "uint32 \<Rightarrow> string" where
  \<comment> \<open>\<^verbatim>\<open>fmt.Sprintf("%d.%d.%d", n/1000000%1000, n/1000%1000, n%1000)\<close>\<close>
  "version_string n =
     strconv_Itoa (uint n div 1000000 mod 1000) @ ''.'' @
     strconv_Itoa (uint n div 1000 mod 1000) @ ''.'' @
     strconv_Itoa (uint n mod 1000)"

fun collect_domains :: "host \<Rightarrow> DomainStats list \<Rightarrow> state \<Rightarrow> event list \<times> outcome \<times> state" where
  \<comment> \<open>\<^verbatim>\<open>for _, stat := range stats\<close>, left at the first domain that does not return \<^verbatim>\<open>nil\<close>\<close>
  "collect_domains h [] s = ([], Ok, s)"
| "collect_domains h (stat # stats) s =
     (case CollectDomain h stat s of
        (evs, Ok, s') \<Rightarrow>
          (let (evs', r, s'') = collect_domains h stats s' in (evs @ evs', r, s''))
      | (evs, r, s') \<Rightarrow> (evs, r, s'))"

fun collect_pools :: "StoragePool list \<Rightarrow> event list \<times> outcome" where
  \<comment> \<open>\<^verbatim>\<open>for _, pool := range pools\<close>: collect, free the pool, return on an error\<close>
  "collect_pools [] = ([], Ok)"
| "collect_pools (pool # pools) =
     (let (evs, err) = CollectStoragePool pool;
          evs1 = evs @ [Free (PoolHandle (Pool_handle pool))]
      in case err of
           Ok \<Rightarrow> (let (evs', r) = collect_pools pools in (evs1 @ evs', r))
         | _ \<Rightarrow> (evs1, err))"

definition collect_stats :: "host \<Rightarrow> Connect \<Rightarrow> state \<Rightarrow> event list \<times> outcome \<times> state" where
  \<comment> \<open>from \<^verbatim>\<open>conn.GetAllDomainStats\<close> to the end of the function; the deferred function
      frees the domain of every returned statistics record when the function is left\<close>
  "collect_stats h conn s =
     (let (stats, err) = (case Connect_GetAllDomainStats conn of
                            Inl e \<Rightarrow> ([], Some e)
                          | Inr sts \<Rightarrow> (sts, None));
          deferred = map (\<lambda>stat. Free (DomainHandle (Domain_handle (Stats_Domain stat)))) stats;
          (evs, r, s') =
            (case err of
               Some e \<Rightarrow> ([], Failed e, s)
             | None \<Rightarrow>
                 (case collect_domains h stats s of
                    (evs, Ok, s') \<Rightarrow>
                      (case Connect_ListAllStoragePools conn of
                         Inl e \<Rightarrow> (evs, Failed e, s')
                       | Inr pools \<Rightarrow>
                           (let (evs', r) = collect_pools pools in (evs @ evs', r, s')))
                  | (evs, r, s') \<Rightarrow> (evs, r, s')))
      in (evs @ deferred, r, s'))"

definition CollectFromLibvirt :: "host \<Rightarrow> string \<Rightarrow> state \<Rightarrow> event list \<times> outcome \<times> state" where
  \<comment> \<open>the deferred \<^verbatim>\<open>conn.Close()\<close> runs on every return and on a panic, not when
      \<^verbatim>\<open>log.Fatal\<close> ends the process\<close>
  "CollectFromLibvirt h uri s =
     (case libvirt_NewConnect h uri of
        Inl err \<Rightarrow> ([], Failed err, s)
      | Inr conn \<Rightarrow>
     (case Connect_GetVersion conn of
        Inl err \<Rightarrow> ([Close], Failed err, s)
      | Inr hypervisorVersionNum \<Rightarrow>
     (case Connect_GetLibVersion conn of
        Inl err \<Rightarrow> ([Close], Failed err, s)
      | Inr libvirtdVersionNum \<Rightarrow>
     (case libvirt_GetVersion h of
        Inl err \<Rightarrow> ([Close], Failed err, s)
      | Inr libraryVersionNum \<Rightarrow>
     (case GetProcessList h (procFSPath h) of
        None \<Rightarrow> ([], Exited, s)
      | Some ps \<Rightarrow>
          (let (evs, r, s') = collect_stats h conn (s\<lparr>processes := ps\<rparr>)
           in (Send (MustNewConstMetric libvirtVersionsInfoDesc GaugeValue 1
                       [version_string hypervisorVersionNum, version_string libvirtdVersionNum,
                        version_string libraryVersionNum]) # evs @ [Close], r, s')))))))"

subsection \<open>Collect\<close>

definition Collect :: "host \<Rightarrow> string \<Rightarrow> state \<Rightarrow> event list \<times> outcome \<times> state" where
  \<comment> \<open>\<^verbatim>\<open>(e *LibvirtExporter) Collect\<close> with \<^verbatim>\<open>e.uri\<close>; a panic or an exit of
      \<^verbatim>\<open>CollectFromLibvirt\<close> leaves no room for the gauge\<close>
  "Collect h uri s =
     (case CollectFromLibvirt h uri s of
        (evs, Ok, s') \<Rightarrow>
          (evs @ [Send (MustNewConstMetric libvirtUpDesc GaugeValue 1 [])], Ok, s')
      | (evs, Failed err, s') \<Rightarrow>
          (evs @ [LogError [(''err'', Str ''failed to scrape metrics''), (''uri'', Str uri),
                            (''msg'', Err err)],
                  Send (MustNewConstMetric libvirtUpDesc GaugeValue 0 [])], Ok, s')
      | (evs, r, s') \<Rightarrow> (evs, r, s'))"


section \<open>The families of descriptors\<close>

text \<open>
  The descriptors each part of \<^verbatim>\<open>CollectDomain\<close> sends with, in the order of the program text.
\<close>

definition domain_info_descs :: "Desc list" where
  \<comment> \<open>the domain information\<close>
  "domain_info_descs =
     [libvirtDomainInfoMetaDesc,
      libvirtDomainInfoMaxMemBytesDesc,
      libvirtDomainInfoMemoryUsageBytesDesc,
      libvirtDomainInfoNrVirtCPUDesc,
      libvirtDomainInfoCPUTimeDesc,
      libvirtDomainInfoVirDomainState]"

definition vcpu_descs :: "Desc list" where
  \<comment> \<open>the virtual CPUs\<close>
  "vcpu_descs =
     [libvirtDomainVcpuStateDesc,
      libvirtDomainVcpuTimeDesc,
      libvirtDomainVcpuCPUDesc,
      libvirtDomainVcpuWaitDesc,
      libvirtDomainVcpuDelayDesc]"

definition block_descs :: "Desc list" where
  \<comment> \<open>the block devices: metadata, counters, I/O-tuning limits\<close>
  "block_descs =
     [libvirtDomainMetaBlockDesc,
      libvirtDomainBlockRdBytesDesc,
      libvirtDomainBlockRdReqDesc,
      libvirtDomainBlockRdTotalTimeSecondsDesc,
      libvirtDomainBlockWrBytesDesc,
      libvirtDomainBlockWrReqDesc,
      libvirtDomainBlockWrTotalTimesDesc,
      libvirtDomainBlockFlushReqDesc,
      libvirtDomainBlockFlushTotalTimeSecondsDesc,
      libvirtDomainBlockAllocationDesc,
      libvirtDomainBlockCapacityBytesDesc,
      libvirtDomainBlockPhysicalSizeBytesDesc,
      libvirtDomainBlockTotalBytesSecDesc,
      libvirtDomainBlockReadBytesSecDesc,
      libvirtDomainBlockWriteBytesSecDesc,
      libvirtDomainBlockTotalIopsSecDesc,
      libvirtDomainBlockReadIopsSecDesc,
      libvirtDomainBlockWriteIopsSecDesc,
      libvirtDomainBlockTotalBytesSecMaxDesc,
      libvirtDomainBlockReadBytesSecMaxDesc,
      libvirtDomainBlockWriteBytesSecMaxDesc,
      libvirtDomainBlockTotalIopsSecMaxDesc,
      libvirtDomainBlockReadIopsSecMaxDesc,
      libvirtDomainBlockWriteIopsSecMaxDesc,
      libvirtDomainBlockTotalBytesSecMaxLengthDesc,
      libvirtDomainBlockReadBytesSecMaxLengthDesc,
      libvirtDomainBlockWriteBytesSecMaxLengthDesc,
      libvirtDomainBlockTotalIopsSecMaxLengthDesc,
      libvirtDomainBlockReadIopsSecMaxLengthDesc,
      libvirtDomainBlockWriteIopsSecMaxLengthDesc,
      libvirtDomainBlockSizeIopsSecDesc]"

definition interface_descs :: "Desc list" where
  \<comment> \<open>the network interfaces: metadata, counters\<close>
  "interface_descs =
     [libvirtDomainMetaInterfacesDesc,
      libvirtDomainInterfaceRxBytesDesc,
      libvirtDomainInterfaceRxPacketsDesc,
      libvirtDomainInterfaceRxErrsDesc,
      libvirtDomainInterfaceRxDropDesc,
      libvirtDomainInterfaceTxBytesDesc,
      libvirtDomainInterfaceTxPacketsDesc,
      libvirtDomainInterfaceTxErrsDesc,
      libvirtDomainInterfaceTxDropDesc]"

definition memory_descs :: "Desc list" where
  \<comment> \<open>the memory statistics\<close>
  "memory_descs =
     [libvirtDomainMemoryStatMajorFaultTotalDesc,
      libvirtDomainMemoryStatMinorFaultTotalDesc,
      libvirtDomainMemoryStatUnusedBytesDesc,
      libvirtDomainMemoryStatAvailableBytesDesc,
      libvirtDomainMemoryStatActualBaloonBytesDesc,
      libvirtDomainMemoryStatRssBytesDesc,
      libvirtDomainMemoryStatUsableBytesDesc,
      libvirtDomainMemoryStatDiskCachesBytesDesc,
      libvirtDomainMemoryStatUsedPercentDesc]"

definition domain_descs :: "Desc list" where
  \<comment> \<open>every descriptor \<^verbatim>\<open>CollectDomain\<close> sends with\<close>
  "domain_descs = domain_info_descs @ vcpu_descs @ block_descs @ interface_descs @ memory_descs"

definition pool_descs :: "Desc list" where
  "pool_descs = [libvirtPoolInfoCapacity, libvirtPoolInfoAllocation, libvirtPoolInfoAvailable]"

section \<open>Reading a trace\<close>

definition delay_metrics_for :: "string \<Rightarrow> nat \<Rightarrow> event list \<Rightarrow> Metric list" where
  \<comment> \<open>the delay metrics a trace sends for a VCPU of a domain: those with the descriptor
      \<open>libvirt_domain_vcpu_delay_seconds_total\<close> and the labels of the domain and the VCPU\<close>
  "delay_metrics_for domainName cpuNum evs =
     filter (\<lambda>m. Metric_desc m = libvirtDomainVcpuDelayDesc \<and>
                 Metric_labelValues m = [domainName, strconv_FormatInt10 (int cpuNum)])
       (sent evs)"

definition estimator_calls :: "event list \<Rightarrow> (nat \<times> string \<times> int) list" where
  \<comment> \<open>the calls of \<^verbatim>\<open>utils.GetProcPIDSchedStat\<close> in a trace: VCPU index, task root, thread id\<close>
  "estimator_calls evs =
     concat (map (\<lambda>e. case e of Call_GetProcPIDSchedStat i p q \<Rightarrow> [(i, p, q)] | _ \<Rightarrow> []) evs)"

definition delay_metric :: "string \<Rightarrow> nat \<Rightarrow> uint64 \<Rightarrow> Metric" where
  \<comment> \<open>the delay metric of a VCPU for a number of nanoseconds: \<^verbatim>\<open>float64(ns)/1e9\<close>\<close>
  "delay_metric domainName cpuNum ns =
     MustNewConstMetric libvirtDomainVcpuDelayDesc CounterValue
       (f64_div (float64_of_uint64 ns) 1000000000)
       [domainName, strconv_FormatInt10 (int cpuNum)]"


section \<open>A host with one running domain\<close>

text \<open>
  The scenario of the specification: the domain \<open>vm-1\<close> runs in process 100, its VCPU 0
  in thread 150, whose scheduler statistics report a run-queue wait of 5,000,000,000 ns.
  The inputs of the evaluations below are this host with one answer changed.
\<close>

definition lv_error :: "int \<Rightarrow> error" where
  "lv_error c = LibvirtError \<lparr>Code = c, Error_Domain = 10, Message = ''operation failed''\<rparr>"

definition vda_xml :: Disk where
  "vda_xml =
     \<lparr>Disk_Source_Name = ''pool/vm-1-disk'', Disk_Target_Device = ''vda'',
      Disk_Target_Bus = ''virtio'', Disk_Driver_Type = ''raw'', Disk_Driver_Cache = ''none'',
      Disk_Driver_Discard = ''unmap'', Disk_Serial = ''s-1'', Disk_DiskType = ''network''\<rparr>"

definition desc_1 :: libvirtSchema_Domain where
  "desc_1 =
     \<lparr>Devices_Disks = [vda_xml],
      Devices_Interfaces = [],
      Metadata_NovaInstance =
        \<lparr>NovaName = ''vm-1'', NovaFlavor_FlavorName = ''small'',
         NovaOwner_NovaUser_UserName = ''u'', NovaOwner_NovaUser_UserUUID = ''u-1'',
         NovaOwner_NovaProject_ProjectName = ''p'', NovaOwner_NovaProject_ProjectUUID = ''p-1'',
         NovaRoot_RootType = ''image'', NovaRoot_RootUUID = ''r-1''\<rparr>\<rparr>"

definition tune_unset :: DomainBlockIoTuneParameters where
  "tune_unset =
     \<lparr>Tune_TotalBytesSecSet = False, Tune_TotalBytesSec = 0,
      Tune_ReadBytesSecSet = False, Tune_ReadBytesSec = 0,
      Tune_WriteBytesSecSet = False, Tune_WriteBytesSec = 0,
      Tune_TotalIopsSecSet = False, Tune_TotalIopsSec = 0,
      Tune_ReadIopsSecSet = False, Tune_ReadIopsSec = 0,
      Tune_WriteIopsSecSet = False, Tune_WriteIopsSec = 0,
      Tune_TotalBytesSecMaxSet = False, Tune_TotalBytesSecMax = 0,
      Tune_ReadBytesSecMaxSet = False, Tune_ReadBytesSecMax = 0,
      Tune_WriteBytesSecMaxSet = False, Tune_WriteBytesSecMax = 0,
      Tune_TotalIopsSecMaxSet = False, Tune_TotalIopsSecMax = 0,
      Tune_ReadIopsSecMaxSet = False, Tune_ReadIopsSecMax = 0,
      Tune_WriteIopsSecMaxSet = False, Tune_WriteIopsSecMax = 0,
      Tune_TotalBytesSecMaxLengthSet = False, Tune_TotalBytesSecMaxLength = 0,
      Tune_ReadBytesSecMaxLengthSet = False, Tune_ReadBytesSecMaxLength = 0,
      Tune_WriteBytesSecMaxLengthSet = False, Tune_WriteBytesSecMaxLength = 0,
      Tune_TotalIopsSecMaxLengthSet = False, Tune_TotalIopsSecMaxLength = 0,
      Tune_ReadIopsSecMaxLengthSet = False, Tune_ReadIopsSecMaxLength = 0,
      Tune_WriteIopsSecMaxLengthSet = False, Tune_WriteIopsSecMaxLength = 0,
      Tune_SizeIopsSecSet = False, Tune_SizeIopsSec = 0\<rparr>"

definition block_named :: "string \<Rightarrow> DomainStatsBlock" where
  \<comment> \<open>a block device that reports its read bytes and its capacity\<close>
  "block_named name =
     \<lparr>Block_Name = name, Block_PathSet = False, Block_Path = [],
      Block_RdBytesSet = True, Block_RdBytes = 4096,
      Block_RdReqsSet = False, Block_RdReqs = 0,
      Block_RdTimesSet = False, Block_RdTimes = 0,
      Block_WrBytesSet = False, Block_WrBytes = 0,
      Block_WrReqsSet = False, Block_WrReqs = 0,
      Block_WrTimesSet = False, Block_WrTimes = 0,
      Block_FlReqsSet = False, Block_FlReqs = 0,
      Block_FlTimesSet = False, Block_FlTimes = 0,
      Block_AllocationSet = False, Block_Allocation = 0,
      Block_CapacitySet = True, Block_Capacity = 1048576,
      Block_PhysicalSet = False, Block_Physical = 0\<rparr>"

definition domain_1 :: Domain where
  "domain_1 =
     \<lparr>Domain_handle = 1,
      Domain_GetName = Inr ''vm-1'',
      Domain_QemuMonitorCommand = Inr (''* CPU #0: thread_id=150'' @ [CHR 0x0D, CHR 0x0A]),
      Domain_GetUUIDString = Inr ''6e2f6d5c-0000-4000-8000-000000000001'',
      Domain_GetXMLDesc = Inr ''<domain/>'',
      Domain_GetInfo = Inr \<lparr>Info_State = 1, Info_MaxMem = 2097152, Info_Memory = 2097152,
                             Info_NrVirtCpu = 1, Info_CpuTime = 3000000000\<rparr>,
      Domain_GetVcpus = Inr [\<lparr>VcpuInfo_Number = 0, VcpuInfo_State = 1,
                               VcpuInfo_CpuTime = 2000000000, VcpuInfo_Cpu = 3\<rparr>],
      Domain_GetBlockIoTune = (\<lambda>name. Inr tune_unset),
      Domain_MemoryStats = Inr [\<lparr>Tag = 5, Val = 2000000\<rparr>, \<lparr>Tag = 8, Val = 500000\<rparr>]\<rparr>"

definition vcpu_estimated :: DomainStatsVcpu where
  \<comment> \<open>the hypervisor reports no delay\<close>
  "vcpu_estimated = \<lparr>Vcpu_WaitSet = False, Vcpu_Wait = 0, Vcpu_DelaySet = False, Vcpu_Delay = 0\<rparr>"

definition vcpu_reported :: DomainStatsVcpu where
  \<comment> \<open>the hypervisor reports a delay of 7 s\<close>
  "vcpu_reported =
     \<lparr>Vcpu_WaitSet = False, Vcpu_Wait = 0, Vcpu_DelaySet = True, Vcpu_Delay = 7000000000\<rparr>"

definition stats_1 :: DomainStats where
  "stats_1 =
     \<lparr>Stats_Domain = domain_1, Stats_Vcpu = [vcpu_estimated],
      Stats_Block = [block_named ''vda''], Stats_Net = []\<rparr>"

definition pool_n :: "nat \<Rightarrow> string \<Rightarrow> StoragePool" where
  "pool_n n name =
     \<lparr>Pool_handle = n, Pool_Refresh = None, Pool_GetName = Inr name,
      Pool_GetInfo = Inr \<lparr>PoolInfo_Capacity = 100, PoolInfo_Allocation = 40,
                           PoolInfo_Available = 60\<rparr>\<rparr>"

definition conn_1 :: Connect where
  "conn_1 =
     \<lparr>Connect_GetVersion = Inr 8002000, Connect_GetLibVersion = Inr 7002000,
      Connect_GetAllDomainStats = Inr [stats_1],
      Connect_ListAllStoragePools = Inr [pool_n 1 ''default'']\<rparr>"

definition host_with :: "Connect \<Rightarrow> host" where
  "host_with conn =
     \<lparr>procFSPath = ''/proc'',
      os_ReadDir = (\<lambda>p. if p = ''/proc''
                         then Inr [(''100'', True), (''self'', True), (''uptime'', False)]
                         else Inl (OtherError ''no such file or directory'')),
      os_ReadFile = (\<lambda>p. if p = ''/proc/100/cmdline'' then Inr ''qemu-system-x86_64 -name guest=vm-1''
                          else if p = ''/proc/100/task/150/schedstat'' then Inr ''1000 5000000000 7''
                          else Inl (OtherError ''no such file or directory'')),
      fmt_Fscan = (\<lambda>c. if c = ''1000 5000000000 7'' then Inr (1000, 5000000000, 7)
                        else Inl (OtherError ''unexpected EOF'')),
      xml_Unmarshal = (\<lambda>x. if x = ''<domain/>'' then Inr desc_1 else Inl (OtherError ''EOF'')),
      libvirt_NewConnect = (\<lambda>uri. Inr conn),
      libvirt_GetVersion = Inr 7002000\<rparr>"

definition host_1 :: host where
  "host_1 = host_with conn_1"

definition state_0 :: state where
  \<comment> \<open>the state at the first scrape\<close>
  "state_0 = \<lparr>errorsMap = {}, processes = []\<rparr>"

definition state_1 :: state where
  \<comment> \<open>the state once the process list is refreshed\<close>
  "state_1 = \<lparr>errorsMap = {}, processes = [100]\<rparr>"


definition stats_unmatched :: DomainStats where
  \<comment> \<open>the batch statistics name a block device \<open>vdb\<close> that the description does not have\<close>
  "stats_unmatched = stats_1\<lparr>Stats_Block := [block_named ''vdb'']\<rparr>"

definition stats_tune_error :: "error \<Rightarrow> DomainStats" where
  \<comment> \<open>the query of the I/O-tuning limits fails with the error\<close>
  "stats_tune_error err =
     stats_1\<lparr>Stats_Domain := domain_1\<lparr>Domain_GetBlockIoTune := (\<lambda>name. Inl err)\<rparr>\<rparr>"

definition conn_two_pools :: Connect where
  \<comment> \<open>two active pools; refreshing the first fails\<close>
  "conn_two_pools =
     conn_1\<lparr>Connect_ListAllStoragePools :=
              Inr [(pool_n 1 ''default'')\<lparr>Pool_Refresh := Some (lv_error 1)\<rparr>, pool_n 2 ''images'']\<rparr>"

definition stats_cdrom :: DomainStats where
  \<comment> \<open>the batch statistics list the devices \<open>hdc\<close>, \<open>vda\<close> and \<open>hda\<close>\<close>
  "stats_cdrom =
     stats_1\<lparr>Stats_Block := [block_named ''hdc'', block_named ''vda'', block_named ''hda'']\<rparr>"

definition stats_reported :: DomainStats where
  \<comment> \<open>the hypervisor reports the delay of VCPU 0\<close>
  "stats_reported = stats_1\<lparr>Stats_Vcpu := [vcpu_reported]\<rparr>"

definition domain_gated :: Domain where
  \<comment> \<open>\<^verbatim>\<open>GetVcpus\<close> fails with an invalid-operation error\<close>
  "domain_gated = domain_1\<lparr>Domain_GetVcpus := Inl (lv_error ERR_OPERATION_INVALID)\<rparr>"

definition stats_gated_reported :: DomainStats where
  "stats_gated_reported = stats_1\<lparr>Stats_Domain := domain_gated, Stats_Vcpu := [vcpu_reported]\<rparr>"

definition stats_gated_estimated :: DomainStats where
  "stats_gated_estimated = stats_1\<lparr>Stats_Domain := domain_gated\<rparr>"

definition stats_unreadable :: DomainStats where
  \<comment> \<open>the monitor names thread 151 for VCPU 0; the host has no scheduler statistics for it\<close>
  "stats_unreadable =
     stats_1\<lparr>Stats_Domain :=
               domain_1\<lparr>Domain_QemuMonitorCommand :=
                          Inr (''* CPU #0: thread_id=151'' @ [CHR 0x0D, CHR 0x0A])\<rparr>\<rparr>"

definition stats_vm2 :: DomainStats where
  \<comment> \<open>a domain named \<open>vm-2\<close>, which no command line of the host contains\<close>
  "stats_vm2 = stats_1\<lparr>Stats_Domain := domain_1\<lparr>Domain_GetName := Inr ''vm-2''\<rparr>\<rparr>"

definition stats_no_uuid :: DomainStats where
  \<comment> \<open>the UUID of the domain cannot be read\<close>
  "stats_no_uuid = stats_1\<lparr>Stats_Domain := domain_1\<lparr>Domain_GetUUIDString := Inl (lv_error 1)\<rparr>\<rparr>"

definition stats_no_memory :: DomainStats where
  \<comment> \<open>the memory statistics of the domain cannot be read\<close>
  "stats_no_memory = stats_1\<lparr>Stats_Domain := domain_1\<lparr>Domain_MemoryStats := Inl (lv_error 1)\<rparr>\<rparr>"

definition conn_no_stats :: Connect where
  \<comment> \<open>the batched statistics call fails\<close>
  "conn_no_stats = conn_1\<lparr>Connect_GetAllDomainStats := Inl (lv_error 1)\<rparr>"

definition memory_huge :: VirDomainMemoryStats where
  \<comment> \<open>more available memory than a \<^verbatim>\<open>float64\<close> holds exactly, nearly all of it in use\<close>
  "memory_huge = zero_VirDomainMemoryStats\<lparr>Available := 8739532681623778654, Usable := 234\<rparr>"

definition stats_huge_memory :: DomainStats where
  "stats_huge_memory =
     stats_1\<lparr>Stats_Domain :=
               domain_1\<lparr>Domain_MemoryStats :=
                          Inr [\<lparr>Tag = 5, Val = 8739532681623778654\<rparr>, \<lparr>Tag = 8, Val = 234\<rparr>]\<rparr>\<rparr>"


section \<open>Traces\<close>

lemma sent_Nil [simp]: "sent [] = []"
  by (simp add: sent_def)

lemma sent_append [simp]: "sent (evs @ evs') = sent evs @ sent evs'"
  by (simp add: sent_def)

lemma sent_Send [simp]: "sent (Send m # evs) = m # sent evs"
  by (simp add: sent_def)

lemma sent_LogError [simp]: "sent (LogError kv # evs) = sent evs"
  by (simp add: sent_def)

lemma sent_Call [simp]: "sent (Call_GetProcPIDSchedStat i p q # evs) = sent evs"
  by (simp add: sent_def)

lemma sent_Free [simp]: "sent (Free x # evs) = sent evs"
  by (simp add: sent_def)

lemma sent_Close [simp]: "sent (Close # evs) = sent evs"
  by (simp add: sent_def)

lemma sent_map_Send [simp]: "sent (map Send ms) = ms"
  by (induction ms) simp_all

lemma in_set_if_single: "m \<in> set (if b then [x] else []) \<longleftrightarrow> b \<and> m = x"
  by (cases b) auto

section \<open>Which descriptors each part sends with\<close>

lemma domain_info_metrics_desc:
  "m \<in> set (domain_info_metrics domainName domainUUID desc info) \<Longrightarrow>
   Metric_desc m \<in> set domain_info_descs"
  by (auto simp: domain_info_metrics_def domain_info_descs_def Let_def MustNewConstMetric_def)

lemma vcpu_info_metrics_desc:
  "m \<in> set (vcpu_info_metrics domainName vcpu) \<Longrightarrow> Metric_desc m \<in> set vcpu_descs"
  by (auto simp: vcpu_info_metrics_def vcpu_descs_def Let_def MustNewConstMetric_def)

lemma vcpu_stats_step_desc:
  "m \<in> set (sent (vcpu_stats_step h domainName domainPid domainVcpuPids cpuNum vcpu)) \<Longrightarrow>
   Metric_desc m \<in> set vcpu_descs"
  by (auto simp: vcpu_stats_step_def vcpu_descs_def Let_def MustNewConstMetric_def
           split: if_splits sum.splits)

lemma vcpu_stats_loop_desc:
  "m \<in> set (sent (vcpu_stats_loop h domainName domainPid domainVcpuPids cpuNum vcpus)) \<Longrightarrow>
   Metric_desc m \<in> set vcpu_descs"
  by (induction vcpus arbitrary: cpuNum) (auto dest: vcpu_stats_step_desc)

lemma collect_vcpus_desc:
  "m \<in> set (sent (fst (collect_vcpus h stat domainName domainPid domainVcpuPids))) \<Longrightarrow>
   Metric_desc m \<in> set vcpu_descs"
  unfolding collect_vcpus_def
  by (auto split: sum.splits if_splits dest: vcpu_info_metrics_desc vcpu_stats_loop_desc)

lemma block_counters_desc:
  "m \<in> set (block_counters domainName disk) \<Longrightarrow>
   Metric_desc m \<in> set block_descs \<and> Metric_labelValues m = [domainName, Block_Name disk]"
  unfolding block_counters_def block_descs_def MustNewConstMetric_def
  by (auto simp: in_set_if_single split del: if_split)

lemma block_io_tune_limits_desc:
  "m \<in> set (block_io_tune_limits domainName diskName params) \<Longrightarrow>
   Metric_desc m \<in> set block_descs \<and> Metric_labelValues m = [domainName, diskName]"
  unfolding block_io_tune_limits_def block_descs_def MustNewConstMetric_def
  by (auto simp: in_set_if_single split del: if_split)

lemma block_io_tune_desc:
  "m \<in> set (sent (fst (block_io_tune domain domainName disk s))) \<Longrightarrow>
   Metric_desc m \<in> set block_descs \<and> Metric_labelValues m = [domainName, Block_Name disk]"
  unfolding block_io_tune_def WriteErrorOnce_def
  by (auto split: sum.splits prod.splits if_splits dest: block_io_tune_limits_desc)

lemma block_meta_desc:
  "Metric_desc (block_meta domainName disk DiskSource Device) \<in> set block_descs \<and>
   Metric_labelValues (block_meta domainName disk DiskSource Device) ! 1 = Block_Name disk"
  by (simp add: block_meta_def block_descs_def MustNewConstMetric_def)

lemma block_device_desc:
  assumes "m \<in> set (sent (fst (block_device domain desc domainName disk s)))"
  shows "Metric_desc m \<in> set block_descs \<and> Metric_labelValues m ! 1 = Block_Name disk \<and>
         Block_Name disk \<noteq> ''hdc'' \<and> Block_Name disk \<noteq> ''hda''"
proof (cases "Block_Name disk = ''hdc'' \<or> Block_Name disk = ''hda''")
  case True
  with assms show ?thesis by (simp add: block_device_def)
next
  case False
  show ?thesis
  proof (cases "lookup_disk (Block_Name disk) (Devices_Disks desc)")
    case None
    with False assms show ?thesis by (simp add: block_device_def)
  next
    case (Some dev)
    obtain evs r s' where t: "block_io_tune domain domainName disk s = (evs, r, s')"
      by (cases "block_io_tune domain domainName disk s") auto
    from assms False Some t
    consider (meta) DiskSource where "m = block_meta domainName disk DiskSource dev"
      | (counter) "m \<in> set (block_counters domainName disk)"
      | (tune) "m \<in> set (sent evs)"
      by (auto simp: block_device_def)
    then show ?thesis
    proof cases
      case meta
      with False show ?thesis using block_meta_desc by simp
    next
      case counter
      with False show ?thesis using block_counters_desc [OF counter] by simp
    next
      case tune
      with t have "m \<in> set (sent (fst (block_io_tune domain domainName disk s)))" by simp
      from block_io_tune_desc [OF this] False show ?thesis by simp
    qed
  qed
qed

lemma collect_blocks_desc:
  "m \<in> set (sent (fst (collect_blocks domain desc domainName disks s))) \<Longrightarrow>
   Metric_desc m \<in> set block_descs \<and>
   (\<exists>disk \<in> set disks. Metric_labelValues m ! 1 = Block_Name disk \<and>
                        Block_Name disk \<noteq> ''hdc'' \<and> Block_Name disk \<noteq> ''hda'')"
proof (induction disks arbitrary: s)
  case Nil
  then show ?case by simp
next
  case (Cons disk disks)
  obtain evs r s' where b: "block_device domain desc domainName disk s = (evs, r, s')"
    by (cases "block_device domain desc domainName disk s") auto
  obtain evs' r' s'' where c: "collect_blocks domain desc domainName disks s' = (evs', r', s'')"
    by (cases "collect_blocks domain desc domainName disks s'") auto
  from Cons.prems b c have "m \<in> set (sent evs) \<or> m \<in> set (sent evs')"
    by (cases r) auto
  then show ?case
  proof
    assume "m \<in> set (sent evs)"
    with b have "m \<in> set (sent (fst (block_device domain desc domainName disk s)))" by simp
    from block_device_desc [OF this] show ?thesis by simp
  next
    assume "m \<in> set (sent evs')"
    with c have "m \<in> set (sent (fst (collect_blocks domain desc domainName disks s')))" by simp
    from Cons.IH [OF this] show ?thesis by auto
  qed
qed

lemma interface_counters_desc:
  "m \<in> set (interface_counters domainName iface) \<Longrightarrow> Metric_desc m \<in> set interface_descs"
  unfolding interface_counters_def interface_descs_def MustNewConstMetric_def
  by (auto simp: in_set_if_single split del: if_split)

lemma interface_metrics_desc:
  "m \<in> set (interface_metrics desc domainName iface) \<Longrightarrow> Metric_desc m \<in> set interface_descs"
  unfolding interface_metrics_def
  by (auto split: option.splits if_splits dest: interface_counters_desc
           simp: interface_descs_def MustNewConstMetric_def)

lemma memory_stats_metrics_desc:
  "m \<in> set (memory_stats_metrics domain domainName) \<Longrightarrow> Metric_desc m \<in> set memory_descs"
  unfolding memory_stats_metrics_def memory_descs_def MustNewConstMetric_def
  by (auto split: sum.splits prod.splits simp: Let_def)


lemma distinct_descs:
  "distinct (libvirtUpDesc # libvirtVersionsInfoDesc # pool_descs @ domain_descs)"
  by code_simp

lemma descs_disjoint:
  "set domain_info_descs \<inter> set vcpu_descs = {}"
  "set domain_info_descs \<inter> set block_descs = {}"
  "set domain_info_descs \<inter> set interface_descs = {}"
  "set domain_info_descs \<inter> set memory_descs = {}"
  "set vcpu_descs \<inter> set block_descs = {}"
  "set vcpu_descs \<inter> set interface_descs = {}"
  "set vcpu_descs \<inter> set memory_descs = {}"
  "set block_descs \<inter> set interface_descs = {}"
  "set block_descs \<inter> set memory_descs = {}"
  "set interface_descs \<inter> set memory_descs = {}"
  using distinct_descs unfolding domain_descs_def by auto

lemma up_versions_pool_not_domain:
  "libvirtUpDesc \<notin> set domain_descs" "libvirtVersionsInfoDesc \<notin> set domain_descs"
  "set pool_descs \<inter> set domain_descs = {}" "libvirtUpDesc \<notin> set pool_descs"
  "libvirtUpDesc \<noteq> libvirtVersionsInfoDesc"
  using distinct_descs by auto

lemma collect_devices_desc:
  assumes "m \<in> set (sent (fst (collect_devices h stat domainName desc s)))"
  shows "Metric_desc m \<in> set interface_descs \<or> Metric_desc m \<in> set memory_descs \<or>
         (Metric_desc m \<in> set block_descs \<and>
          (\<exists>disk \<in> set (Stats_Block stat). Metric_labelValues m ! 1 = Block_Name disk \<and>
             Block_Name disk \<noteq> ''hdc'' \<and> Block_Name disk \<noteq> ''hda''))"
proof -
  obtain evs r s' where
    b: "collect_blocks (Stats_Domain stat) desc domainName (Stats_Block stat) s = (evs, r, s')"
    by (cases "collect_blocks (Stats_Domain stat) desc domainName (Stats_Block stat) s") auto
  from assms b consider
      (block) "m \<in> set (sent evs)"
    | (iface) iface where "m \<in> set (interface_metrics desc domainName iface)"
    | (mem) "m \<in> set (memory_stats_metrics (Stats_Domain stat) domainName)"
    by (cases r) (auto simp: collect_devices_def)
  then show ?thesis
  proof cases
    case block
    with b have "m \<in> set (sent (fst (collect_blocks (Stats_Domain stat) desc domainName
                                        (Stats_Block stat) s)))" by simp
    from collect_blocks_desc [OF this] show ?thesis by simp
  next
    case iface
    then show ?thesis by (simp add: interface_metrics_desc)
  next
    case mem
    then show ?thesis by (simp add: memory_stats_metrics_desc)
  qed
qed

lemma CollectDomain_parts:
  assumes "m \<in> set (sent (fst (CollectDomain h stat s)))"
  shows "\<exists>domainName domainUUID desc info domainPid domainVcpuPids.
           m \<in> set (domain_info_metrics domainName domainUUID desc info) \<or>
           m \<in> set (sent (fst (collect_vcpus h stat domainName domainPid domainVcpuPids))) \<or>
           m \<in> set (sent (fst (collect_devices h stat domainName desc s)))"
proof (cases "domain_setup h stat s")
  case (Inl e)
  with assms show ?thesis by (simp add: CollectDomain_def)
next
  case (Inr t)
  then obtain domainName domainPid domainVcpuPids domainUUID desc info where
    t: "domain_setup h stat s = Inr (domainName, domainPid, domainVcpuPids, domainUUID, desc, info)"
    by (cases t) auto
  obtain evs1 r1 where v: "collect_vcpus h stat domainName domainPid domainVcpuPids = (evs1, r1)"
    by (cases "collect_vcpus h stat domainName domainPid domainVcpuPids") auto
  obtain evs2 r2 s2 where d: "collect_devices h stat domainName desc s = (evs2, r2, s2)"
    by (cases "collect_devices h stat domainName desc s") auto
  have "m \<in> set (domain_info_metrics domainName domainUUID desc info) \<or>
        m \<in> set (sent evs1) \<or> m \<in> set (sent evs2)"
    using assms t v d by (cases r1) (auto simp: CollectDomain_def Let_def)
  with v d show ?thesis by (metis fst_conv)
qed

lemma CollectDomain_desc:
  assumes "m \<in> set (sent (fst (CollectDomain h stat s)))"
  shows "Metric_desc m \<in> set domain_info_descs \<or> Metric_desc m \<in> set vcpu_descs \<or>
         Metric_desc m \<in> set interface_descs \<or> Metric_desc m \<in> set memory_descs \<or>
         (Metric_desc m \<in> set block_descs \<and>
          (\<exists>disk \<in> set (Stats_Block stat). Metric_labelValues m ! 1 = Block_Name disk \<and>
             Block_Name disk \<noteq> ''hdc'' \<and> Block_Name disk \<noteq> ''hda''))"
  using CollectDomain_parts [OF assms] domain_info_metrics_desc collect_vcpus_desc
    collect_devices_desc
  by blast


section \<open>Decimal formatting\<close>

lemma digit_val_digit_char: "0 \<le> d \<Longrightarrow> d < 10 \<Longrightarrow> digit_val (digit_char d) = d"
  by (simp add: digit_val_def digit_char_def)

lemma parse_dec_snoc: "parse_dec (ds @ [c]) = 10 * parse_dec ds + digit_val c"
  by (simp add: parse_dec_def)

lemma parse_format_dec: "0 \<le> n \<Longrightarrow> parse_dec (format_dec n) = n"
proof (induction n rule: format_dec.induct)
  case (1 n)
  show ?case
  proof (cases "n < 10")
    case True
    with "1.prems" show ?thesis
      by (simp add: format_dec.simps [of n] parse_dec_def digit_val_digit_char)
  next
    case False
    with "1.prems" have "parse_dec (format_dec (n div 10)) = n div 10"
      by (intro "1.IH") auto
    with False "1.prems" show ?thesis
      by (simp add: format_dec.simps [of n] parse_dec_snoc digit_val_digit_char)
  qed
qed

lemma FormatInt10_inj:
  "strconv_FormatInt10 (int i) = strconv_FormatInt10 (int j) \<longleftrightarrow> i = j"
proof
  assume "strconv_FormatInt10 (int i) = strconv_FormatInt10 (int j)"
  then have "parse_dec (format_dec (int i)) = parse_dec (format_dec (int j))"
    by (simp add: strconv_FormatInt10_def strconv_Itoa_def)
  then show "i = j" by (simp add: parse_format_dec)
qed simp

section \<open>Delay metrics and estimator calls of a trace\<close>

lemma delay_metrics_for_Nil [simp]: "delay_metrics_for domainName i [] = []"
  by (simp add: delay_metrics_for_def)

lemma delay_metrics_for_append [simp]:
  "delay_metrics_for domainName i (evs @ evs') =
   delay_metrics_for domainName i evs @ delay_metrics_for domainName i evs'"
  by (simp add: delay_metrics_for_def)

lemma delay_metrics_for_none:
  "(\<And>m. m \<in> set (sent evs) \<Longrightarrow> Metric_desc m \<noteq> libvirtDomainVcpuDelayDesc) \<Longrightarrow>
   delay_metrics_for domainName i evs = []"
  by (auto simp: delay_metrics_for_def filter_empty_conv)

lemma estimator_calls_Nil [simp]: "estimator_calls [] = []"
  by (simp add: estimator_calls_def)

lemma estimator_calls_append [simp]:
  "estimator_calls (evs @ evs') = estimator_calls evs @ estimator_calls evs'"
  by (simp add: estimator_calls_def)

lemma estimator_calls_Cons [simp]:
  "estimator_calls (Send m # evs) = estimator_calls evs"
  "estimator_calls (LogError kv # evs) = estimator_calls evs"
  "estimator_calls (Call_GetProcPIDSchedStat i p q # evs) = (i, p, q) # estimator_calls evs"
  "estimator_calls (Free x # evs) = estimator_calls evs"
  "estimator_calls (Close # evs) = estimator_calls evs"
  by (simp_all add: estimator_calls_def)

lemma estimator_calls_map_Send [simp]: "estimator_calls (map Send ms) = []"
  by (induction ms) simp_all

lemma delay_desc_facts:
  "libvirtDomainVcpuDelayDesc \<in> set vcpu_descs"
  "libvirtDomainVcpuStateDesc \<noteq> libvirtDomainVcpuDelayDesc"
  "libvirtDomainVcpuTimeDesc \<noteq> libvirtDomainVcpuDelayDesc"
  "libvirtDomainVcpuCPUDesc \<noteq> libvirtDomainVcpuDelayDesc"
  "libvirtDomainVcpuWaitDesc \<noteq> libvirtDomainVcpuDelayDesc"
  using distinct_descs by (auto simp: domain_descs_def vcpu_descs_def)

lemma delay_desc_not_elsewhere:
  "libvirtDomainVcpuDelayDesc \<notin> set domain_info_descs"
  "libvirtDomainVcpuDelayDesc \<notin> set block_descs"
  "libvirtDomainVcpuDelayDesc \<notin> set interface_descs"
  "libvirtDomainVcpuDelayDesc \<notin> set memory_descs"
  using descs_disjoint delay_desc_facts(1) by blast+

lemma delay_vcpu_info [simp]:
  "delay_metrics_for domainName i (map Send (concat (map (vcpu_info_metrics dn) vs))) = []"
  by (rule delay_metrics_for_none)
     (auto simp: vcpu_info_metrics_def Let_def MustNewConstMetric_def delay_desc_facts)

lemma delay_domain_info [simp]:
  "delay_metrics_for domainName i (map Send (domain_info_metrics dn uuid desc info)) = []"
  using delay_desc_not_elsewhere(1)
  by (intro delay_metrics_for_none) (auto dest: domain_info_metrics_desc)

lemma delay_collect_devices [simp]:
  "delay_metrics_for domainName i (fst (collect_devices h stat dn desc s)) = []"
  using delay_desc_not_elsewhere
  by (intro delay_metrics_for_none) (auto dest!: collect_devices_desc)

lemma delay_step_other:
  "c \<noteq> i \<Longrightarrow> delay_metrics_for domainName i (vcpu_stats_step h domainName pid pids c vcpu) = []"
  by (auto simp: delay_metrics_for_def vcpu_stats_step_def Let_def MustNewConstMetric_def
                 FormatInt10_inj delay_desc_facts split: sum.splits)

lemma delay_step:
  "delay_metrics_for domainName i (vcpu_stats_step h domainName pid pids i vcpu) =
     (if Vcpu_DelaySet vcpu then [delay_metric domainName i (Vcpu_Delay vcpu)]
      else if length pids \<le> i then []
      else case GetProcPIDSchedStat h (filepath_Join [procFSPath h, strconv_Itoa pid, ''task''])
                  (pids ! i) of
             Inl err \<Rightarrow> []
           | Inr st \<Rightarrow> [delay_metric domainName i (Runqueue st)])"
  by (auto simp: delay_metrics_for_def vcpu_stats_step_def Let_def MustNewConstMetric_def
                 delay_metric_def delay_desc_facts split: sum.splits)

lemma delay_loop:
  "delay_metrics_for domainName i (vcpu_stats_loop h domainName pid pids c vcpus) =
     (if c \<le> i \<and> i < c + length vcpus
      then delay_metrics_for domainName i (vcpu_stats_step h domainName pid pids i (vcpus ! (i - c)))
      else [])"
proof (induction vcpus arbitrary: c)
  case Nil
  then show ?case by auto
next
  case (Cons v vs)
  show ?case
  proof (cases "c = i")
    case True
    then show ?thesis by (simp add: Cons.IH)
  next
    case False
    then show ?thesis by (auto simp: Cons.IH delay_step_other Suc_diff_le nth_Cons')
  qed
qed

lemma calls_step:
  "estimator_calls (vcpu_stats_step h domainName pid pids c vcpu) =
     (if \<not> Vcpu_DelaySet vcpu \<and> c < length pids
      then [(c, filepath_Join [procFSPath h, strconv_Itoa pid, ''task''], pids ! c)]
      else [])"
  by (auto simp: vcpu_stats_step_def Let_def split: sum.splits)

lemma calls_loop:
  "x \<in> set (estimator_calls (vcpu_stats_loop h domainName pid pids c vcpus)) \<longleftrightarrow>
     (\<exists>k < length vcpus. \<not> Vcpu_DelaySet (vcpus ! k) \<and> c + k < length pids \<and>
        x = (c + k, filepath_Join [procFSPath h, strconv_Itoa pid, ''task''], pids ! (c + k)))"
proof (induction vcpus arbitrary: c)
  case Nil
  then show ?case by simp
next
  case (Cons v vs)
  show ?case by (simp add: Cons.IH calls_step Ex_less_Suc2) auto
qed

lemma calls_block_io_tune [simp]: "estimator_calls (fst (block_io_tune domain dn disk s)) = []"
  by (auto simp: block_io_tune_def WriteErrorOnce_def split: sum.splits prod.splits)

lemma calls_block_device [simp]: "estimator_calls (fst (block_device domain desc dn disk s)) = []"
proof -
  obtain evs r s' where t: "block_io_tune domain dn disk s = (evs, r, s')"
    by (cases "block_io_tune domain dn disk s") auto
  with calls_block_io_tune [of domain dn disk s] have "estimator_calls evs = []" by simp
  with t show ?thesis by (auto simp: block_device_def Let_def split: option.splits)
qed

lemma calls_collect_blocks [simp]:
  "estimator_calls (fst (collect_blocks domain desc dn disks s)) = []"
proof (induction disks arbitrary: s)
  case Nil
  then show ?case by simp
next
  case (Cons disk disks)
  obtain evs r s' where b: "block_device domain desc dn disk s = (evs, r, s')"
    by (cases "block_device domain desc dn disk s") auto
  with calls_block_device [of domain desc dn disk s] have e: "estimator_calls evs = []" by simp
  obtain evs' r' s'' where c: "collect_blocks domain desc dn disks s' = (evs', r', s'')"
    by (cases "collect_blocks domain desc dn disks s'") auto
  with Cons.IH [of s'] have "estimator_calls evs' = []" by simp
  with b c e show ?case by (cases r) auto
qed

lemma calls_collect_devices [simp]:
  "estimator_calls (fst (collect_devices h stat dn desc s)) = []"
proof -
  obtain evs r s' where
    b: "collect_blocks (Stats_Domain stat) desc dn (Stats_Block stat) s = (evs, r, s')"
    by (cases "collect_blocks (Stats_Domain stat) desc dn (Stats_Block stat) s") auto
  with calls_collect_blocks [of "Stats_Domain stat" desc dn "Stats_Block stat" s]
  have "estimator_calls evs = []" by simp
  with b show ?thesis by (cases r) (auto simp: collect_devices_def)
qed

section \<open>The trace of CollectDomain\<close>

lemma CollectDomain_trace:
  "fst (CollectDomain h stat s) =
     (case domain_setup h stat s of
        Inl err \<Rightarrow> []
      | Inr (domainName, domainPid, domainVcpuPids, domainUUID, desc, info) \<Rightarrow>
          map Send (domain_info_metrics domainName domainUUID desc info) @
          fst (collect_vcpus h stat domainName domainPid domainVcpuPids) @
          (if snd (collect_vcpus h stat domainName domainPid domainVcpuPids) = Ok
           then fst (collect_devices h stat domainName desc s) else []))"
  by (auto simp: CollectDomain_def Let_def split: sum.splits prod.splits outcome.splits)

lemma CollectDomain_delay:
  "delay_metrics_for dn i (fst (CollectDomain h stat s)) =
     (case domain_setup h stat s of
        Inl err \<Rightarrow> []
      | Inr (domainName, domainPid, domainVcpuPids, domainUUID, desc, info) \<Rightarrow>
          (case Domain_GetVcpus (Stats_Domain stat) of
             Inl err \<Rightarrow> []
           | Inr domainStatsVcpu \<Rightarrow>
               delay_metrics_for dn i
                 (vcpu_stats_loop h domainName domainPid domainVcpuPids 0 (Stats_Vcpu stat))))"
  by (auto simp: CollectDomain_trace collect_vcpus_def split: sum.splits prod.splits)

lemma CollectDomain_calls:
  "estimator_calls (fst (CollectDomain h stat s)) =
     (case domain_setup h stat s of
        Inl err \<Rightarrow> []
      | Inr (domainName, domainPid, domainVcpuPids, domainUUID, desc, info) \<Rightarrow>
          (case Domain_GetVcpus (Stats_Domain stat) of
             Inl err \<Rightarrow> []
           | Inr domainStatsVcpu \<Rightarrow>
               estimator_calls
                 (vcpu_stats_loop h domainName domainPid domainVcpuPids 0 (Stats_Vcpu stat))))"
  by (auto simp: CollectDomain_trace collect_vcpus_def split: sum.splits prod.splits)


section \<open>The delay of a VCPU\<close>

lemma domain_setup_Inr:
  assumes "domain_setup h stat s = Inr (domainName, domainPid, domainVcpuPids, domainUUID, desc, info)"
  shows "Domain_GetName (Stats_Domain stat) = Inr domainName"
    and "domainPid = GetDomainPid h s domainName"
    and "domainVcpuPids = fst (GetDomainVcpuPids (Stats_Domain stat))"
  using assms
  by (auto simp: domain_setup_def Let_def split: sum.splits prod.splits if_splits)

lemma domain_setup_name:
  assumes "Domain_GetName (Stats_Domain stat) = Inr domainName"
  shows "(\<exists>err. domain_setup h stat s = Inl err) \<or>
         (\<exists>domainUUID desc info.
            domain_setup h stat s =
              Inr (domainName, GetDomainPid h s domainName,
                   fst (GetDomainVcpuPids (Stats_Domain stat)), domainUUID, desc, info))"
  using assms
  by (auto simp: domain_setup_def Let_def split: sum.splits prod.splits if_splits)

lemma CollectDomain_delay_reached:
  assumes "domain_setup h stat s = Inr (domainName, domainPid, domainVcpuPids, domainUUID, desc, info)"
      and "Domain_GetVcpus (Stats_Domain stat) = Inr domainStatsVcpu"
      and "cpuNum < length (Stats_Vcpu stat)"
  shows "delay_metrics_for domainName cpuNum (fst (CollectDomain h stat s)) =
         delay_metrics_for domainName cpuNum
           (vcpu_stats_step h domainName domainPid domainVcpuPids cpuNum (Stats_Vcpu stat ! cpuNum))"
  using assms by (simp add: CollectDomain_delay delay_loop)

lemma CollectDomain_calls_reached:
  assumes "domain_setup h stat s = Inr (domainName, domainPid, domainVcpuPids, domainUUID, desc, info)"
      and "Domain_GetVcpus (Stats_Domain stat) = Inr domainStatsVcpu"
  shows "x \<in> set (estimator_calls (fst (CollectDomain h stat s))) \<longleftrightarrow>
         (\<exists>k < length (Stats_Vcpu stat). \<not> Vcpu_DelaySet (Stats_Vcpu stat ! k) \<and>
            k < length domainVcpuPids \<and>
            x = (k, filepath_Join [procFSPath h, strconv_Itoa domainPid, ''task''],
                 domainVcpuPids ! k))"
  using assms by (simp add: CollectDomain_calls calls_loop)

lemma vcpu_stats_step_in_loop:
  "k < length vcpus \<Longrightarrow>
   set (vcpu_stats_step h domainName pid pids (c + k) (vcpus ! k)) \<subseteq>
   set (vcpu_stats_loop h domainName pid pids c vcpus)"
proof (induction vcpus arbitrary: c k)
  case Nil
  then show ?case by simp
next
  case (Cons v vs)
  show ?case
  proof (cases k)
    case 0
    then show ?thesis by auto
  next
    case (Suc j)
    with Cons.prems have "j < length vs" by simp
    from Cons.IH [OF this, of "Suc c"] Suc show ?thesis by auto
  qed
qed

lemma vcpu_stats_step_in_CollectDomain:
  assumes "domain_setup h stat s = Inr (domainName, domainPid, domainVcpuPids, domainUUID, desc, info)"
      and "Domain_GetVcpus (Stats_Domain stat) = Inr domainStatsVcpu"
      and "cpuNum < length (Stats_Vcpu stat)"
  shows "set (vcpu_stats_step h domainName domainPid domainVcpuPids cpuNum (Stats_Vcpu stat ! cpuNum))
         \<subseteq> set (fst (CollectDomain h stat s))"
proof -
  have "set (vcpu_stats_loop h domainName domainPid domainVcpuPids 0 (Stats_Vcpu stat))
        \<subseteq> set (fst (CollectDomain h stat s))"
    using assms(1,2) by (auto simp: CollectDomain_trace collect_vcpus_def)
  with vcpu_stats_step_in_loop [OF assms(3), of h domainName domainPid domainVcpuPids 0]
  show ?thesis by auto
qed

lemma vcpu_stats_step_logs:
  assumes "\<not> Vcpu_DelaySet vcpu" and "cpuNum < length pids"
      and "GetProcPIDSchedStat h (filepath_Join [procFSPath h, strconv_Itoa pid, ''task''])
             (pids ! cpuNum) = Inl err"
  shows "LogError [(''err'', Str ''unable to collect vcpu delay metric''), (''msg'', Err err)]
         \<in> set (vcpu_stats_step h domainName pid pids cpuNum vcpu)"
  using assms by (simp add: vcpu_stats_step_def Let_def)

text \<open>
  Claim C1: for every VCPU entry of a domain's batch statistics whose \<^verbatim>\<open>DelaySet\<close> flag
  is true, \<^verbatim>\<open>CollectDomain\<close> emits exactly one delay metric for that VCPU, of value the
  reported delay divided by 1e9, and never invokes \<^verbatim>\<open>GetProcPIDSchedStat\<close> for that
  VCPU. As stated this fails: the loop over the VCPU entries stands in the \<^verbatim>\<open>else\<close>
  branch of the \<^verbatim>\<open>GetVcpus\<close> call, so when that call fails with an invalid-operation
  error the function goes on, returns \<^verbatim>\<open>nil\<close>, and has sent no delay metric.
\<close>

theorem C1_counterexample:
  "Vcpu_DelaySet (Stats_Vcpu stats_gated_reported ! 0) \<and>
   delay_metrics_for ''vm-1'' 0 (fst (CollectDomain host_1 stats_gated_reported state_1)) = [] \<and>
   fst (snd (CollectDomain host_1 stats_gated_reported state_1)) = Ok"
  by code_simp

text \<open>
  Claim C1, amended: when the calls before the first metric succeed and \<^verbatim>\<open>GetVcpus\<close>
  succeeds, then for every VCPU entry whose \<^verbatim>\<open>DelaySet\<close> flag is true the trace of
  \<^verbatim>\<open>CollectDomain\<close> holds exactly one delay metric for that VCPU, a counter of value
  \<^verbatim>\<open>float64(vcpu.Delay)/1e9\<close>, and no call of \<^verbatim>\<open>GetProcPIDSchedStat\<close> for that VCPU.
\<close>

theorem C1_reported_delay:
  assumes "domain_setup h stat s = Inr (domainName, domainPid, domainVcpuPids, domainUUID, desc, info)"
      and "Domain_GetVcpus (Stats_Domain stat) = Inr domainStatsVcpu"
      and "cpuNum < length (Stats_Vcpu stat)"
      and "Vcpu_DelaySet (Stats_Vcpu stat ! cpuNum)"
  shows "delay_metrics_for domainName cpuNum (fst (CollectDomain h stat s)) =
           [MustNewConstMetric libvirtDomainVcpuDelayDesc CounterValue
              (f64_div (float64_of_uint64 (Vcpu_Delay (Stats_Vcpu stat ! cpuNum))) 1000000000)
              [domainName, strconv_FormatInt10 (int cpuNum)]] \<and>
         (\<forall>(i, procPath, pid) \<in> set (estimator_calls (fst (CollectDomain h stat s))).
            i \<noteq> cpuNum)"
proof
  show "delay_metrics_for domainName cpuNum (fst (CollectDomain h stat s)) =
           [MustNewConstMetric libvirtDomainVcpuDelayDesc CounterValue
              (f64_div (float64_of_uint64 (Vcpu_Delay (Stats_Vcpu stat ! cpuNum))) 1000000000)
              [domainName, strconv_FormatInt10 (int cpuNum)]]"
    using assms
    by (simp add: CollectDomain_delay_reached [OF assms(1,2,3)] delay_step delay_metric_def)
  show "\<forall>(i, procPath, pid) \<in> set (estimator_calls (fst (CollectDomain h stat s))). i \<noteq> cpuNum"
    using assms(4) by (auto simp: CollectDomain_calls_reached [OF assms(1,2)])
qed

theorem C1_reported_delay_witness:
  "domain_setup host_1 stats_reported state_1 =
     Inr (''vm-1'', 100, [150], ''6e2f6d5c-0000-4000-8000-000000000001'', desc_1,
          \<lparr>Info_State = 1, Info_MaxMem = 2097152, Info_Memory = 2097152,
           Info_NrVirtCpu = 1, Info_CpuTime = 3000000000\<rparr>) \<and>
   Vcpu_DelaySet (Stats_Vcpu stats_reported ! 0) \<and>
   Vcpu_Delay (Stats_Vcpu stats_reported ! 0) = 7000000000 \<and>
   delay_metrics_for ''vm-1'' 0 (fst (CollectDomain host_1 stats_reported state_1)) =
     [MustNewConstMetric libvirtDomainVcpuDelayDesc CounterValue 7 [''vm-1'', ''0'']] \<and>
   estimator_calls (fst (CollectDomain host_1 stats_reported state_1)) = []"
proof -
  have a: "domain_setup host_1 stats_reported state_1 =
     Inr (''vm-1'', 100, [150], ''6e2f6d5c-0000-4000-8000-000000000001'', desc_1,
          \<lparr>Info_State = 1, Info_MaxMem = 2097152, Info_Memory = 2097152,
           Info_NrVirtCpu = 1, Info_CpuTime = 3000000000\<rparr>)"
    by code_simp
  have b: "Domain_GetVcpus (Stats_Domain stats_reported) =
     Inr [\<lparr>VcpuInfo_Number = 0, VcpuInfo_State = 1, VcpuInfo_CpuTime = 2000000000,
           VcpuInfo_Cpu = 3\<rparr>]"
    by code_simp
  have c: "0 < length (Stats_Vcpu stats_reported)" by code_simp
  have d: "Vcpu_DelaySet (Stats_Vcpu stats_reported ! 0)" by code_simp
  have e: "Vcpu_Delay (Stats_Vcpu stats_reported ! 0) = 7000000000" by code_simp
  have f: "f64_div (float64_of_uint64 7000000000) 1000000000 = 7" by code_simp
  have g: "strconv_FormatInt10 (int 0) = ''0''" by code_simp
  have h: "estimator_calls (fst (CollectDomain host_1 stats_reported state_1)) = []" by code_simp
  from C1_reported_delay [OF a b c d]
  have "delay_metrics_for ''vm-1'' 0 (fst (CollectDomain host_1 stats_reported state_1)) =
     [MustNewConstMetric libvirtDomainVcpuDelayDesc CounterValue 7 [''vm-1'', ''0'']]"
    unfolding e f g by simp
  with a d e h show ?thesis by simp
qed

text \<open>
  Claim C2: for every VCPU entry whose \<^verbatim>\<open>DelaySet\<close> flag is false, \<^verbatim>\<open>CollectDomain\<close>
  emits one delay metric, the run-queue wait of the matched thread divided by 1e9, if the
  VCPU index is below the length of the list of thread ids, and none if it is not. The
  first half fails as stated, in two ways. When \<^verbatim>\<open>GetVcpus\<close> fails with an
  invalid-operation error the loop is not run: no delay metric, although thread 150 is
  resolved and its scheduler statistics read 5,000,000,000 ns. And when the scheduler
  statistics of the resolved thread (here 151) cannot be read, the error is logged and the
  VCPU gets no delay metric.
\<close>

theorem C2_counterexample:
  "\<not> Vcpu_DelaySet (Stats_Vcpu stats_gated_estimated ! 0) \<and>
   fst (GetDomainVcpuPids (Stats_Domain stats_gated_estimated)) = [150] \<and>
   GetProcPIDSchedStat host_1 ''/proc/100/task'' 150 =
     Inr \<lparr>PID = 150, Cputime = 1000, Runqueue = 5000000000, Timeslices = 7\<rparr> \<and>
   delay_metrics_for ''vm-1'' 0 (fst (CollectDomain host_1 stats_gated_estimated state_1)) = [] \<and>
   fst (snd (CollectDomain host_1 stats_gated_estimated state_1)) = Ok \<and>
   \<not> Vcpu_DelaySet (Stats_Vcpu stats_unreadable ! 0) \<and>
   fst (GetDomainVcpuPids (Stats_Domain stats_unreadable)) = [151] \<and>
   delay_metrics_for ''vm-1'' 0 (fst (CollectDomain host_1 stats_unreadable state_1)) = [] \<and>
   fst (snd (CollectDomain host_1 stats_unreadable state_1)) = Ok"
  by code_simp

text \<open>
  Claim C2, amended: for every VCPU entry whose \<^verbatim>\<open>DelaySet\<close> flag is false: when the
  calls before the first metric succeed, \<^verbatim>\<open>GetVcpus\<close> succeeds and the VCPU index is
  below the length of the list of thread ids, \<^verbatim>\<open>CollectDomain\<close> emits exactly one delay
  metric for the VCPU, of value \<^verbatim>\<open>float64(Runqueue)/1e9\<close>, if
  \<^verbatim>\<open>GetProcPIDSchedStat\<close> returns the statistics of the thread under the task root of
  the domain's process; if it returns an error, \<^verbatim>\<open>CollectDomain\<close> logs the error and
  emits no delay metric for the VCPU; and whenever the VCPU index is not below the length
  of the list of thread ids, it emits no delay metric for the VCPU.
\<close>

theorem C2_estimated_delay:
  assumes "cpuNum < length (Stats_Vcpu stat)"
      and "\<not> Vcpu_DelaySet (Stats_Vcpu stat ! cpuNum)"
  shows "(domain_setup h stat s = Inr (domainName, domainPid, domainVcpuPids, domainUUID, desc, info) \<and>
          Domain_GetVcpus (Stats_Domain stat) = Inr domainStatsVcpu \<and>
          cpuNum < length domainVcpuPids \<longrightarrow>
            (case GetProcPIDSchedStat h
                    (filepath_Join [procFSPath h, strconv_Itoa domainPid, ''task''])
                    (domainVcpuPids ! cpuNum) of
               Inr procFSSchedStat \<Rightarrow>
                 delay_metrics_for domainName cpuNum (fst (CollectDomain h stat s)) =
                   [MustNewConstMetric libvirtDomainVcpuDelayDesc CounterValue
                      (f64_div (float64_of_uint64 (Runqueue procFSSchedStat)) 1000000000)
                      [domainName, strconv_FormatInt10 (int cpuNum)]]
             | Inl err \<Rightarrow>
                 delay_metrics_for domainName cpuNum (fst (CollectDomain h stat s)) = [] \<and>
                 LogError [(''err'', Str ''unable to collect vcpu delay metric''), (''msg'', Err err)]
                   \<in> set (fst (CollectDomain h stat s)))) \<and>
         (Domain_GetName (Stats_Domain stat) = Inr domainName \<and>
          length (fst (GetDomainVcpuPids (Stats_Domain stat))) \<le> cpuNum \<longrightarrow>
            delay_metrics_for domainName cpuNum (fst (CollectDomain h stat s)) = [])"
proof (intro conjI impI)
  assume r: "domain_setup h stat s = Inr (domainName, domainPid, domainVcpuPids, domainUUID, desc, info) \<and>
          Domain_GetVcpus (Stats_Domain stat) = Inr domainStatsVcpu \<and>
          cpuNum < length domainVcpuPids"
  let ?read = "GetProcPIDSchedStat h
                 (filepath_Join [procFSPath h, strconv_Itoa domainPid, ''task''])
                 (domainVcpuPids ! cpuNum)"
  from r have st: "domain_setup h stat s =
      Inr (domainName, domainPid, domainVcpuPids, domainUUID, desc, info)"
    and vcpus: "Domain_GetVcpus (Stats_Domain stat) = Inr domainStatsVcpu"
    and below: "cpuNum < length domainVcpuPids"
    by simp_all
  have d: "delay_metrics_for domainName cpuNum (fst (CollectDomain h stat s)) =
         delay_metrics_for domainName cpuNum
           (vcpu_stats_step h domainName domainPid domainVcpuPids cpuNum (Stats_Vcpu stat ! cpuNum))"
    by (rule CollectDomain_delay_reached [OF st vcpus assms(1)])
  show "case ?read of
               Inr procFSSchedStat \<Rightarrow>
                 delay_metrics_for domainName cpuNum (fst (CollectDomain h stat s)) =
                   [MustNewConstMetric libvirtDomainVcpuDelayDesc CounterValue
                      (f64_div (float64_of_uint64 (Runqueue procFSSchedStat)) 1000000000)
                      [domainName, strconv_FormatInt10 (int cpuNum)]]
             | Inl err \<Rightarrow>
                 delay_metrics_for domainName cpuNum (fst (CollectDomain h stat s)) = [] \<and>
                 LogError [(''err'', Str ''unable to collect vcpu delay metric''), (''msg'', Err err)]
                   \<in> set (fst (CollectDomain h stat s))"
  proof (cases ?read)
    case (Inr st)
    with d below assms(2) show ?thesis by (simp add: delay_step delay_metric_def)
  next
    case (Inl err)
    from vcpu_stats_step_logs [OF assms(2) below Inl]
      vcpu_stats_step_in_CollectDomain [OF st vcpus assms(1)]
    have "LogError [(''err'', Str ''unable to collect vcpu delay metric''), (''msg'', Err err)]
            \<in> set (fst (CollectDomain h stat s))"
      by blast
    with Inl d below assms(2) show ?thesis by (simp add: delay_step)
  qed
next
  assume n: "Domain_GetName (Stats_Domain stat) = Inr domainName \<and>
          length (fst (GetDomainVcpuPids (Stats_Domain stat))) \<le> cpuNum"
  from domain_setup_name [of stat domainName h s] n
  consider err where "domain_setup h stat s = Inl err"
    | domainUUID desc info where
      "domain_setup h stat s =
         Inr (domainName, GetDomainPid h s domainName,
              fst (GetDomainVcpuPids (Stats_Domain stat)), domainUUID, desc, info)"
    by blast
  then show "delay_metrics_for domainName cpuNum (fst (CollectDomain h stat s)) = []"
  proof cases
    case 1
    then show ?thesis by (simp add: CollectDomain_delay)
  next
    case 2
    with n assms show ?thesis
      by (simp add: CollectDomain_delay delay_loop delay_step split: sum.splits)
  qed
qed

theorem C2_estimated_delay_witness:
  "\<not> Vcpu_DelaySet (Stats_Vcpu stats_1 ! 0) \<and>
   domain_setup host_1 stats_1 state_1 =
     Inr (''vm-1'', 100, [150], ''6e2f6d5c-0000-4000-8000-000000000001'', desc_1,
          \<lparr>Info_State = 1, Info_MaxMem = 2097152, Info_Memory = 2097152,
           Info_NrVirtCpu = 1, Info_CpuTime = 3000000000\<rparr>) \<and>
   GetProcPIDSchedStat host_1 (filepath_Join [procFSPath host_1, strconv_Itoa 100, ''task'']) 150 =
     Inr \<lparr>PID = 150, Cputime = 1000, Runqueue = 5000000000, Timeslices = 7\<rparr> \<and>
   delay_metrics_for ''vm-1'' 0 (fst (CollectDomain host_1 stats_1 state_1)) =
     [MustNewConstMetric libvirtDomainVcpuDelayDesc CounterValue 5 [''vm-1'', ''0'']] \<and>
   \<not> Vcpu_DelaySet (Stats_Vcpu stats_unreadable ! 0) \<and>
   domain_setup host_1 stats_unreadable state_1 =
     Inr (''vm-1'', 100, [151], ''6e2f6d5c-0000-4000-8000-000000000001'', desc_1,
          \<lparr>Info_State = 1, Info_MaxMem = 2097152, Info_Memory = 2097152,
           Info_NrVirtCpu = 1, Info_CpuTime = 3000000000\<rparr>) \<and>
   GetProcPIDSchedStat host_1 (filepath_Join [procFSPath host_1, strconv_Itoa 100, ''task'']) 151 =
     Inl (OtherError ''unexpected EOF'') \<and>
   delay_metrics_for ''vm-1'' 0 (fst (CollectDomain host_1 stats_unreadable state_1)) = [] \<and>
   LogError [(''err'', Str ''unable to collect vcpu delay metric''),
             (''msg'', Err (OtherError ''unexpected EOF''))]
     \<in> set (fst (CollectDomain host_1 stats_unreadable state_1))"
proof -
  let ?info = "\<lparr>Info_State = 1, Info_MaxMem = 2097152, Info_Memory = 2097152,
           Info_NrVirtCpu = 1, Info_CpuTime = 3000000000\<rparr>"
  let ?vs = "[\<lparr>VcpuInfo_Number = 0, VcpuInfo_State = 1, VcpuInfo_CpuTime = 2000000000,
           VcpuInfo_Cpu = 3\<rparr>]"
  let ?root = "filepath_Join [procFSPath host_1, strconv_Itoa 100, ''task'']"
  have a: "domain_setup host_1 stats_1 state_1 =
     Inr (''vm-1'', 100, [150], ''6e2f6d5c-0000-4000-8000-000000000001'', desc_1, ?info)"
    by code_simp
  have b: "Domain_GetVcpus (Stats_Domain stats_1) = Inr ?vs"
    by code_simp
  have c: "0 < length (Stats_Vcpu stats_1)" by code_simp
  have d: "\<not> Vcpu_DelaySet (Stats_Vcpu stats_1 ! 0)" by code_simp
  have e: "GetProcPIDSchedStat host_1 ?root ([150] ! 0) =
     Inr \<lparr>PID = 150, Cputime = 1000, Runqueue = 5000000000, Timeslices = 7\<rparr>"
    by code_simp
  have f: "f64_div (float64_of_uint64 5000000000) 1000000000 = 5" by code_simp
  have g: "strconv_FormatInt10 0 = ''0''" by code_simp
  from C2_estimated_delay [OF c d, of host_1 state_1 "''vm-1''" 100 "[150]"
      "''6e2f6d5c-0000-4000-8000-000000000001''" desc_1 ?info ?vs] a b
  have "case GetProcPIDSchedStat host_1 ?root ([150] ! 0) of
          Inr procFSSchedStat \<Rightarrow>
            delay_metrics_for ''vm-1'' 0 (fst (CollectDomain host_1 stats_1 state_1)) =
              [MustNewConstMetric libvirtDomainVcpuDelayDesc CounterValue
                 (f64_div (float64_of_uint64 (Runqueue procFSSchedStat)) 1000000000)
                 [''vm-1'', strconv_FormatInt10 (int 0)]]
        | Inl err \<Rightarrow>
            delay_metrics_for ''vm-1'' 0 (fst (CollectDomain host_1 stats_1 state_1)) = [] \<and>
            LogError [(''err'', Str ''unable to collect vcpu delay metric''), (''msg'', Err err)]
              \<in> set (fst (CollectDomain host_1 stats_1 state_1))"
    by simp
  then have first: "delay_metrics_for ''vm-1'' 0 (fst (CollectDomain host_1 stats_1 state_1)) =
     [MustNewConstMetric libvirtDomainVcpuDelayDesc CounterValue 5 [''vm-1'', ''0'']]"
    unfolding e by (simp add: f g)
  have a': "domain_setup host_1 stats_unreadable state_1 =
     Inr (''vm-1'', 100, [151], ''6e2f6d5c-0000-4000-8000-000000000001'', desc_1, ?info)"
    by code_simp
  have b': "Domain_GetVcpus (Stats_Domain stats_unreadable) = Inr ?vs"
    by code_simp
  have c': "0 < length (Stats_Vcpu stats_unreadable)" by code_simp
  have d': "\<not> Vcpu_DelaySet (Stats_Vcpu stats_unreadable ! 0)" by code_simp
  have e': "GetProcPIDSchedStat host_1 ?root ([151] ! 0) = Inl (OtherError ''unexpected EOF'')"
    by code_simp
  from C2_estimated_delay [OF c' d', of host_1 state_1 "''vm-1''" 100 "[151]"
      "''6e2f6d5c-0000-4000-8000-000000000001''" desc_1 ?info ?vs] a' b'
  have "case GetProcPIDSchedStat host_1 ?root ([151] ! 0) of
          Inr procFSSchedStat \<Rightarrow>
            delay_metrics_for ''vm-1'' 0 (fst (CollectDomain host_1 stats_unreadable state_1)) =
              [MustNewConstMetric libvirtDomainVcpuDelayDesc CounterValue
                 (f64_div (float64_of_uint64 (Runqueue procFSSchedStat)) 1000000000)
                 [''vm-1'', strconv_FormatInt10 (int 0)]]
        | Inl err \<Rightarrow>
            delay_metrics_for ''vm-1'' 0 (fst (CollectDomain host_1 stats_unreadable state_1)) = [] \<and>
            LogError [(''err'', Str ''unable to collect vcpu delay metric''), (''msg'', Err err)]
              \<in> set (fst (CollectDomain host_1 stats_unreadable state_1))"
    by simp
  then have second:
    "delay_metrics_for ''vm-1'' 0 (fst (CollectDomain host_1 stats_unreadable state_1)) = [] \<and>
     LogError [(''err'', Str ''unable to collect vcpu delay metric''),
               (''msg'', Err (OtherError ''unexpected EOF''))]
       \<in> set (fst (CollectDomain host_1 stats_unreadable state_1))"
    unfolding e' by simp
  from a d e first a' d' e' second show ?thesis by simp
qed


section \<open>A domain without a process\<close>

lemma lookup_pid_none:
  "\<forall>process \<in> set ps. \<not> strings_Contains (GetCmdLine h (procFSPath h) process) domainName \<Longrightarrow>
   lookup_pid h domainName ps = 0"
  by (induction ps) (simp_all add: Let_def)

lemma Itoa_0: "strconv_Itoa 0 = ''0''"
  by code_simp

text \<open>
  Claim C10: for a domain name that no command line of the scraped process list contains,
  \<^verbatim>\<open>GetDomainPid\<close> returns 0, which is no distinct value for "none". The estimator
  then does not skip: it calls \<^verbatim>\<open>GetProcPIDSchedStat\<close> with the task root of process 0,
  \<open><procfs>/0/task\<close>, for every VCPU without a reported delay whose index is below the
  length of the list of thread ids; and such a VCPU gets a delay metric only if the
  scheduler statistics of its thread under that task root are read and parsed.
\<close>

theorem C10_pid_zero_task_root:
  assumes "Domain_GetName (Stats_Domain stat) = Inr domainName"
      and "\<forall>process \<in> set (processes s).
             \<not> strings_Contains (GetCmdLine h (procFSPath h) process) domainName"
  shows "GetDomainPid h s domainName = 0 \<and>
         (\<forall>(i, procPath, pid) \<in> set (estimator_calls (fst (CollectDomain h stat s))).
            procPath = filepath_Join [procFSPath h, ''0'', ''task'']) \<and>
         (\<forall>domainPid domainVcpuPids domainUUID desc info domainStatsVcpu.
            domain_setup h stat s =
              Inr (domainName, domainPid, domainVcpuPids, domainUUID, desc, info) \<and>
            Domain_GetVcpus (Stats_Domain stat) = Inr domainStatsVcpu \<longrightarrow>
            (\<forall>cpuNum < length (Stats_Vcpu stat).
               \<not> Vcpu_DelaySet (Stats_Vcpu stat ! cpuNum) \<and> cpuNum < length domainVcpuPids \<longrightarrow>
               (cpuNum, filepath_Join [procFSPath h, ''0'', ''task''], domainVcpuPids ! cpuNum)
                 \<in> set (estimator_calls (fst (CollectDomain h stat s))))) \<and>
         (\<forall>cpuNum < length (Stats_Vcpu stat).
            \<not> Vcpu_DelaySet (Stats_Vcpu stat ! cpuNum) \<and>
            delay_metrics_for domainName cpuNum (fst (CollectDomain h stat s)) \<noteq> [] \<longrightarrow>
            cpuNum < length (fst (GetDomainVcpuPids (Stats_Domain stat))) \<and>
            (\<exists>procFSSchedStat.
               GetProcPIDSchedStat h (filepath_Join [procFSPath h, ''0'', ''task''])
                 (fst (GetDomainVcpuPids (Stats_Domain stat)) ! cpuNum) = Inr procFSSchedStat))"
proof -
  have pid: "GetDomainPid h s domainName = 0"
    using assms(2) by (simp add: GetDomainPid_def lookup_pid_none)
  let ?pids = "fst (GetDomainVcpuPids (Stats_Domain stat))"
  let ?root = "filepath_Join [procFSPath h, ''0'', ''task'']"
  from domain_setup_name [OF assms(1), of h s]
  consider (failed) err where "domain_setup h stat s = Inl err"
    | (reached) domainUUID desc info where
      "domain_setup h stat s = Inr (domainName, 0, ?pids, domainUUID, desc, info)"
    unfolding pid by blast
  then show ?thesis
  proof cases
    case failed
    with pid show ?thesis by (simp add: CollectDomain_calls CollectDomain_delay)
  next
    case reached
    show ?thesis
    proof (cases "Domain_GetVcpus (Stats_Domain stat)")
      case (Inl e)
      with reached pid show ?thesis by (simp add: CollectDomain_calls CollectDomain_delay)
    next
      case (Inr vs)
      note calls = CollectDomain_calls_reached [OF reached Inr]
      have a: "\<forall>(i, procPath, pid) \<in> set (estimator_calls (fst (CollectDomain h stat s))).
                 procPath = ?root"
        by (auto simp: calls Itoa_0)
      have b: "\<forall>cpuNum < length (Stats_Vcpu stat).
               \<not> Vcpu_DelaySet (Stats_Vcpu stat ! cpuNum) \<and> cpuNum < length ?pids \<longrightarrow>
               (cpuNum, ?root, ?pids ! cpuNum) \<in> set (estimator_calls (fst (CollectDomain h stat s)))"
        by (auto simp: calls Itoa_0)
      have c: "\<forall>cpuNum < length (Stats_Vcpu stat).
            \<not> Vcpu_DelaySet (Stats_Vcpu stat ! cpuNum) \<and>
            delay_metrics_for domainName cpuNum (fst (CollectDomain h stat s)) \<noteq> [] \<longrightarrow>
            cpuNum < length ?pids \<and>
            (\<exists>procFSSchedStat.
               GetProcPIDSchedStat h ?root (?pids ! cpuNum) = Inr procFSSchedStat)"
        by (auto simp: CollectDomain_delay_reached [OF reached Inr] delay_step Itoa_0
                 split: if_splits sum.splits)
      from pid a b c reached show ?thesis by simp
    qed
  qed
qed

theorem C10_pid_zero_task_root_witness:
  "Domain_GetName (Stats_Domain stats_vm2) = Inr ''vm-2'' \<and>
   processes state_1 = [100] \<and>
   \<not> strings_Contains (GetCmdLine host_1 (procFSPath host_1) 100) ''vm-2'' \<and>
   GetDomainPid host_1 state_1 ''vm-2'' = 0 \<and>
   estimator_calls (fst (CollectDomain host_1 stats_vm2 state_1)) = [(0, ''/proc/0/task'', 150)] \<and>
   delay_metrics_for ''vm-2'' 0 (fst (CollectDomain host_1 stats_vm2 state_1)) = []"
proof -
  have a: "Domain_GetName (Stats_Domain stats_vm2) = Inr ''vm-2''" by code_simp
  have b: "\<forall>process \<in> set (processes state_1).
             \<not> strings_Contains (GetCmdLine host_1 (procFSPath host_1) process) ''vm-2''"
    by code_simp
  have c: "processes state_1 = [100]" by code_simp
  have d: "estimator_calls (fst (CollectDomain host_1 stats_vm2 state_1)) =
             [(0, ''/proc/0/task'', 150)]" by code_simp
  have e: "delay_metrics_for ''vm-2'' 0 (fst (CollectDomain host_1 stats_vm2 state_1)) = []"
    by code_simp
  from C10_pid_zero_task_root [OF a b]
  have "GetDomainPid host_1 state_1 ''vm-2'' = 0" by simp
  with a b c d e show ?thesis by simp
qed


section \<open>The devices hdc and hda\<close>

text \<open>
  Claim C9: for every domain and every block device of its batch statistics named exactly
  \<open>hdc\<close> or \<open>hda\<close>, \<^verbatim>\<open>CollectDomain\<close> emits no block-device metric, neither metadata
  nor counter nor I/O-tuning limit, for that device. Every block descriptor carries the
  device as its second label, \<open>target_device\<close>; no metric that \<^verbatim>\<open>CollectDomain\<close> sends
  with a block descriptor has \<open>hdc\<close> or \<open>hda\<close> there, whatever the host, the statistics and
  the state, and however the collection ends.
\<close>

theorem C9_cdrom_devices_skipped:
  "(\<forall>d \<in> set block_descs. variableLabels d ! 1 = ''target_device'') \<and>
   (\<forall>m \<in> set (sent (fst (CollectDomain h stat s))).
      Metric_desc m \<in> set block_descs \<longrightarrow>
      Metric_labelValues m ! 1 \<noteq> ''hdc'' \<and> Metric_labelValues m ! 1 \<noteq> ''hda'')"
proof (intro conjI ballI impI)
  fix d assume "d \<in> set block_descs"
  moreover have "\<forall>d \<in> set block_descs. variableLabels d ! 1 = ''target_device''"
    by code_simp
  ultimately show "variableLabels d ! 1 = ''target_device''" by blast
next
  fix m
  assume m: "m \<in> set (sent (fst (CollectDomain h stat s)))"
    and b: "Metric_desc m \<in> set block_descs"
  from b descs_disjoint have
    "Metric_desc m \<notin> set domain_info_descs" "Metric_desc m \<notin> set vcpu_descs"
    "Metric_desc m \<notin> set interface_descs" "Metric_desc m \<notin> set memory_descs"
    by blast+
  with CollectDomain_desc [OF m]
  have "\<exists>disk \<in> set (Stats_Block stat). Metric_labelValues m ! 1 = Block_Name disk \<and>
               Block_Name disk \<noteq> ''hdc'' \<and> Block_Name disk \<noteq> ''hda''"
    by simp
  then show "Metric_labelValues m ! 1 \<noteq> ''hdc''" "Metric_labelValues m ! 1 \<noteq> ''hda''"
    by auto
qed

theorem C9_cdrom_devices_skipped_witness:
  "map (\<lambda>d. Block_Name d) (Stats_Block stats_cdrom) = [''hdc'', ''vda'', ''hda''] \<and>
   block_meta ''vm-1'' (block_named ''vda'') ''pool/vm-1-disk'' vda_xml
     \<in> set (sent (fst (CollectDomain host_1 stats_cdrom state_1))) \<and>
   Metric_desc (block_meta ''vm-1'' (block_named ''vda'') ''pool/vm-1-disk'' vda_xml)
     \<in> set block_descs \<and>
   Metric_labelValues (block_meta ''vm-1'' (block_named ''vda'') ''pool/vm-1-disk'' vda_xml) ! 1
     \<noteq> ''hdc'' \<and>
   Metric_labelValues (block_meta ''vm-1'' (block_named ''vda'') ''pool/vm-1-disk'' vda_xml) ! 1
     \<noteq> ''hda'' \<and>
   map (\<lambda>m. Metric_labelValues m ! 1)
     (filter (\<lambda>m. Metric_desc m \<in> set block_descs)
        (sent (fst (CollectDomain host_1 stats_cdrom state_1)))) = [''vda'', ''vda'', ''vda'']"
proof -
  let ?m = "block_meta ''vm-1'' (block_named ''vda'') ''pool/vm-1-disk'' vda_xml"
  have a: "?m \<in> set (sent (fst (CollectDomain host_1 stats_cdrom state_1)))"
    by code_simp
  have b: "Metric_desc ?m \<in> set block_descs"
    by code_simp
  from C9_cdrom_devices_skipped [of host_1 stats_cdrom state_1] a b
  have "Metric_labelValues ?m ! 1 \<noteq> ''hdc'' \<and> Metric_labelValues ?m ! 1 \<noteq> ''hda''"
    by auto
  moreover have "map (\<lambda>d. Block_Name d) (Stats_Block stats_cdrom) = [''hdc'', ''vda'', ''hda'']"
    by code_simp
  moreover have "map (\<lambda>m. Metric_labelValues m ! 1)
     (filter (\<lambda>m. Metric_desc m \<in> set block_descs)
        (sent (fst (CollectDomain host_1 stats_cdrom state_1)))) = [''vda'', ''vda'', ''vda'']"
    by code_simp
  ultimately show ?thesis using a b by simp
qed


section \<open>Block devices without a description\<close>

text \<open>
  Claim C3: a block device of the batch statistics, not named \<open>hdc\<close> or \<open>hda\<close>, whose
  name matches no disk of the decoded description still gets its metadata record, with
  empty attributes, and its present counters, and the collection of the domain goes on.
  The program does not do this. The pointer \<^verbatim>\<open>Device\<close> stays nil when no disk matches
  and \<^verbatim>\<open>Device.Serial\<close> dereferences it: for the device \<open>vdb\<close>, which reports its read
  bytes and its capacity, \<^verbatim>\<open>CollectDomain\<close> panics, sends no block metric and no memory
  statistics, and the scrape ends in the panic without the \<open>up\<close> gauge.
\<close>

theorem C3_unmatched_device_panics:
  "lookup_disk ''vdb'' (Devices_Disks desc_1) = None \<and>
   fst (snd (CollectDomain host_1 stats_unmatched state_1)) =
     Panicked ''invalid memory address or nil pointer dereference'' \<and>
   filter (\<lambda>m. Metric_desc m \<in> set block_descs \<or> Metric_desc m \<in> set memory_descs)
     (sent (fst (CollectDomain host_1 stats_unmatched state_1))) = [] \<and>
   fst (snd (Collect (host_with (conn_1\<lparr>Connect_GetAllDomainStats := Inr [stats_unmatched]\<rparr>))
               ''qemu:///system'' state_0)) =
     Panicked ''invalid memory address or nil pointer dereference'' \<and>
   filter (\<lambda>m. Metric_desc m = libvirtUpDesc)
     (sent (fst (Collect (host_with (conn_1\<lparr>Connect_GetAllDomainStats := Inr [stats_unmatched]\<rparr>))
                   ''qemu:///system'' state_0))) = []"
  by code_simp

section \<open>Errors of the I/O-tuning query\<close>

text \<open>
  Claim C4: when \<^verbatim>\<open>GetBlockIoTune\<close> fails, an unsupported-operation error is tolerated
  and logged once per process, an invalid-operation error is tolerated and logged at every
  occurrence, and any other error is returned by \<^verbatim>\<open>CollectDomain\<close>. The program tests
  \<^verbatim>\<open>if !ok\<close> where the two earlier type assertions of the function test
  \<^verbatim>\<open>!ok || lverr.Code != ...\<close>: the \<^verbatim>\<open>switch\<close> on the code runs only for an error that
  is not a \<^verbatim>\<open>libvirt.Error\<close>. So an invalid-operation error is not logged, an
  unsupported-operation error is not logged and not recorded in \<^verbatim>\<open>errorsMap\<close>, and a
  libvirt error of another code (here 1, an internal error) is swallowed:
  \<^verbatim>\<open>CollectDomain\<close> returns \<^verbatim>\<open>nil\<close>.
\<close>

theorem C4_libvirt_errors_swallowed:
  "filter (\<lambda>e. case e of LogError kv \<Rightarrow> True | _ \<Rightarrow> False)
     (fst (CollectDomain host_1 (stats_tune_error (lv_error ERR_OPERATION_INVALID)) state_1)) = [] \<and>
   fst (snd (CollectDomain host_1 (stats_tune_error (lv_error ERR_OPERATION_INVALID)) state_1)) = Ok \<and>
   filter (\<lambda>e. case e of LogError kv \<Rightarrow> True | _ \<Rightarrow> False)
     (fst (CollectDomain host_1 (stats_tune_error (lv_error ERR_OPERATION_UNSUPPORTED)) state_1)) = [] \<and>
   errorsMap (snd (snd (CollectDomain host_1 (stats_tune_error (lv_error ERR_OPERATION_UNSUPPORTED))
                          state_1))) = {} \<and>
   fst (snd (CollectDomain host_1 (stats_tune_error (lv_error 1)) state_1)) = Ok \<and>
   fst (snd (CollectDomain host_1 (stats_tune_error (OtherError ''EOF'')) state_1)) =
     Failed (OtherError ''EOF'')"
  by code_simp

section \<open>Release of the handles\<close>

text \<open>
  Claim C6: every domain handle and every pool handle acquired during a scrape is released
  before \<^verbatim>\<open>CollectFromLibvirt\<close> returns, on every exit path. The domains are freed by a
  deferred function; a pool is freed in the loop, after its collection, and the loop
  returns on the first error. With two active pools of which the first cannot be
  refreshed, \<^verbatim>\<open>CollectFromLibvirt\<close> returns the error, has freed the domain and the
  first pool, and has not freed the second pool.
\<close>

theorem C6_pool_handle_leaked:
  "fst (snd (CollectFromLibvirt (host_with conn_two_pools) ''qemu:///system'' state_0)) =
     Failed (lv_error 1) \<and>
   filter (\<lambda>e. case e of Free x \<Rightarrow> True | _ \<Rightarrow> False)
     (fst (CollectFromLibvirt (host_with conn_two_pools) ''qemu:///system'' state_0)) =
     [Free (PoolHandle 1), Free (DomainHandle 1)] \<and>
   Free (PoolHandle 2) \<notin>
     set (fst (CollectFromLibvirt (host_with conn_two_pools) ''qemu:///system'' state_0))"
  by code_simp


section \<open>The memory statistics of a domain\<close>

lemma CollectDomain_Ok:
  assumes "fst (snd (CollectDomain h stat s)) = Ok"
  shows "\<exists>domainName domainPid domainVcpuPids domainUUID desc info.
           domain_setup h stat s =
             Inr (domainName, domainPid, domainVcpuPids, domainUUID, desc, info) \<and>
           snd (collect_vcpus h stat domainName domainPid domainVcpuPids) = Ok \<and>
           fst (snd (collect_devices h stat domainName desc s)) = Ok"
proof (cases "domain_setup h stat s")
  case (Inl e)
  with assms show ?thesis by (simp add: CollectDomain_def)
next
  case (Inr t)
  then obtain domainName domainPid domainVcpuPids domainUUID desc info where
    t: "domain_setup h stat s = Inr (domainName, domainPid, domainVcpuPids, domainUUID, desc, info)"
    by (cases t) auto
  obtain evs1 r1 where v: "collect_vcpus h stat domainName domainPid domainVcpuPids = (evs1, r1)"
    by (cases "collect_vcpus h stat domainName domainPid domainVcpuPids") auto
  obtain evs2 r2 s2 where d: "collect_devices h stat domainName desc s = (evs2, r2, s2)"
    by (cases "collect_devices h stat domainName desc s") auto
  from assms t v d have "r1 = Ok \<and> r2 = Ok"
    by (cases r1) (auto simp: CollectDomain_def Let_def)
  with t v d show ?thesis by simp
qed

lemma collect_devices_Ok:
  assumes "fst (snd (collect_devices h stat domainName desc s)) = Ok"
  shows "fst (collect_devices h stat domainName desc s) =
           fst (collect_blocks (Stats_Domain stat) desc domainName (Stats_Block stat) s) @
           map Send (concat (map (interface_metrics desc domainName) (Stats_Net stat))) @
           map Send (memory_stats_metrics (Stats_Domain stat) domainName)"
proof -
  obtain evs r s' where
    b: "collect_blocks (Stats_Domain stat) desc domainName (Stats_Block stat) s = (evs, r, s')"
    by (cases "collect_blocks (Stats_Domain stat) desc domainName (Stats_Block stat) s") auto
  with assms show ?thesis by (cases r) (auto simp: collect_devices_def)
qed

lemma filter_memory_none:
  "(\<And>m. m \<in> set ms \<Longrightarrow> Metric_desc m \<notin> set memory_descs) \<Longrightarrow>
   filter (\<lambda>m. Metric_desc m \<in> set memory_descs) ms = []"
  by (auto simp: filter_empty_conv)

lemma memory_stats_metrics_shape:
  "map Metric_desc (memory_stats_metrics domain domainName) = memory_descs"
  "map Metric_labelValues (memory_stats_metrics domain domainName) = replicate 9 [domainName]"
  by (simp_all add: memory_stats_metrics_def memory_descs_def MustNewConstMetric_def Let_def
        numeral_eq_Suc split: sum.splits prod.splits)

lemma fl64_0 [simp]: "fl64 0 = 0"
  by (simp add: fl64_def)

lemma memory_stats_metrics_failed:
  "Domain_MemoryStats domain = Inl err \<Longrightarrow>
   map Metric_value (memory_stats_metrics domain domainName) = replicate 9 0"
  by (simp add: memory_stats_metrics_def zero_VirDomainMemoryStats_def MustNewConstMetric_def
        float64_of_uint64_def f64_mul_def numeral_eq_Suc)

text \<open>
  Claim C8: for every domain, all nine memory-statistics metrics are emitted on every
  scrape, with value zero if the memory-statistics call fails. As stated this fails: a
  domain of the batch whose collection returns an error before the memory statistics
  (here its UUID cannot be read) gets none of the nine, and the scrape ends there.
\<close>

theorem C8_counterexample:
  "filter (\<lambda>m. Metric_desc m \<in> set memory_descs)
     (sent (fst (CollectDomain host_1 stats_no_uuid state_1))) = [] \<and>
   fst (snd (CollectDomain host_1 stats_no_uuid state_1)) = Failed (lv_error 1) \<and>
   filter (\<lambda>m. Metric_desc m \<in> set memory_descs)
     (sent (fst (Collect (host_with (conn_1\<lparr>Connect_GetAllDomainStats := Inr [stats_no_uuid]\<rparr>))
                   ''qemu:///system'' state_0))) = []"
  by code_simp

text \<open>
  Claim C8, amended: for every domain whose collection completes (\<^verbatim>\<open>CollectDomain\<close>
  returns \<^verbatim>\<open>nil\<close>), the nine memory-statistics metrics (major and minor faults,
  unused, available, actual balloon, RSS, usable, disk-cache bytes, used percent) are each
  emitted exactly once, in this order, labelled with the domain; if the memory-statistics
  call fails, all nine have the value zero.
\<close>

theorem C8_memory_stats_emitted:
  assumes "fst (snd (CollectDomain h stat s)) = Ok"
      and "Domain_GetName (Stats_Domain stat) = Inr domainName"
  shows "map Metric_desc
           (filter (\<lambda>m. Metric_desc m \<in> set memory_descs) (sent (fst (CollectDomain h stat s)))) =
           memory_descs \<and>
         map Metric_labelValues
           (filter (\<lambda>m. Metric_desc m \<in> set memory_descs) (sent (fst (CollectDomain h stat s)))) =
           replicate 9 [domainName] \<and>
         ((\<exists>err. Domain_MemoryStats (Stats_Domain stat) = Inl err) \<longrightarrow>
          map Metric_value
            (filter (\<lambda>m. Metric_desc m \<in> set memory_descs) (sent (fst (CollectDomain h stat s)))) =
            replicate 9 0)"
proof -
  from CollectDomain_Ok [OF assms(1)] obtain dn domainPid domainVcpuPids domainUUID desc info where
    t: "domain_setup h stat s = Inr (dn, domainPid, domainVcpuPids, domainUUID, desc, info)"
    and v: "snd (collect_vcpus h stat dn domainPid domainVcpuPids) = Ok"
    and d: "fst (snd (collect_devices h stat dn desc s)) = Ok"
    by blast
  from domain_setup_Inr(1) [OF t] assms(2) have dn: "dn = domainName" by simp
  let ?mem = "filter (\<lambda>m. Metric_desc m \<in> set memory_descs)"
  have info: "?mem (domain_info_metrics dn domainUUID desc info) = []"
    using descs_disjoint by (intro filter_memory_none) (auto dest: domain_info_metrics_desc)
  have vcpu: "?mem (sent (fst (collect_vcpus h stat dn domainPid domainVcpuPids))) = []"
    using descs_disjoint by (intro filter_memory_none) (auto dest: collect_vcpus_desc)
  have block: "?mem (sent (fst (collect_blocks (Stats_Domain stat) desc dn (Stats_Block stat) s))) = []"
    using descs_disjoint by (intro filter_memory_none) (auto dest: collect_blocks_desc)
  have iface: "?mem (concat (map (interface_metrics desc dn) (Stats_Net stat))) = []"
    using descs_disjoint by (intro filter_memory_none) (auto dest: interface_metrics_desc)
  have mem: "?mem (memory_stats_metrics (Stats_Domain stat) dn) =
             memory_stats_metrics (Stats_Domain stat) dn"
    by (rule filter_True) (auto dest: memory_stats_metrics_desc)
  have "?mem (sent (fst (CollectDomain h stat s))) = memory_stats_metrics (Stats_Domain stat) dn"
    by (simp add: CollectDomain_trace t v collect_devices_Ok [OF d] info vcpu block iface mem)
  with dn show ?thesis
    by (auto simp: memory_stats_metrics_shape memory_stats_metrics_failed)
qed

theorem C8_memory_stats_emitted_witness:
  "fst (snd (CollectDomain host_1 stats_no_memory state_1)) = Ok \<and>
   Domain_GetName (Stats_Domain stats_no_memory) = Inr ''vm-1'' \<and>
   Domain_MemoryStats (Stats_Domain stats_no_memory) = Inl (lv_error 1) \<and>
   map Metric_desc
     (filter (\<lambda>m. Metric_desc m \<in> set memory_descs)
        (sent (fst (CollectDomain host_1 stats_no_memory state_1)))) = memory_descs \<and>
   map Metric_value
     (filter (\<lambda>m. Metric_desc m \<in> set memory_descs)
        (sent (fst (CollectDomain host_1 stats_no_memory state_1)))) = [0, 0, 0, 0, 0, 0, 0, 0, 0] \<and>
   map Metric_value
     (filter (\<lambda>m. Metric_desc m \<in> set memory_descs)
        (sent (fst (CollectDomain host_1 stats_1 state_1)))) =
     [0, 0, 0, 2048000000, 0, 0, 512000000, 0, 75]"
proof -
  have a: "fst (snd (CollectDomain host_1 stats_no_memory state_1)) = Ok" by code_simp
  have b: "Domain_GetName (Stats_Domain stats_no_memory) = Inr ''vm-1''" by code_simp
  have c: "Domain_MemoryStats (Stats_Domain stats_no_memory) = Inl (lv_error 1)" by code_simp
  have d: "map Metric_value
     (filter (\<lambda>m. Metric_desc m \<in> set memory_descs)
        (sent (fst (CollectDomain host_1 stats_1 state_1)))) =
     [0, 0, 0, 2048000000, 0, 0, 512000000, 0, 75]" by code_simp
  from C8_memory_stats_emitted [OF a b] c
  have "map Metric_desc
     (filter (\<lambda>m. Metric_desc m \<in> set memory_descs)
        (sent (fst (CollectDomain host_1 stats_no_memory state_1)))) = memory_descs \<and>
   map Metric_value
     (filter (\<lambda>m. Metric_desc m \<in> set memory_descs)
        (sent (fst (CollectDomain host_1 stats_no_memory state_1)))) = replicate 9 0"
    by blast
  with a b c d show ?thesis by (simp add: numeral_eq_Suc)
qed


section \<open>The up gauge\<close>

lemma sent_map_Free [simp]: "sent (map (\<lambda>x. Free (f x)) xs) = []"
  by (induction xs) simp_all

lemma collect_domains_desc:
  "m \<in> set (sent (fst (collect_domains h stats s))) \<Longrightarrow> Metric_desc m \<in> set domain_descs"
proof (induction stats arbitrary: s)
  case Nil
  then show ?case by simp
next
  case (Cons stat stats)
  obtain evs r s' where d: "CollectDomain h stat s = (evs, r, s')"
    by (cases "CollectDomain h stat s") auto
  obtain evs' r' s'' where c: "collect_domains h stats s' = (evs', r', s'')"
    by (cases "collect_domains h stats s'") auto
  from Cons.prems d c have "m \<in> set (sent evs) \<or> m \<in> set (sent evs')"
    by (cases r) auto
  then show ?case
  proof
    assume "m \<in> set (sent evs)"
    with d have "m \<in> set (sent (fst (CollectDomain h stat s)))" by simp
    from CollectDomain_desc [OF this] show ?thesis by (auto simp: domain_descs_def)
  next
    assume "m \<in> set (sent evs')"
    with c have "m \<in> set (sent (fst (collect_domains h stats s')))" by simp
    from Cons.IH [OF this] show ?thesis .
  qed
qed

lemma CollectStoragePool_desc:
  "m \<in> set (sent (fst (CollectStoragePool pool))) \<Longrightarrow> Metric_desc m \<in> set pool_descs"
  by (auto simp: CollectStoragePool_def pool_descs_def MustNewConstMetric_def
           split: option.splits sum.splits)

lemma collect_pools_desc:
  "m \<in> set (sent (fst (collect_pools pools))) \<Longrightarrow> Metric_desc m \<in> set pool_descs"
proof (induction pools)
  case Nil
  then show ?case by simp
next
  case (Cons pool pools)
  obtain evs r where p: "CollectStoragePool pool = (evs, r)"
    by (cases "CollectStoragePool pool") auto
  obtain evs' r' where c: "collect_pools pools = (evs', r')"
    by (cases "collect_pools pools") auto
  from Cons.prems p c have "m \<in> set (sent evs) \<or> m \<in> set (sent evs')"
    by (cases r) (auto simp: Let_def)
  then show ?case
  proof
    assume "m \<in> set (sent evs)"
    with p have "m \<in> set (sent (fst (CollectStoragePool pool)))" by simp
    then show ?thesis by (rule CollectStoragePool_desc)
  next
    assume "m \<in> set (sent evs')"
    with c Cons.IH show ?thesis by simp
  qed
qed

lemma collect_stats_desc:
  assumes "m \<in> set (sent (fst (collect_stats h conn s)))"
  shows "Metric_desc m \<in> set domain_descs \<or> Metric_desc m \<in> set pool_descs"
proof (cases "Connect_GetAllDomainStats conn")
  case (Inl e)
  with assms show ?thesis by (simp add: collect_stats_def)
next
  case (Inr stats)
  obtain evs r s' where d: "collect_domains h stats s = (evs, r, s')"
    by (cases "collect_domains h stats s") auto
  show ?thesis
  proof (cases "Connect_ListAllStoragePools conn")
    case (Inl e)
    from assms Inr d Inl have "m \<in> set (sent evs)"
      by (cases r) (auto simp: collect_stats_def)
    with d have "m \<in> set (sent (fst (collect_domains h stats s)))" by simp
    then show ?thesis by (simp add: collect_domains_desc)
  next
    case pools: (Inr pools)
    obtain evs' r' where c: "collect_pools pools = (evs', r')"
      by (cases "collect_pools pools") auto
    from assms Inr d pools c have "m \<in> set (sent evs) \<or> m \<in> set (sent evs')"
      by (cases r) (auto simp: collect_stats_def)
    then show ?thesis
    proof
      assume "m \<in> set (sent evs)"
      with d have "m \<in> set (sent (fst (collect_domains h stats s)))" by simp
      then show ?thesis by (simp add: collect_domains_desc)
    next
      assume "m \<in> set (sent evs')"
      with c have "m \<in> set (sent (fst (collect_pools pools)))" by simp
      then show ?thesis by (simp add: collect_pools_desc)
    qed
  qed
qed

lemma CollectFromLibvirt_no_up:
  assumes "m \<in> set (sent (fst (CollectFromLibvirt h uri s)))"
  shows "Metric_desc m \<noteq> libvirtUpDesc"
proof -
  have "Metric_desc m = libvirtVersionsInfoDesc \<or> Metric_desc m \<in> set domain_descs \<or>
        Metric_desc m \<in> set pool_descs"
  proof (cases "libvirt_NewConnect h uri")
    case (Inl e)
    with assms show ?thesis by (simp add: CollectFromLibvirt_def)
  next
    case (Inr conn)
    show ?thesis
    proof (cases "GetProcessList h (procFSPath h)")
      case None
      with assms Inr show ?thesis
        by (auto simp: CollectFromLibvirt_def split: sum.splits)
    next
      case (Some ps)
      obtain evs r s' where c: "collect_stats h conn (s\<lparr>processes := ps\<rparr>) = (evs, r, s')"
        by (cases "collect_stats h conn (s\<lparr>processes := ps\<rparr>)") auto
      from assms Inr Some c
      have "Metric_desc m = libvirtVersionsInfoDesc \<or> m \<in> set (sent evs)"
        by (auto simp: CollectFromLibvirt_def MustNewConstMetric_def split: sum.splits)
      moreover from c have "m \<in> set (sent evs) \<Longrightarrow>
          m \<in> set (sent (fst (collect_stats h conn (s\<lparr>processes := ps\<rparr>))))" by simp
      ultimately show ?thesis using collect_stats_desc by blast
    qed
  qed
  with up_versions_pool_not_domain show ?thesis by auto
qed

text \<open>
  Claim C5: when the batched all-domain statistics call fails, the scrape emits the \<open>up\<close>
  gauge with value 0 and no domain, VCPU, block, interface, memory or pool metric; when the
  whole scrape succeeds, it emits the \<open>up\<close> gauge with value 1. The statistics call is made
  once the connection is open, the three versions are read and the process list is
  refreshed; if it then fails, the scrape sends the versions metric, sent before the call,
  closes the connection, logs the error and sends the gauge with value 0, and nothing
  else. If \<^verbatim>\<open>CollectFromLibvirt\<close> returns
  \<^verbatim>\<open>nil\<close>, the scrape sends the gauge once, last, with value 1.
\<close>

theorem C5_up_gauge:
  "(libvirt_NewConnect h uri = Inr conn \<and>
    Connect_GetVersion conn = Inr hypervisorVersionNum \<and>
    Connect_GetLibVersion conn = Inr libvirtdVersionNum \<and>
    libvirt_GetVersion h = Inr libraryVersionNum \<and>
    os_ReadDir h (procFSPath h) = Inr files \<and>
    Connect_GetAllDomainStats conn = Inl err \<longrightarrow>
      sent (fst (Collect h uri s)) =
        [MustNewConstMetric libvirtVersionsInfoDesc GaugeValue 1
           [version_string hypervisorVersionNum, version_string libvirtdVersionNum,
            version_string libraryVersionNum],
         MustNewConstMetric libvirtUpDesc GaugeValue 0 []] \<and>
      fst (Collect h uri s) =
        [Send (MustNewConstMetric libvirtVersionsInfoDesc GaugeValue 1
                 [version_string hypervisorVersionNum, version_string libvirtdVersionNum,
                  version_string libraryVersionNum]),
         Close,
         LogError [(''err'', Str ''failed to scrape metrics''), (''uri'', Str uri),
                   (''msg'', Err err)],
         Send (MustNewConstMetric libvirtUpDesc GaugeValue 0 [])]) \<and>
   (fst (snd (CollectFromLibvirt h uri s)) = Ok \<longrightarrow>
      filter (\<lambda>m. Metric_desc m = libvirtUpDesc) (sent (fst (Collect h uri s))) =
        [MustNewConstMetric libvirtUpDesc GaugeValue 1 []] \<and>
      last (sent (fst (Collect h uri s))) = MustNewConstMetric libvirtUpDesc GaugeValue 1 [])"
proof (intro conjI impI)
  assume "libvirt_NewConnect h uri = Inr conn \<and>
    Connect_GetVersion conn = Inr hypervisorVersionNum \<and>
    Connect_GetLibVersion conn = Inr libvirtdVersionNum \<and>
    libvirt_GetVersion h = Inr libraryVersionNum \<and>
    os_ReadDir h (procFSPath h) = Inr files \<and>
    Connect_GetAllDomainStats conn = Inl err"
  then have t: "fst (Collect h uri s) =
        [Send (MustNewConstMetric libvirtVersionsInfoDesc GaugeValue 1
                 [version_string hypervisorVersionNum, version_string libvirtdVersionNum,
                  version_string libraryVersionNum]),
         Close,
         LogError [(''err'', Str ''failed to scrape metrics''), (''uri'', Str uri),
                   (''msg'', Err err)],
         Send (MustNewConstMetric libvirtUpDesc GaugeValue 0 [])]"
    by (simp add: Collect_def CollectFromLibvirt_def GetProcessList_def collect_stats_def)
  show "sent (fst (Collect h uri s)) =
        [MustNewConstMetric libvirtVersionsInfoDesc GaugeValue 1
           [version_string hypervisorVersionNum, version_string libvirtdVersionNum,
            version_string libraryVersionNum],
         MustNewConstMetric libvirtUpDesc GaugeValue 0 []]"
    by (simp add: t)
  show "fst (Collect h uri s) =
        [Send (MustNewConstMetric libvirtVersionsInfoDesc GaugeValue 1
                 [version_string hypervisorVersionNum, version_string libvirtdVersionNum,
                  version_string libraryVersionNum]),
         Close,
         LogError [(''err'', Str ''failed to scrape metrics''), (''uri'', Str uri),
                   (''msg'', Err err)],
         Send (MustNewConstMetric libvirtUpDesc GaugeValue 0 [])]"
    by (rule t)
next
  assume ok: "fst (snd (CollectFromLibvirt h uri s)) = Ok"
  obtain evs r s' where c: "CollectFromLibvirt h uri s = (evs, r, s')"
    by (cases "CollectFromLibvirt h uri s") auto
  with ok have r: "r = Ok" by simp
  have "\<And>m. m \<in> set (sent evs) \<Longrightarrow> Metric_desc m \<noteq> libvirtUpDesc"
    using CollectFromLibvirt_no_up [of _ h uri s] c by simp
  then have "filter (\<lambda>m. Metric_desc m = libvirtUpDesc) (sent evs) = []"
    by (auto simp: filter_empty_conv)
  with c r show "filter (\<lambda>m. Metric_desc m = libvirtUpDesc) (sent (fst (Collect h uri s))) =
        [MustNewConstMetric libvirtUpDesc GaugeValue 1 []]"
    by (simp add: Collect_def MustNewConstMetric_def)
  from c r show "last (sent (fst (Collect h uri s))) = MustNewConstMetric libvirtUpDesc GaugeValue 1 []"
    by (simp add: Collect_def)
qed

theorem C5_up_gauge_witness:
  "libvirt_NewConnect (host_with conn_no_stats) ''qemu:///system'' = Inr conn_no_stats \<and>
   Connect_GetAllDomainStats conn_no_stats = Inl (lv_error 1) \<and>
   sent (fst (Collect (host_with conn_no_stats) ''qemu:///system'' state_0)) =
     [MustNewConstMetric libvirtVersionsInfoDesc GaugeValue 1 [''8.2.0'', ''7.2.0'', ''7.2.0''],
      MustNewConstMetric libvirtUpDesc GaugeValue 0 []] \<and>
   fst (snd (CollectFromLibvirt host_1 ''qemu:///system'' state_0)) = Ok \<and>
   filter (\<lambda>m. Metric_desc m = libvirtUpDesc)
     (sent (fst (Collect host_1 ''qemu:///system'' state_0))) =
     [MustNewConstMetric libvirtUpDesc GaugeValue 1 []] \<and>
   length (sent (fst (Collect host_1 ''qemu:///system'' state_0))) = 27"
proof -
  let ?h = "host_with conn_no_stats"
  have a: "libvirt_NewConnect ?h ''qemu:///system'' = Inr conn_no_stats"
    by (simp add: host_with_def)
  have b: "Connect_GetVersion conn_no_stats = Inr 8002000" by code_simp
  have c: "Connect_GetLibVersion conn_no_stats = Inr 7002000" by code_simp
  have d: "libvirt_GetVersion ?h = Inr 7002000" by code_simp
  have e: "os_ReadDir ?h (procFSPath ?h) =
             Inr [(''100'', True), (''self'', True), (''uptime'', False)]" by code_simp
  have f: "Connect_GetAllDomainStats conn_no_stats = Inl (lv_error 1)"
    by (simp add: conn_no_stats_def)
  have v: "version_string 8002000 = ''8.2.0''" "version_string 7002000 = ''7.2.0''"
    by code_simp+
  have g: "fst (snd (CollectFromLibvirt host_1 ''qemu:///system'' state_0)) = Ok" by code_simp
  have n: "length (sent (fst (Collect host_1 ''qemu:///system'' state_0))) = 27" by code_simp
  from C5_up_gauge [of ?h "''qemu:///system''" conn_no_stats 8002000 7002000 7002000
      "[(''100'', True), (''self'', True), (''uptime'', False)]" "lv_error 1" state_0]
    a b c d e f
  have first: "sent (fst (Collect ?h ''qemu:///system'' state_0)) =
     [MustNewConstMetric libvirtVersionsInfoDesc GaugeValue 1 [''8.2.0'', ''7.2.0'', ''7.2.0''],
      MustNewConstMetric libvirtUpDesc GaugeValue 0 []]"
    by (simp add: v)
  from C5_up_gauge [of host_1 "''qemu:///system''" conn_no_stats 8002000 7002000 7002000
      "[]" "lv_error 1" state_0] g
  have second: "filter (\<lambda>m. Metric_desc m = libvirtUpDesc)
     (sent (fst (Collect host_1 ''qemu:///system'' state_0))) =
     [MustNewConstMetric libvirtUpDesc GaugeValue 1 []]"
    by simp
  from a f first g second n show ?thesis by simp
qed


section \<open>Rounding to binary64\<close>

lemma ilog2_bounds:
  assumes "0 < x"
  shows "2 powi ilog2 x \<le> x" and "x < 2 powi (ilog2 x + 1)"
proof -
  obtain p q where pq: "quotient_of x = (p, q)" by (cases "quotient_of x") auto
  then have q: "0 < q" by (rule quotient_of_denom_pos)
  from pq have x: "x = of_int p / of_int q" by (rule quotient_of_div)
  with assms q have p: "0 < p" by (simp add: zero_less_divide_iff)
  let ?k = "bitlen p - bitlen q"
  from bitlen_bounds [OF p] have p1: "2 ^ nat (bitlen p - 1) \<le> p" and p2: "p < 2 ^ nat (bitlen p)"
    by simp_all
  from bitlen_bounds [OF q] have q1: "2 ^ nat (bitlen q - 1) \<le> q" and q2: "q < 2 ^ nat (bitlen q)"
    by simp_all
  have bp: "1 \<le> bitlen p" using p bitlen_eq_zero_iff [of p] bitlen_nonneg [of p] by linarith
  have bq: "1 \<le> bitlen q" using q bitlen_eq_zero_iff [of q] bitlen_nonneg [of q] by linarith
  have P1: "(2::rat) powi (bitlen p - 1) \<le> of_int p"
  proof -
    have "(of_int (2 ^ nat (bitlen p - 1)) :: rat) \<le> of_int p" using p1 by (simp only: of_int_le_iff)
    with bp show ?thesis by (simp add: power_int_nonneg_exp)
  qed
  have P2: "(of_int p :: rat) < 2 powi bitlen p"
  proof -
    have "(of_int p :: rat) < of_int (2 ^ nat (bitlen p))" using p2 by (simp only: of_int_less_iff)
    with bp show ?thesis by (simp add: power_int_nonneg_exp)
  qed
  have Q1: "(2::rat) powi (bitlen q - 1) \<le> of_int q"
  proof -
    have "(of_int (2 ^ nat (bitlen q - 1)) :: rat) \<le> of_int q" using q1 by (simp only: of_int_le_iff)
    with bq show ?thesis by (simp add: power_int_nonneg_exp)
  qed
  have Q2: "(of_int q :: rat) < 2 powi bitlen q"
  proof -
    have "(of_int q :: rat) < of_int (2 ^ nat (bitlen q))" using q2 by (simp only: of_int_less_iff)
    with bq show ?thesis by (simp add: power_int_nonneg_exp)
  qed
  have qpos: "(0::rat) < of_int q" using q by simp
  have ppos: "(0::rat) < of_int p" using p by simp
  have pw: "\<And>n. (0::rat) < 2 powi n" by simp
  have lower: "(2::rat) powi (?k - 1) \<le> x"
  proof -
    have "(2::rat) powi (?k - 1) = 2 powi (bitlen p - 1) / 2 powi bitlen q"
      by (simp add: power_int_diff [symmetric] algebra_simps)
    also have "\<dots> \<le> of_int p / 2 powi bitlen q"
      using P1 pw by (simp add: divide_right_mono)
    also have "\<dots> \<le> of_int p / of_int q"
      by (intro divide_left_mono mult_pos_pos) (use Q2 ppos qpos pw in simp_all)
    finally show ?thesis by (simp add: x)
  qed
  have upper: "x < (2::rat) powi (?k + 1)"
  proof -
    have "x = of_int p / of_int q" by (rule x)
    also have "\<dots> < 2 powi bitlen p / of_int q"
      using P2 qpos by (simp add: divide_strict_right_mono)
    also have "\<dots> \<le> 2 powi bitlen p / 2 powi (bitlen q - 1)"
      by (intro divide_left_mono mult_pos_pos) (use Q1 qpos pw in simp_all)
    also have "\<dots> = 2 powi (?k + 1)"
      by (simp add: power_int_diff [symmetric] algebra_simps)
    finally show ?thesis .
  qed
  show "2 powi ilog2 x \<le> x"
    using lower by (auto simp: ilog2_def pq Let_def)
  show "x < 2 powi (ilog2 x + 1)"
    using upper by (auto simp: ilog2_def pq Let_def not_le)
qed

lemma ilog2_less:
  assumes "0 < x" and "x < 2 powi n"
  shows "ilog2 x < n"
proof (rule ccontr)
  assume "\<not> ilog2 x < n"
  then have "n \<le> ilog2 x" by simp
  then have "(2::rat) powi n \<le> 2 powi ilog2 x" by (intro power_int_increasing) simp_all
  with ilog2_bounds(1) [OF assms(1)] assms(2) show False by simp
qed

lemma round_even_le:
  assumes "t \<le> of_int n"
  shows "round_even t \<le> n"
proof -
  have f: "\<lfloor>t\<rfloor> \<le> n" using assms by (simp add: floor_le_iff)
  show ?thesis
  proof (cases "\<lfloor>t\<rfloor> = n")
    case True
    with assms have "t = of_int \<lfloor>t\<rfloor>"
      using of_int_floor_le [of t] by simp
    then have "t - of_int \<lfloor>t\<rfloor> = 0" by simp
    with True show ?thesis by (simp add: round_even_def Let_def)
  next
    case False
    with f have "\<lfloor>t\<rfloor> + 1 \<le> n" by simp
    then show ?thesis by (auto simp: round_even_def Let_def)
  qed
qed

lemma round_even_ge:
  assumes "of_int n \<le> t"
  shows "n \<le> round_even t"
proof -
  have "n \<le> \<lfloor>t\<rfloor>" using assms by (simp add: le_floor_iff)
  then show ?thesis by (auto simp: round_even_def Let_def)
qed

lemma round_even_of_int [simp]: "round_even (of_int n) = n"
  by (simp add: round_even_def)

lemma round_even_lower: "t - 1 / 2 \<le> of_int (round_even t)"
proof -
  have "t < of_int \<lfloor>t\<rfloor> + 1" by linarith
  have "of_int \<lfloor>t\<rfloor> \<le> t" by simp
  show ?thesis
    unfolding round_even_def Let_def
    by (auto simp: not_less) linarith+
qed

lemma fl64_unit_pos: "(0::rat) < 2 powi n"
  by simp

lemma fl64_pos_eq:
  "0 < x \<Longrightarrow>
   fl64 x = of_int (round_even (x / 2 powi (ilog2 x - 52))) * 2 powi (ilog2 x - 52)"
  by (simp add: fl64_def Let_def)

lemma fl64_nonneg:
  assumes "0 \<le> x"
  shows "0 \<le> fl64 x"
proof (cases "x = 0")
  case True
  then show ?thesis by (simp add: fl64_def)
next
  case False
  with assms have x: "0 < x" by simp
  let ?u = "(2::rat) powi (ilog2 x - 52)"
  have "of_int 0 \<le> x / ?u" using x fl64_unit_pos [of "ilog2 x - 52"] by simp
  then have "0 \<le> round_even (x / ?u)" by (rule round_even_ge)
  then show ?thesis
    using fl64_unit_pos [of "ilog2 x - 52"] by (simp add: fl64_pos_eq [OF x])
qed

lemma fl64_lower:
  assumes "0 < x"
  shows "x * (1 - 1 / 2 ^ 53) \<le> fl64 x"
proof -
  let ?e = "ilog2 x"
  let ?u = "(2::rat) powi (?e - 52)"
  have u: "0 < ?u" by (rule fl64_unit_pos)
  have "x / ?u - 1 / 2 \<le> of_int (round_even (x / ?u))" by (rule round_even_lower)
  then have "(x / ?u - 1 / 2) * ?u \<le> of_int (round_even (x / ?u)) * ?u"
    using u by (simp add: mult_right_mono)
  then have a: "x - ?u / 2 \<le> fl64 x"
    using u by (simp add: fl64_pos_eq [OF assms] algebra_simps)
  have "?u = 2 powi ?e / 2 ^ 52"
    by (simp add: power_int_diff)
  also have "\<dots> \<le> x / 2 ^ 52"
    using ilog2_bounds(1) [OF assms] by (simp add: divide_right_mono)
  finally have "?u / 2 \<le> x / 2 ^ 53" by simp
  with a show ?thesis by (simp add: algebra_simps)
qed

lemma fl64_pos:
  assumes "0 < x"
  shows "0 < fl64 x"
proof -
  have "0 < x * (1 - 1 / 2 ^ 53)" using assms by simp
  with fl64_lower [OF assms] show ?thesis by simp
qed

lemma powi_52_int:
  assumes "e \<le> 52"
  shows "1 / (2::rat) powi (e - 52) = of_int (2 ^ nat (52 - e))"
proof -
  have "1 / (2::rat) powi (e - 52) = 2 powi (52 - e)"
    by (simp add: power_int_minus_divide [symmetric])
  also have "\<dots> = 2 ^ nat (52 - e)"
    using assms by (simp add: power_int_nonneg_exp)
  finally show ?thesis by simp
qed

lemma fl64_le_int:
  assumes "0 < x" and "x \<le> of_int n" and "x < 2 ^ 53"
  shows "fl64 x \<le> of_int n"
proof -
  let ?e = "ilog2 x"
  let ?u = "(2::rat) powi (?e - 52)"
  have u: "0 < ?u" by (rule fl64_unit_pos)
  have "x < 2 powi 53" using assms(3) by simp
  with assms(1) have e: "?e \<le> 52" using ilog2_less [of x 53] by simp
  have "x / ?u \<le> of_int n / ?u" using assms(2) u by (simp add: divide_right_mono)
  also have "\<dots> = of_int n * (1 / ?u)" by simp
  also have "\<dots> = of_int (n * 2 ^ nat (52 - ?e))" by (simp only: powi_52_int [OF e] of_int_mult)
  finally have "round_even (x / ?u) \<le> n * 2 ^ nat (52 - ?e)" by (rule round_even_le)
  then have "(of_int (round_even (x / ?u)) :: rat) \<le> of_int (n * 2 ^ nat (52 - ?e))"
    by (simp only: of_int_le_iff)
  then have "of_int (round_even (x / ?u)) * ?u \<le> of_int (n * 2 ^ nat (52 - ?e)) * ?u"
    using u by (simp add: mult_right_mono)
  also have "of_int (n * 2 ^ nat (52 - ?e)) * ?u = of_int n * ((1 / ?u) * ?u)"
    by (simp only: powi_52_int [OF e] of_int_mult mult.assoc)
  also have "\<dots> = of_int n" using u by simp
  finally show ?thesis by (simp add: fl64_pos_eq [OF assms(1)])
qed

lemma fl64_int_exact:
  assumes "0 \<le> n" and "n < 2 ^ 53"
  shows "fl64 (of_int n) = of_int n"
proof (cases "n = 0")
  case True
  then show ?thesis by (simp add: fl64_def)
next
  case False
  with assms have n: "0 < n" by simp
  let ?x = "of_int n :: rat"
  let ?e = "ilog2 ?x"
  let ?u = "(2::rat) powi (?e - 52)"
  have x: "0 < ?x" using n by simp
  have u: "0 < ?u" by (rule fl64_unit_pos)
  have "?x < of_int (2 ^ 53)" using assms(2) by (simp only: of_int_less_iff)
  then have "?x < 2 powi 53" by simp
  with x have e: "?e \<le> 52" using ilog2_less [of ?x 53] by simp
  have "?x / ?u = ?x * (1 / ?u)" by simp
  also have "\<dots> = of_int (n * 2 ^ nat (52 - ?e))" by (simp only: powi_52_int [OF e] of_int_mult)
  finally have "?x / ?u = of_int (n * 2 ^ nat (52 - ?e))" .
  then have r: "round_even (?x / ?u) = n * 2 ^ nat (52 - ?e)"
    by (simp only: round_even_of_int)
  have "fl64 ?x = of_int (n * 2 ^ nat (52 - ?e)) * ?u"
    by (simp only: fl64_pos_eq [OF x] r)
  also have "\<dots> = ?x * ((1 / ?u) * ?u)"
    by (simp only: powi_52_int [OF e] of_int_mult mult.assoc)
  also have "\<dots> = ?x" using u by simp
  finally show ?thesis .
qed


section \<open>The used percentage of the memory\<close>

lemma used_percent_bounds_int:
  fixes a b :: int
  assumes "0 < b" and "b \<le> a" and "a < 2 ^ 53"
  shows "0 \<le> fl64 (fl64 (fl64 (of_int a) - fl64 (of_int b)) / fl64 (fl64 (of_int a) / 100))"
    and "fl64 (fl64 (fl64 (of_int a) - fl64 (of_int b)) / fl64 (fl64 (of_int a) / 100)) \<le> 100"
proof -
  let ?q = "fl64 (of_int a / 100)"
  let ?t = "of_int (a - b) / ?q"
  have fa: "fl64 (of_int a) = of_int a"
    using assms by (intro fl64_int_exact) simp_all
  have fb: "fl64 (of_int b) = of_int b"
    using assms by (intro fl64_int_exact) simp_all
  have "fl64 (of_int (a - b)) = of_int (a - b)"
    using assms by (intro fl64_int_exact) simp_all
  then have d: "fl64 (of_int a - of_int b) = of_int (a - b)" by simp
  have v: "fl64 (fl64 (fl64 (of_int a) - fl64 (of_int b)) / fl64 (fl64 (of_int a) / 100)) = fl64 ?t"
    by (simp only: fa fb d)
  have a: "(0::rat) < of_int a / 100" using assms by simp
  have q: "0 < ?q" using a by (rule fl64_pos)
  have t0: "0 \<le> ?t" using assms(2) q by simp
  have "(of_int a :: rat) < of_int (2 ^ 53)" using assms(3) by (simp only: of_int_less_iff)
  then have small: "(of_int a :: rat) / 2 ^ 53 < 1" by simp
  have "(of_int (a - b) :: rat) \<le> of_int (a - 1)"
    using assms(1) by simp
  also have "\<dots> = of_int a - 1" by simp
  also have "\<dots> \<le> of_int a - of_int a / 2 ^ 53" using small by simp
  also have "\<dots> = 100 * (of_int a / 100 * (1 - 1 / 2 ^ 53))" by (simp add: algebra_simps)
  also have "\<dots> \<le> 100 * ?q" using fl64_lower [OF a] by simp
  finally have "(of_int (a - b) :: rat) \<le> 100 * ?q" .
  then have t100: "?t \<le> 100" using q by (simp add: pos_divide_le_eq)
  show "0 \<le> fl64 (fl64 (fl64 (of_int a) - fl64 (of_int b)) / fl64 (fl64 (of_int a) / 100))"
    unfolding v using t0 by (rule fl64_nonneg)
  show "fl64 (fl64 (fl64 (of_int a) - fl64 (of_int b)) / fl64 (fl64 (of_int a) / 100)) \<le> 100"
  proof (cases "?t = 0")
    case True
    then show ?thesis unfolding v by (simp add: fl64_def)
  next
    case False
    with t0 have "0 < ?t" by (simp only: less_le) simp
    moreover from t100 have "?t \<le> of_int 100" by simp
    moreover from t100 have "?t < 2 ^ 53" by simp
    ultimately have "fl64 ?t \<le> of_int 100" by (rule fl64_le_int)
    then show ?thesis unfolding v by simp
  qed
qed

lemma used_percent_bounds:
  fixes A U :: uint64
  assumes "0 < uint U" and "uint U \<le> uint A" and "uint A < 2 ^ 53"
  shows "0 \<le> f64_div (f64_sub (float64_of_uint64 A) (float64_of_uint64 U))
                    (f64_div (float64_of_uint64 A) 100)"
    and "f64_div (f64_sub (float64_of_uint64 A) (float64_of_uint64 U))
                 (f64_div (float64_of_uint64 A) 100) \<le> 100"
  unfolding float64_of_uint64_def f64_div_def f64_sub_def
  by (rule used_percent_bounds_int [OF assms])+

text \<open>
  Claim C7: the used percentage is \<open>(available - usable) / (available / 100)\<close> when both
  are non-zero and 0 when either is zero; so whenever available is positive and usable is
  at most available, the emitted value lies in \<open>[0, 100]\<close>. The last part fails as stated.
  The program computes in \<^verbatim>\<open>float64\<close>: for an available memory of
  8,739,532,681,623,778,654 KiB, which is not a \<^verbatim>\<open>float64\<close>, and 234 KiB usable, the
  conversion rounds, the difference rounds back to the converted value, the hundredth
  rounds down, and the quotient rounds to the \<^verbatim>\<open>float64\<close> next above 100.
\<close>

theorem C7_counterexample:
  "0 < uint (Available memory_huge) \<and>
   uint (Usable memory_huge) \<le> uint (Available memory_huge) \<and>
   float64_of_uint64 (Available memory_huge) = 8739532681623778304 \<and>
   f64_sub (float64_of_uint64 (Available memory_huge)) (float64_of_uint64 (Usable memory_huge)) =
     8739532681623778304 \<and>
   usedPercent_of memory_huge = 100 + 1 / 2 ^ 46 \<and>
   100 < usedPercent_of memory_huge \<and>
   Metric_value (last (sent (fst (CollectDomain host_1 stats_huge_memory state_1)))) =
     100 + 1 / 2 ^ 46"
  by code_simp

text \<open>
  Claim C7, amended: the used percentage is the \<^verbatim>\<open>float64\<close> quotient of the
  \<^verbatim>\<open>float64\<close> difference of available and usable by the \<^verbatim>\<open>float64\<close> hundredth of
  available when both are non-zero, and 0 when usable or available is zero; it is the value
  of the used-percent metric when the memory-statistics call succeeds; and whenever
  available is positive and below \<open>2 ^ 53\<close> (so that it and usable are \<^verbatim>\<open>float64\<close>
  numbers) and usable is at most available, the value lies in \<open>[0, 100]\<close>.
\<close>

theorem C7_used_percent:
  "(Usable M \<noteq> 0 \<and> Available M \<noteq> 0 \<longrightarrow>
      usedPercent_of M =
        f64_div (f64_sub (float64_of_uint64 (Available M)) (float64_of_uint64 (Usable M)))
                (f64_div (float64_of_uint64 (Available M)) 100)) \<and>
   (Usable M = 0 \<or> Available M = 0 \<longrightarrow> usedPercent_of M = 0) \<and>
   (Domain_MemoryStats domain = Inr memorystat \<longrightarrow>
      last (memory_stats_metrics domain domainName) =
        MustNewConstMetric libvirtDomainMemoryStatUsedPercentDesc GaugeValue
          (usedPercent_of (memoryStatCollect memorystat)) [domainName]) \<and>
   (0 < uint (Available M) \<and> uint (Available M) < 2 ^ 53 \<and>
    uint (Usable M) \<le> uint (Available M) \<longrightarrow>
      0 \<le> usedPercent_of M \<and> usedPercent_of M \<le> 100)"
proof (intro conjI impI)
  assume "Usable M \<noteq> 0 \<and> Available M \<noteq> 0"
  then show "usedPercent_of M =
        f64_div (f64_sub (float64_of_uint64 (Available M)) (float64_of_uint64 (Usable M)))
                (f64_div (float64_of_uint64 (Available M)) 100)"
    by (simp add: usedPercent_of_def)
next
  assume "Usable M = 0 \<or> Available M = 0"
  then show "usedPercent_of M = 0" by (auto simp: usedPercent_of_def)
next
  assume "Domain_MemoryStats domain = Inr memorystat"
  then show "last (memory_stats_metrics domain domainName) =
        MustNewConstMetric libvirtDomainMemoryStatUsedPercentDesc GaugeValue
          (usedPercent_of (memoryStatCollect memorystat)) [domainName]"
    by (simp add: memory_stats_metrics_def Let_def)
next
  assume r: "0 < uint (Available M) \<and> uint (Available M) < 2 ^ 53 \<and>
    uint (Usable M) \<le> uint (Available M)"
  show "0 \<le> usedPercent_of M"
  proof (cases "Usable M = 0")
    case True
    then show ?thesis by (simp add: usedPercent_of_def)
  next
    case False
    then have "0 < uint (Usable M)"
      using uint_nonnegative [of "Usable M"] uint_0_iff [of "Usable M"] by linarith
    moreover from r have "Available M \<noteq> 0" by auto
    ultimately show ?thesis
      using r False used_percent_bounds(1) [of "Usable M" "Available M"]
      by (simp add: usedPercent_of_def)
  qed
  show "usedPercent_of M \<le> 100"
  proof (cases "Usable M = 0")
    case True
    then show ?thesis by (simp add: usedPercent_of_def)
  next
    case False
    then have "0 < uint (Usable M)"
      using uint_nonnegative [of "Usable M"] uint_0_iff [of "Usable M"] by linarith
    moreover from r have "Available M \<noteq> 0" by auto
    ultimately show ?thesis
      using r False used_percent_bounds(2) [of "Usable M" "Available M"]
      by (simp add: usedPercent_of_def)
  qed
qed

theorem C7_used_percent_witness:
  "Usable (memoryStatCollect [\<lparr>Tag = 5, Val = 2000000\<rparr>, \<lparr>Tag = 8, Val = 500000\<rparr>]) = 500000 \<and>
   Available (memoryStatCollect [\<lparr>Tag = 5, Val = 2000000\<rparr>, \<lparr>Tag = 8, Val = 500000\<rparr>]) = 2000000 \<and>
   usedPercent_of (memoryStatCollect [\<lparr>Tag = 5, Val = 2000000\<rparr>, \<lparr>Tag = 8, Val = 500000\<rparr>]) = 75 \<and>
   0 \<le> usedPercent_of (memoryStatCollect [\<lparr>Tag = 5, Val = 2000000\<rparr>, \<lparr>Tag = 8, Val = 500000\<rparr>]) \<and>
   usedPercent_of (memoryStatCollect [\<lparr>Tag = 5, Val = 2000000\<rparr>, \<lparr>Tag = 8, Val = 500000\<rparr>]) \<le> 100 \<and>
   usedPercent_of (memoryStatCollect [\<lparr>Tag = 5, Val = 2000000\<rparr>]) = 0 \<and>
   last (memory_stats_metrics domain_1 ''vm-1'') =
     MustNewConstMetric libvirtDomainMemoryStatUsedPercentDesc GaugeValue 75 [''vm-1'']"
proof -
  let ?ms = "[\<lparr>Tag = 5, Val = 2000000\<rparr>, \<lparr>Tag = 8, Val = 500000\<rparr>]"
  let ?M = "memoryStatCollect ?ms"
  let ?N = "memoryStatCollect [\<lparr>Tag = 5, Val = 2000000\<rparr>]"
  have u: "Usable ?M = 500000" and a: "Available ?M = 2000000" by code_simp+
  have v: "f64_div (f64_sub (float64_of_uint64 2000000) (float64_of_uint64 500000))
             (f64_div (float64_of_uint64 2000000) 100) = 75" by code_simp
  have n: "Usable ?N = 0" by code_simp
  have m: "Domain_MemoryStats domain_1 = Inr ?ms" by code_simp
  have h: "0 < uint (Available ?M) \<and> uint (Available ?M) < 2 ^ 53 \<and>
           uint (Usable ?M) \<le> uint (Available ?M)"
    unfolding u a by simp
  note t = C7_used_percent [of ?M domain_1 ?ms "''vm-1''"]
  from t u a have e: "usedPercent_of ?M = 75" by (simp add: v)
  from t h have b: "0 \<le> usedPercent_of ?M \<and> usedPercent_of ?M \<le> 100" by blast
  from t m e have l: "last (memory_stats_metrics domain_1 ''vm-1'') =
     MustNewConstMetric libvirtDomainMemoryStatUsedPercentDesc GaugeValue 75 [''vm-1'']"
    by simp
  from C7_used_percent [of ?N domain_1 ?ms "''vm-1''"] n have z: "usedPercent_of ?N = 0" by simp
  from u a e b z l show ?thesis by simp
qed


end
